(* ===== verification/Prelude.thy ===== *)
theory Prelude
  imports Complex_Main "HOL-Library.Word" "HOL-Library.Sublist"
begin

text \<open>
  Shared vocabulary of the development: the names of the machine types the Rust code uses,
  the lemma collections the component theories add to, and executable models of the few
  Rust standard-library operations the repository calls on strings and lists
  (\<open>format!("{}", n)\<close>, \<open>str::parse::<u32>\<close>, \<open>str::split\<close>,
  \<open>eq_ignore_ascii_case\<close>, \<open>starts_with\<close>, \<open>VecDeque\<close> as a bounded window).
  These are library functions, not code of the repository, so they carry no entry of the
  source map; every lemma about them is generic and used by several components.
\<close>

named_theorems model_defs "definitions of the model unfolded by the component proofs"
named_theorems window_simps "rewrite rules for bounded windows over lists"

type_synonym u32 = "32 word"
type_synonym usize = nat
type_synonym f64 = real

text \<open>
  \<open>usize\<close> is \<open>nat\<close>: the usize quantities of the code (window sizes, buffer sizes, token
  counts widened from \<open>u32\<close>) are far below \<open>2^64\<close>, and Rust's \<open>saturating_sub\<close> on
  them is exactly truncated subtraction on \<open>nat\<close>. \<open>u32\<close> token counts keep their width,
  since the code adds four of them in \<open>u32\<close>. \<open>f64\<close> is \<open>real\<close> where only finite,
  exactly representable values occur; the one place the code divides by a possibly-zero
  \<open>f64\<close> has its own model (theory \<open>Usage\<close>).
\<close>

subsection \<open>Decimal digits\<close>

definition is_digit :: "char \<Rightarrow> bool" where
  "is_digit c \<longleftrightarrow> (48::nat) \<le> of_char c \<and> of_char c \<le> (57::nat)"

definition digit_char :: "nat \<Rightarrow> char" where
  "digit_char d = ''0123456789'' ! d"

definition digit_value :: "char \<Rightarrow> nat" where
  "digit_value c = of_char c - 48"

text \<open>\<open>format!("{}", n)\<close> for an unsigned integer: its decimal digits.\<close>

fun string_of_nat :: "nat \<Rightarrow> string" where
  "string_of_nat n =
     (if n < 10 then [digit_char n] else string_of_nat (n div 10) @ [digit_char (n mod 10)])"

declare string_of_nat.simps [simp del]

definition digits_value :: "string \<Rightarrow> nat" where
  "digits_value ds = foldl (\<lambda>acc c. 10 * acc + digit_value c) 0 ds"

text \<open>
  \<open>str::parse::<u32>\<close>: an optional leading \<open>+\<close>, then one or more ASCII digits, and a
  value below \<open>2^32\<close>; anything else is an error (\<open>None\<close>).
\<close>

definition parse_u32 :: "string \<Rightarrow> nat option" where
  "parse_u32 s =
     (let ds = (if s \<noteq> [] \<and> hd s = CHR ''+'' then tl s else s)
      in if ds \<noteq> [] \<and> list_all is_digit ds \<and> digits_value ds < 2 ^ 32
         then Some (digits_value ds) else None)"

subsection \<open>Splitting and comparing strings\<close>

text \<open>\<open>str::split(d)\<close>: the pieces between separators; always at least one piece.\<close>

fun split_on :: "char \<Rightarrow> string \<Rightarrow> string list" where
  "split_on d [] = [[]]"
| "split_on d (c # cs) =
     (let ps = split_on d cs in if c = d then [] # ps else (c # hd ps) # tl ps)"

definition ascii_lower_code :: "char \<Rightarrow> nat" where
  "ascii_lower_code c = (let n = of_char c in if 65 \<le> n \<and> n \<le> (90::nat) then n + 32 else n)"

text \<open>\<open>eq_ignore_ascii_case\<close>: equal after mapping ASCII upper-case letters to lower case.\<close>

definition eq_ignore_ascii_case :: "string \<Rightarrow> string \<Rightarrow> bool" where
  "eq_ignore_ascii_case a b \<longleftrightarrow> map ascii_lower_code a = map ascii_lower_code b"

subsection \<open>Options\<close>

text \<open>\<open>Option::unwrap_or\<close>.\<close>

definition unwrap_or :: "'a \<Rightarrow> 'a option \<Rightarrow> 'a" where
  "unwrap_or d x = (case x of Some v \<Rightarrow> v | None \<Rightarrow> d)"

lemma unwrap_or_simps [simp]: "unwrap_or d None = d" "unwrap_or d (Some v) = v"
  by (simp_all add: unwrap_or_def)

subsection \<open>Sums over the entries of a map\<close>

definition map_sum :: "('k \<rightharpoonup> 'v) \<Rightarrow> ('v \<Rightarrow> 'a::comm_monoid_add) \<Rightarrow> 'a" where
  "map_sum m g = (\<Sum>k \<in> dom m. g (the (m k)))"

subsection \<open>Bounded windows over a sequence\<close>

text \<open>The last \<open>n\<close> elements of a list: the reference for every tail-reading routine.\<close>

definition last_n :: "nat \<Rightarrow> 'a list \<Rightarrow> 'a list" where
  "last_n n xs = drop (length xs - n) xs"

text \<open>\<open>[T]::join(sep)\<close>: the pieces with the separator between consecutive ones.\<close>

fun join_with :: "'a list \<Rightarrow> 'a list list \<Rightarrow> 'a list" where
  "join_with sep [] = []"
| "join_with sep [x] = x"
| "join_with sep (x # y # zs) = x @ sep @ join_with sep (y # zs)"

lemmas [model_defs] = is_digit_def digit_char_def digit_value_def digits_value_def
  parse_u32_def ascii_lower_code_def eq_ignore_ascii_case_def last_n_def

subsection \<open>Lemmas on digits\<close>

lemma of_char_digit_char: "d < 10 \<Longrightarrow> of_char (digit_char d) = 48 + (d::nat)"
proof -
  assume "d < 10"
  then have "d \<in> {0, 1, 2, 3, 4, 5, 6, 7, 8, 9}" by auto
  then show ?thesis by (auto simp: digit_char_def)
qed

lemma digit_char_is_digit [simp]: "d < 10 \<Longrightarrow> is_digit (digit_char d)"
  by (simp add: is_digit_def of_char_digit_char)

lemma digit_value_digit_char [simp]: "d < 10 \<Longrightarrow> digit_value (digit_char d) = d"
  by (simp add: digit_value_def of_char_digit_char)

text \<open>Guarded unfoldings of \<open>string_of_nat\<close>, which evaluate it on numerals.\<close>

lemma string_of_nat_small [simp]: "n < 10 \<Longrightarrow> string_of_nat n = [digit_char n]"
  by (subst string_of_nat.simps) simp

lemma string_of_nat_large [simp]:
  "10 \<le> n \<Longrightarrow> string_of_nat n = string_of_nat (n div 10) @ [digit_char (n mod 10)]"
  by (subst string_of_nat.simps) simp

lemma digits_value_snoc [simp]:
  "digits_value (ds @ [c]) = 10 * digits_value ds + digit_value c"
  by (simp add: digits_value_def)

lemma string_of_nat_nonempty [simp]: "string_of_nat n \<noteq> []"
  by (subst string_of_nat.simps) simp

lemma string_of_nat_digits: "list_all is_digit (string_of_nat n)"
proof (induction n rule: string_of_nat.induct)
  case (1 n)
  then show ?case by (subst string_of_nat.simps) simp
qed

lemma digits_value_string_of_nat [simp]: "digits_value (string_of_nat n) = n"
proof (induction n rule: string_of_nat.induct)
  case (1 n)
  show ?case
  proof (cases "n < 10")
    case True
    then show ?thesis
      by (subst string_of_nat.simps) (simp add: digits_value_def)
  next
    case False
    with "1.IH" show ?thesis by (subst string_of_nat.simps) simp
  qed
qed

lemma string_of_nat_hd_not_plus: "hd (string_of_nat n) \<noteq> CHR ''+''"
proof -
  have "is_digit (hd (string_of_nat n))"
    using string_of_nat_digits [of n] by (cases "string_of_nat n") auto
  then show ?thesis by (auto simp: is_digit_def)
qed

text \<open>Printing a \<open>u32\<close> in decimal and parsing it back gives the number.\<close>

lemma parse_u32_string_of_nat [simp]: "n < 2 ^ 32 \<Longrightarrow> parse_u32 (string_of_nat n) = Some n"
  using string_of_nat_hd_not_plus [of n] string_of_nat_digits [of n]
  by (simp add: parse_u32_def)

lemma parse_u32_bound: "parse_u32 s = Some n \<Longrightarrow> n < 2 ^ 32"
  by (auto simp: parse_u32_def Let_def split: if_splits)

subsection \<open>Lemmas on map sums\<close>

lemma map_sum_empty [simp]: "map_sum Map.empty g = 0"
  by (simp add: map_sum_def)

lemma map_sum_upd:
  fixes g :: "'v \<Rightarrow> 'a::ab_group_add"
  assumes "finite (dom m)"
  shows "map_sum (m(k \<mapsto> v)) g = map_sum m g - (case m k of None \<Rightarrow> 0 | Some v0 \<Rightarrow> g v0) + g v"
proof (cases "m k")
  case None
  then have "k \<notin> dom m" by auto
  moreover have "(\<Sum>x \<in> dom m. g (the ((m(k \<mapsto> v)) x))) = (\<Sum>x \<in> dom m. g (the (m x)))"
    using \<open>k \<notin> dom m\<close> by (intro sum.cong) auto
  ultimately show ?thesis using assms None by (simp add: map_sum_def)
next
  case (Some v0)
  then have k: "k \<in> dom m" by auto
  have "(\<Sum>x \<in> dom m. g (the ((m(k \<mapsto> v)) x))) = g v + (\<Sum>x \<in> dom m - {k}. g (the (m x)))"
    using assms k by (simp add: sum.remove)
  moreover have "(\<Sum>x \<in> dom m. g (the (m x))) = g v0 + (\<Sum>x \<in> dom m - {k}. g (the (m x)))"
    using assms k Some by (simp add: sum.remove)
  ultimately show ?thesis using k Some by (simp add: map_sum_def insert_absorb)
qed

subsection \<open>Lemmas on splitting\<close>

lemma split_on_nonempty [simp]: "split_on d s \<noteq> []"
  by (induction s) (auto simp: Let_def)

lemma concat_split_on_no_sep: "d \<notin> set s \<Longrightarrow> split_on d s = [s]"
  by (induction s) (auto simp: Let_def)

subsection \<open>Lemmas on bounded windows\<close>

lemma last_n_length [window_simps]: "length (last_n n xs) = min n (length xs)"
  by (simp add: last_n_def)

lemma last_n_all [window_simps]: "length xs \<le> n \<Longrightarrow> last_n n xs = xs"
  by (simp add: last_n_def)

lemma last_n_snoc_full [window_simps]:
  "length xs \<ge> n \<Longrightarrow> 0 < n \<Longrightarrow> last_n n (xs @ [x]) = tl (last_n n xs) @ [x]"
  by (simp add: last_n_def Suc_diff_le drop_Suc tl_drop)

lemma last_n_suffix: "suffix (last_n n xs) xs"
  by (simp add: last_n_def suffix_drop)

lemma last_n_append_last_n [window_simps]: "last_n n (last_n n xs @ ys) = last_n n (xs @ ys)"
  by (cases "n \<le> length xs") (simp_all add: last_n_def drop_append min_def add.commute)

lemma rev_take_rev_last_n [window_simps]: "rev (take n (rev xs)) = last_n n xs"
  by (simp add: last_n_def take_rev)

lemma last_n_zero [simp]: "last_n 0 xs = []"
  by (simp add: last_n_def)


lemma replicate_numeral [simp]: "replicate (numeral n) x = x # replicate (pred_numeral n) x"
  by (simp add: numeral_eq_Suc)

end
