(* ===== verification/Terminal.thy ===== *)
theory Terminal
  imports Prelude
begin

text \<open>
  Text that reaches the terminal (\<open>src/src/utils.rs\<close>): \<open>sanitize_for_terminal\<close>, which
  removes SGR colour sequences and control characters from untrusted text (the directory
  and the model name), and \<open>shorten_path\<close>, which abbreviates the home directory to
  \<open>~\<close>. Both work on Rust \<open>char\<close>s, i.e. Unicode scalar values, so their strings are
  lists of code points (\<open>ustr\<close>); \<open>u\<close> reads an ASCII literal as such a list. The value
  of \<open>HOME\<close> is an argument (\<open>None\<close> when \<open>env::var\<close> fails).
\<close>

type_synonym ustr = "nat list"

definition u :: "string \<Rightarrow> ustr" where
  "u s = map of_char s"

definition esc :: nat where
  "esc = 0x1B"

subsection \<open>Sanitising\<close>

text \<open>
  \<open>Regex::new(r"\x1b\[[0-9;]*m").replace_all(input, "")\<close>: scanning from the left, an
  escape, \<open>[\<close>, a run of digits and semicolons and \<open>m\<close> is removed and the scan goes on
  after it; any other character is kept. The run is maximal, since a shorter one is
  followed by a digit or semicolon and not by \<open>m\<close>.
\<close>

definition sgr_param :: "nat \<Rightarrow> bool" where
  "sgr_param c \<longleftrightarrow> (48 \<le> c \<and> c \<le> 57) \<or> c = 59"

function strip_ansi :: "ustr \<Rightarrow> ustr" where
  "strip_ansi [] = []"
| "strip_ansi (c # cs) =
     (case cs of
        [] \<Rightarrow> [c]
      | b # rest \<Rightarrow>
          (let r = dropWhile sgr_param rest in
           if c = esc \<and> b = 0x5B \<and> r \<noteq> [] \<and> hd r = 0x6D then strip_ansi (tl r)
           else c # strip_ansi cs))"
  by pat_completeness auto

termination
proof (relation "measure length")
  fix c cs b rest r
  assume "cs = b # rest" and "r = dropWhile sgr_param rest"
  moreover have "length (dropWhile sgr_param rest) \<le> length rest" by (rule length_dropWhile_le)
  ultimately show "(tl r, c # cs) \<in> measure length" by simp
qed auto

text \<open>The filter of \<open>.chars().filter(...)\<close>: tab, line feed and carriage return, and every
  character from U+0020 on except DEL and the C1 controls U+0080 to U+009F.\<close>

definition keep_char :: "nat \<Rightarrow> bool" where
  "keep_char c \<longleftrightarrow> (c = 9 \<or> c = 10 \<or> c = 13) \<or> (0x20 \<le> c \<and> c \<noteq> 0x7F \<and> \<not> (0x80 \<le> c \<and> c \<le> 0x9F))"

definition sanitize_for_terminal :: "ustr \<Rightarrow> ustr" where
  "sanitize_for_terminal input = filter keep_char (strip_ansi input)"

subsection \<open>Shortening the home directory\<close>

text \<open>\<open>str::replacen(pat, to, 1)\<close>: the first occurrence of \<open>pat\<close> replaced; the empty
  pattern occurs at the start.\<close>

fun replace_first :: "'a list \<Rightarrow> 'a list \<Rightarrow> 'a list \<Rightarrow> 'a list" where
  "replace_first pat rep [] = (if pat = [] then rep else [])"
| "replace_first pat rep (c # cs) =
     (if prefix pat (c # cs) then rep @ drop (length pat) (c # cs) else c # replace_first pat rep cs)"

definition shorten_path :: "ustr option \<Rightarrow> ustr \<Rightarrow> ustr" where
  "shorten_path home path =
     (if path = [] then []
      else case home of
        None \<Rightarrow> path
      | Some h \<Rightarrow>
          if path = h then u ''~''
          else if prefix h path then replace_first h (u ''~'') path
          else path)"

text \<open>Reading a shortened path back: a leading \<open>~\<close> stands for the home directory.\<close>

definition expand_home :: "ustr \<Rightarrow> ustr \<Rightarrow> ustr" where
  "expand_home h p = (if p \<noteq> [] \<and> hd p = of_char CHR ''~'' then h @ tl p else p)"

lemmas terminal_defs [model_defs] = u_def esc_def sgr_param_def keep_char_def
  sanitize_for_terminal_def shorten_path_def

subsection \<open>Lemmas\<close>

lemma keep_char_esc [simp]: "\<not> keep_char esc"
  by (simp add: keep_char_def esc_def)

lemma strip_ansi_no_esc: "esc \<notin> set s \<Longrightarrow> strip_ansi s = s"
proof (induction s rule: strip_ansi.induct)
  case (2 c cs)
  then have c: "c \<noteq> esc" and rest: "esc \<notin> set cs" by auto
  show ?case
  proof (cases cs)
    case Nil
    then show ?thesis by simp
  next
    case (Cons b rest)
    have "strip_ansi cs = cs" using "2.IH"(2) [OF Cons refl] c rest by simp
    with c Cons show ?thesis by (simp add: Let_def)
  qed
qed simp

lemma strip_ansi_subseq: "subseq (strip_ansi s) s"
proof (induction s rule: strip_ansi.induct)
  case 1
  then show ?case by simp
next
  case (2 c cs)
  show ?case
  proof (cases cs)
    case Nil
    then show ?thesis by simp
  next
    case (Cons b rest)
    let ?r = "dropWhile sgr_param rest"
    show ?thesis
    proof (cases "c = esc \<and> b = 0x5B \<and> ?r \<noteq> [] \<and> hd ?r = 0x6D")
      case True
      have "suffix (tl ?r) ?r" by (simp add: suffix_tl)
      also have "suffix ?r rest" by (rule suffix_dropWhile)
      also have "suffix rest (c # cs)" using Cons by (simp add: suffix_def)
      finally have "subseq (tl ?r) (c # cs)" by (rule suffix_imp_subseq)
      with "2.IH"(1) [OF Cons refl] True Cons show ?thesis
        by (auto simp: Let_def intro: subseq_order.order_trans)
    next
      case False
      then have "strip_ansi (c # cs) = c # strip_ansi cs" using Cons
        by (subst strip_ansi.simps) (simp only: list.case Let_def if_not_P [OF False] if_False)
      with "2.IH"(2) [OF Cons refl False] show ?thesis by simp
    qed
  qed
qed

lemma replace_first_prefix: "prefix pat p \<Longrightarrow> replace_first pat rep p = rep @ drop (length pat) p"
  by (cases p) auto

lemma sanitize_eq_filter: "esc \<notin> set s \<Longrightarrow> sanitize_for_terminal s = filter keep_char s"
  by (simp add: sanitize_for_terminal_def strip_ansi_no_esc)

lemma dropWhile_sgr_params:
  "list_all sgr_param ps \<Longrightarrow> \<not> sgr_param x \<Longrightarrow> dropWhile sgr_param (ps @ x # b) = x # b"
  by (induction ps) simp_all

lemma strip_ansi_sgr:
  assumes ps: "list_all sgr_param ps"
  shows "esc \<notin> set a \<Longrightarrow> strip_ansi (a @ esc # 0x5B # ps @ 0x6D # b) = a @ strip_ansi b"
proof (induction a)
  case Nil
  have "dropWhile sgr_param (ps @ 0x6D # b) = 0x6D # b"
    using ps by (rule dropWhile_sgr_params) (simp add: sgr_param_def)
  then show ?case by (simp add: esc_def Let_def sgr_param_def)
next
  case (Cons c a)
  then show ?case by (cases a) (simp_all add: Let_def)
qed

lemma strip_ansi_non_sgr:
  assumes ps: "list_all sgr_param ps" and x: "\<not> sgr_param x" "x \<noteq> 0x6D"
  shows "esc \<notin> set a \<Longrightarrow>
         strip_ansi (a @ esc # 0x5B # ps @ x # b) = a @ esc # strip_ansi (0x5B # ps @ x # b)"
proof (induction a)
  case Nil
  then show ?case using dropWhile_sgr_params [OF ps x(1)] x(2) by (simp add: Let_def)
next
  case (Cons c a)
  then show ?case by (cases a) (simp_all add: Let_def)
qed

subsection \<open>Properties of the sanitiser\<close>

text \<open>
  C16. Whatever the input, the sanitised text holds no control character other than tab,
  line feed and carriage return: every character is one of those three or lies at
  U+0020 or above and is neither DEL (U+007F) nor a C1 control (U+0080 to U+009F, among
  them the one-character CSI U+009B). In particular there is no escape character, so the
  text cannot start a terminal control sequence.
\<close>

theorem sanitize_output_safe:
  "\<forall>c \<in> set (sanitize_for_terminal s).
     c = 9 \<or> c = 10 \<or> c = 13 \<or> (0x20 \<le> c \<and> c \<noteq> 0x7F \<and> (c < 0x80 \<or> 0x9F < c))"
  by (auto simp: sanitize_for_terminal_def keep_char_def)

theorem sanitize_output_safe_witness:
  "0x9B \<notin> set (sanitize_for_terminal (esc # u ''[2J'' @ [0x9B, 0x07, 0x41])) \<and>
   0x07 \<notin> set (sanitize_for_terminal (esc # u ''[2J'' @ [0x9B, 0x07, 0x41]))"
  using sanitize_output_safe [of "esc # u ''[2J'' @ [0x9B, 0x07, 0x41]"] by fastforce

text \<open>
  C17. Sanitising is idempotent: text that went through the sanitiser once is left
  unchanged by a second pass.
\<close>

theorem sanitize_idempotent:
  "sanitize_for_terminal (sanitize_for_terminal s) = sanitize_for_terminal s"
proof -
  have "esc \<notin> set (sanitize_for_terminal s)" by (simp add: sanitize_for_terminal_def)
  then have "sanitize_for_terminal (sanitize_for_terminal s) = filter keep_char (sanitize_for_terminal s)"
    by (rule sanitize_eq_filter)
  then show ?thesis by (simp add: sanitize_for_terminal_def)
qed

text \<open>
  The sanitiser only removes characters: its output is a subsequence of its input.
\<close>

theorem sanitize_only_removes:
  "subseq (sanitize_for_terminal s) s"
proof -
  have "subseq (filter keep_char (strip_ansi s)) (strip_ansi s)" by (rule subseq_filter_left)
  also have "subseq (strip_ansi s) s" by (rule strip_ansi_subseq)
  finally show ?thesis by (simp add: sanitize_for_terminal_def)
qed

text \<open>
  On input without an escape character the sanitiser is the character filter alone.
\<close>

theorem sanitize_without_escape:
  assumes "esc \<notin> set s"
  shows "sanitize_for_terminal s = filter keep_char s"
  using assms by (rule sanitize_eq_filter)

theorem sanitize_without_escape_witness:
  "esc \<notin> set (u ''a'' @ [9, 0x7F, 0x85, 0x263A]) \<and>
   sanitize_for_terminal (u ''a'' @ [9, 0x7F, 0x85, 0x263A]) = u ''a'' @ [9, 0x263A]"
  using sanitize_without_escape [of "u ''a'' @ [9, 0x7F, 0x85, 0x263A]"]
  by (simp add: u_def esc_def keep_char_def)

text \<open>
  C18. Only colour sequences (SGR: escape, \<open>[\<close>, digits and semicolons, \<open>m\<close>) are removed
  whole, wherever they stand after escape-free text. The doc comment says ANSI escape
  sequences are removed; of a control sequence with any other final character, such as
  \<open>ESC [2J\<close> (clear screen), only the escape character goes and \<open>[\<close>, its parameters
  and its final character stay in the output as text.
\<close>

theorem sanitize_leaves_non_sgr_residue:
  assumes ps: "list_all sgr_param ps" and a: "esc \<notin> set a" and b: "esc \<notin> set b"
    and x: "\<not> sgr_param x" "x \<noteq> 0x6D" "x \<noteq> esc"
  shows "sanitize_for_terminal (a @ esc # 0x5B # ps @ 0x6D # b) = filter keep_char (a @ b) \<and>
         sanitize_for_terminal (a @ esc # 0x5B # ps @ x # b) = filter keep_char (a @ 0x5B # ps @ x # b)"
proof -
  have "esc \<notin> set ps" using ps by (auto simp: list_all_iff sgr_param_def esc_def)
  then have "esc \<notin> set (0x5B # ps @ x # b)" using b x by (simp add: esc_def)
  then have "strip_ansi (0x5B # ps @ x # b) = 0x5B # ps @ x # b" by (rule strip_ansi_no_esc)
  then have "strip_ansi (a @ esc # 0x5B # ps @ x # b) = a @ esc # 0x5B # ps @ x # b"
    by (simp only: strip_ansi_non_sgr [OF ps x(1,2) a])
  moreover have "strip_ansi (a @ esc # 0x5B # ps @ 0x6D # b) = a @ b"
    using strip_ansi_sgr [OF ps a] strip_ansi_no_esc [OF b] by simp
  ultimately show ?thesis by (simp add: sanitize_for_terminal_def)
qed

theorem sanitize_leaves_non_sgr_residue_witness:
  "sanitize_for_terminal (u ''a'' @ esc # u ''[31mred'') = u ''ared'' \<and>
   sanitize_for_terminal (u ''a'' @ esc # u ''[2Jred'') = u ''a[2Jred''"
  using sanitize_leaves_non_sgr_residue [of "u ''31''" "u ''a''" "u ''red''" "of_char CHR ''J''"]
    sanitize_leaves_non_sgr_residue [of "u ''2''" "u ''a''" "u ''red''" "of_char CHR ''J''"]
  by (simp_all add: u_def esc_def sgr_param_def keep_char_def)

text \<open>
  The scan of \<open>replace_all\<close> ends on every input: each step consumes at least the
  character it looks at, so the recursion is well founded on the length of the rest, and
  the result is never longer than the input.
\<close>

theorem strip_ansi_terminates: "strip_ansi_dom s \<and> length (strip_ansi s) \<le> length s"
proof
  have dec: "length x < length y" if "strip_ansi_rel x y" for x y
    using that
  proof (cases rule: strip_ansi_rel.cases)
    case (1 c cs b rest r)
    then show ?thesis using length_dropWhile_le [of sgr_param rest] by simp
  qed simp
  have "wfp strip_ansi_rel" using dec by (rule wfp_if_convertible_to_nat)
  then show "strip_ansi_dom s" by (rule accp_wfpD)
  show "length (strip_ansi s) \<le> length s"
    using strip_ansi_subseq [of s] by (rule list_emb_length)
qed

subsection \<open>Properties of path shortening\<close>

text \<open>
  C19. For a non-empty home directory, shortening a path under it and expanding the
  leading \<open>~\<close> again gives the path back.
\<close>

theorem shorten_expand_roundtrip:
  assumes "h \<noteq> []" and "prefix h p"
  shows "expand_home h (shorten_path (Some h) p) = p"
proof -
  from assms have "p \<noteq> []" by auto
  with assms show ?thesis
    by (auto simp: shorten_path_def expand_home_def replace_first_prefix u_def prefix_def)
qed

theorem shorten_expand_roundtrip_witness:
  "u ''/home/ann'' \<noteq> [] \<and> prefix (u ''/home/ann'') (u ''/home/ann/src'') \<and>
   shorten_path (Some (u ''/home/ann'')) (u ''/home/ann/src'') = u ''~/src'' \<and>
   expand_home (u ''/home/ann'') (shorten_path (Some (u ''/home/ann'')) (u ''/home/ann/src'')) =
     u ''/home/ann/src''"
  using shorten_expand_roundtrip [of "u ''/home/ann''" "u ''/home/ann/src''"]
  by (simp add: shorten_path_def u_def)

text \<open>
  C20. For every \<open>HOME\<close> and every non-empty path, the test is a string prefix, not a path
  prefix: whenever the path's text starts with \<open>HOME\<close>, that text is replaced by \<open>~\<close>.
  So with \<open>HOME=/home/user\<close> the sibling directory \<open>/home/username/x\<close> is shown as
  \<open>~name/x\<close>, with \<open>HOME=/\<close> every absolute path loses its first slash, and an empty
  \<open>HOME\<close> puts \<open>~\<close> in front of every path.
\<close>

theorem shorten_path_string_prefix:
  "shorten_path (Some h) p =
     (if p = [] then [] else if prefix h p then u ''~'' @ drop (length h) p else p)"
  by (auto simp: shorten_path_def replace_first_prefix u_def)

theorem shorten_path_string_prefix_examples:
  "shorten_path (Some (u ''/home/user'')) (u ''/home/username/x'') = u ''~name/x'' \<and>
   shorten_path (Some (u ''/'')) (u ''/tmp'') = u ''~tmp'' \<and>
   shorten_path (Some []) (u ''/tmp'') = u ''~/tmp''"
  by (simp add: shorten_path_def u_def)

end
