(* ===== verification/Paths.thy ===== *)
theory Paths
  imports Prelude
begin

text \<open>
  Path validation: \<open>validate_path_security\<close> (\<open>src/src/common.rs\<close>) and
  \<open>validate_transcript_file\<close> (\<open>src/src/utils.rs\<close>), over an explicit model of the
  filesystem. \<open>fs::canonicalize\<close> and \<open>fs::metadata\<close> are the two calls the code makes
  on the filesystem; they are fields of the \<open>filesystem\<close> record, so that every theorem
  holds for every filesystem. The error type is the crate's \<open>StatuslineError\<close>, whose
  module is not under \<open>src/\<close>; its constructors follow the taxonomy of the specification.
  \<open>Path::extension\<close> is modelled on the standard library's rule (the text after the last
  dot of the file name, unless that dot is the first character).
\<close>

datatype statusline_error =
  InvalidPath string
| ConfigError string
| DatabaseError string
| IoError string

datatype file_type = RegularFile | Directory | OtherFile

record file_meta =
  ftype :: file_type
  contents :: string
  modified_elapsed :: "nat option"

text \<open>
  \<open>contents\<close> are the file's bytes (its size is their number); \<open>modified_elapsed\<close> is
  \<open>SystemTime::now().duration_since(modified)\<close> in whole seconds, \<open>None\<close> when the
  modification time or the clock comparison fails.
\<close>

record filesystem =
  canonicalize :: "string \<rightharpoonup> string"
  metadata :: "string \<rightharpoonup> file_meta"

definition null_char :: char where
  "null_char = CHR 0x00"

definition validate_path_security :: "filesystem \<Rightarrow> string \<Rightarrow> statusline_error + string" where
  "validate_path_security fs path =
     (if null_char \<in> set path then Inl (InvalidPath ''Path contains null bytes'')
      else case canonicalize fs path of
        None \<Rightarrow> Inl (InvalidPath (''Cannot canonicalize path: '' @ path))
      | Some p \<Rightarrow> Inr p)"

definition is_file :: "filesystem \<Rightarrow> string \<Rightarrow> bool" where
  "is_file fs p \<longleftrightarrow> (case metadata fs p of Some m \<Rightarrow> ftype m = RegularFile | None \<Rightarrow> False)"

text \<open>
  \<open>Path::file_name\<close> on a canonical path: its last segment, \<open>None\<close> for the root and
  for a path ending in \<open>..\<close>.
\<close>

definition file_name :: "string \<Rightarrow> string option" where
  "file_name p =
     (let c = last (split_on CHR ''/'' p) in if c = [] \<or> c = ''..'' then None else Some c)"

text \<open>\<open>rsplit_file_at_dot\<close> followed by \<open>before.and(after)\<close>.\<close>

definition extension_of :: "string \<Rightarrow> string option" where
  "extension_of f =
     (if f = ''..'' \<or> CHR ''.'' \<notin> set f then None
      else let before = rev (tl (dropWhile (\<lambda>c. c \<noteq> CHR ''.'') (rev f)));
               after = rev (takeWhile (\<lambda>c. c \<noteq> CHR ''.'') (rev f))
           in if before = [] then None else Some after)"

definition path_extension :: "string \<Rightarrow> string option" where
  "path_extension p = (case file_name p of None \<Rightarrow> None | Some f \<Rightarrow> extension_of f)"

definition validate_transcript_file :: "filesystem \<Rightarrow> string \<Rightarrow> statusline_error + string" where
  "validate_transcript_file fs path =
     (case validate_path_security fs path of
        Inl e \<Rightarrow> Inl e
      | Inr canonical_path \<Rightarrow>
          if \<not> is_file fs canonical_path
          then Inl (InvalidPath (''Path is not a file: '' @ path))
          else case path_extension canonical_path of
              Some ext \<Rightarrow>
                if \<not> eq_ignore_ascii_case ext ''jsonl''
                then Inl (InvalidPath ''Only .jsonl files are allowed for transcripts'')
                else Inr canonical_path
            | None \<Rightarrow> Inl (InvalidPath ''File must have .jsonl extension''))"

lemmas path_defs [model_defs] = null_char_def validate_path_security_def is_file_def
  file_name_def extension_of_def path_extension_def validate_transcript_file_def

text \<open>
  A filesystem with one regular file \<open>/t/a.JSONL\<close> and two symbolic links to it, one
  of them named \<open>$(whoami)\<close> in the working directory.
\<close>

definition example_paths_fs :: filesystem where
  "example_paths_fs =
     \<lparr>canonicalize = [''/t/a.JSONL'' \<mapsto> ''/t/a.JSONL'', ''/t/link'' \<mapsto> ''/t/a.JSONL'',
                     ''$(whoami)'' \<mapsto> ''/t/a.JSONL''],
      metadata = [''/t/a.JSONL'' \<mapsto> \<lparr>ftype = RegularFile, contents = [], modified_elapsed = None\<rparr>]\<rparr>"

subsection \<open>Basic facts\<close>

lemma validate_path_security_Inr:
  "validate_path_security fs path = Inr p \<longleftrightarrow>
     null_char \<notin> set path \<and> canonicalize fs path = Some p"
  by (auto simp: validate_path_security_def split: option.splits)

lemma validate_path_security_Inl:
  "validate_path_security fs path = Inl e \<Longrightarrow> \<exists>msg. e = InvalidPath msg"
  by (auto simp: validate_path_security_def split: option.splits if_splits)

lemma validate_transcript_file_Inr:
  "validate_transcript_file fs path = Inr p \<longleftrightarrow>
     null_char \<notin> set path \<and> canonicalize fs path = Some p \<and> is_file fs p \<and>
     (\<exists>ext. path_extension p = Some ext \<and> eq_ignore_ascii_case ext ''jsonl'')"
  by (auto simp: validate_transcript_file_def validate_path_security_def
           split: sum.splits option.splits if_splits)

lemma validate_transcript_file_Inl:
  "validate_transcript_file fs path = Inl e \<Longrightarrow> \<exists>msg. e = InvalidPath msg"
  by (auto simp: validate_transcript_file_def dest: validate_path_security_Inl
           split: sum.splits option.splits if_splits)

lemma is_file_metadata:
  "is_file fs p \<Longrightarrow> \<exists>m. metadata fs p = Some m \<and> ftype m = RegularFile"
  by (auto simp: is_file_def split: option.splits)

lemma extension_of_Some:
  assumes "extension_of f = Some e"
  shows "\<exists>before. before \<noteq> [] \<and> f = before @ CHR ''.'' # e \<and> CHR ''.'' \<notin> set e"
proof -
  let ?P = "\<lambda>c. c \<noteq> CHR ''.''"
  let ?tw = "takeWhile ?P (rev f)" and ?dw = "dropWhile ?P (rev f)"
  from assms have dot: "CHR ''.'' \<in> set (rev f)"
    and e: "e = rev ?tw" and before: "rev (tl ?dw) \<noteq> []"
    by (auto simp: extension_of_def Let_def split: if_splits)
  from dot have ne: "?dw \<noteq> []" by (simp add: dropWhile_eq_Nil_conv)
  moreover from hd_dropWhile [OF ne] have "hd ?dw = CHR ''.''" by simp
  ultimately have dw: "?dw = CHR ''.'' # tl ?dw" by (metis list.collapse)
  have "f = rev (?tw @ ?dw)" by simp
  also have "\<dots> = rev (tl ?dw) @ CHR ''.'' # e" by (subst dw) (simp add: e)
  finally have "f = rev (tl ?dw) @ CHR ''.'' # e" .
  moreover have "CHR ''.'' \<notin> set e" using e by (auto dest: set_takeWhileD)
  ultimately show ?thesis using before by blast
qed

subsection \<open>Properties of the validation\<close>

text \<open>
  C11. A path containing a NUL byte is rejected with the null-byte error, whatever the
  filesystem holds, before the filesystem is consulted.
\<close>

theorem validate_rejects_null_byte:
  assumes "null_char \<in> set path"
  shows "validate_transcript_file fs path = Inl (InvalidPath ''Path contains null bytes'')"
  using assms by (simp add: validate_transcript_file_def validate_path_security_def)

theorem validate_rejects_null_byte_witness:
  "null_char \<in> set (''/t/a'' @ [CHR 0x00] @ ''.jsonl'') \<and>
   validate_transcript_file example_paths_fs (''/t/a'' @ [CHR 0x00] @ ''.jsonl'') =
     Inl (InvalidPath ''Path contains null bytes'')"
  using validate_rejects_null_byte [of "''/t/a'' @ [CHR 0x00] @ ''.jsonl''" example_paths_fs]
  by (simp add: null_char_def)

text \<open>
  An accepted transcript path is the canonical form of the given path, names a
  regular file, and that file's name is a non-empty stem, a dot, and an extension with
  no dot that equals \<open>jsonl\<close> ignoring ASCII case.
\<close>

theorem validate_accepts_only_jsonl:
  assumes "validate_transcript_file fs path = Inr p"
  shows "canonicalize fs path = Some p \<and> is_file fs p \<and>
         (\<exists>f stem ext. file_name p = Some f \<and> f = stem @ CHR ''.'' # ext \<and> stem \<noteq> [] \<and>
            CHR ''.'' \<notin> set ext \<and> map ascii_lower_code ext = map ascii_lower_code ''jsonl'')"
proof -
  from assms obtain ext where v: "canonicalize fs path = Some p" "is_file fs p"
    and ext: "path_extension p = Some ext" "eq_ignore_ascii_case ext ''jsonl''"
    by (auto simp: validate_transcript_file_Inr)
  from ext(1) obtain f where f: "file_name p = Some f" "extension_of f = Some ext"
    by (auto simp: path_extension_def split: option.splits)
  from extension_of_Some [OF f(2)] obtain stem where
    "stem \<noteq> []" "f = stem @ CHR ''.'' # ext" "CHR ''.'' \<notin> set ext" by blast
  with v f ext(2) show ?thesis unfolding eq_ignore_ascii_case_def by blast
qed

theorem validate_accepts_only_jsonl_witness:
  "validate_transcript_file example_paths_fs ''/t/a.JSONL'' = Inr ''/t/a.JSONL'' \<and>
   canonicalize example_paths_fs ''/t/a.JSONL'' = Some ''/t/a.JSONL'' \<and>
   is_file example_paths_fs ''/t/a.JSONL''"
proof -
  have v: "validate_transcript_file example_paths_fs ''/t/a.JSONL'' = Inr ''/t/a.JSONL''"
    by (simp add: validate_transcript_file_def validate_path_security_def example_paths_fs_def
        null_char_def is_file_def path_extension_def file_name_def extension_of_def
        eq_ignore_ascii_case_def ascii_lower_code_def)
  from validate_accepts_only_jsonl [OF v] v show ?thesis by simp
qed

text \<open>
  C13. The extension that is checked is that of the resolved target, not of the path
  given: for every filesystem and every path without a NUL byte that canonicalizes to a
  regular file whose name ends in \<open>.jsonl\<close> (any case), the path is accepted, whatever
  its own name is. So a path with no extension, with another extension, or made only of
  shell metacharacters passes when it is a symbolic link to a \<open>.jsonl\<close> file. The
  specification says validation rejects a path with a non-\<open>.jsonl\<close> extension and shell
  metacharacters used as the entire path.
\<close>

theorem validate_checks_target_extension:
  assumes "null_char \<notin> set path" and "canonicalize fs path = Some target"
    and "is_file fs target" and "path_extension target = Some ext"
    and "eq_ignore_ascii_case ext ''jsonl''"
  shows "validate_transcript_file fs path = Inr target"
  using assms by (auto simp: validate_transcript_file_Inr)

theorem validate_checks_target_extension_witness:
  "validate_transcript_file example_paths_fs ''$(whoami)'' = Inr ''/t/a.JSONL'' \<and>
   validate_transcript_file example_paths_fs ''/t/link'' = Inr ''/t/a.JSONL''"
proof -
  have t: "is_file example_paths_fs ''/t/a.JSONL''" "path_extension ''/t/a.JSONL'' = Some ''JSONL''"
    "eq_ignore_ascii_case ''JSONL'' ''jsonl''"
    by (simp_all add: example_paths_fs_def is_file_def path_extension_def file_name_def
        extension_of_def eq_ignore_ascii_case_def ascii_lower_code_def)
  show ?thesis
    using validate_checks_target_extension [of "''$(whoami)''" example_paths_fs "''/t/a.JSONL''", OF _ _ t]
      validate_checks_target_extension [of "''/t/link''" example_paths_fs "''/t/a.JSONL''", OF _ _ t]
    by (simp add: example_paths_fs_def null_char_def)
qed

text \<open>
  The injection strings of the unit test resolve to nothing in a filesystem without them
  and are rejected by \<open>canonicalize\<close>.
\<close>

theorem validate_rejects_unresolvable_examples:
  "validate_transcript_file example_paths_fs ''/tmp/test.jsonl; rm -rf /'' =
     Inl (InvalidPath (''Cannot canonicalize path: '' @ ''/tmp/test.jsonl; rm -rf /'')) \<and>
   validate_transcript_file example_paths_fs ''/tmp/test.jsonl$(whoami)'' =
     Inl (InvalidPath (''Cannot canonicalize path: '' @ ''/tmp/test.jsonl$(whoami)''))"
  by (simp add: validate_transcript_file_def validate_path_security_def example_paths_fs_def
      null_char_def)

end
