(* ===== verification/Compaction.thy ===== *)
theory Compaction
  imports Paths
begin

text \<open>
  The Compaction Detector, \<open>detect_compaction_state\<close> of \<open>src/src/utils.rs\<close>. It reads
  three signals from its environment and classifies the transcript as \<open>Normal\<close>,
  \<open>InProgress\<close> or \<open>RecentlyCompleted\<close>:
  \<^item> the hook state written by the external hook (\<open>crate::state::read_state\<close>, not under
    \<open>src/\<close>; it already applies its own staleness rule, so the model receives the fresh
    state or nothing);
  \<^item> the session's high-water mark of tokens from the stats database
    (\<open>SqliteDatabase::get_session_max_tokens\<close>; \<open>None\<close> in the outer option when the
    database cannot be opened);
  \<^item> whether the validated transcript was modified less than 10 seconds ago.
  The decision itself is \<open>classify_compaction\<close>, a pure function of the last known token
  count, the recency flag and the current count. The \<open>f64\<close> drop ratio is a quotient of
  two integers below \<open>2^32\<close> (the token counts are widened \<open>u32\<close>), and comparing such
  a quotient with 0.5 in \<open>f64\<close> gives the exact answer, so the ratio is modelled as a real.
\<close>

datatype compaction_state = Normal | InProgress | RecentlyCompleted

record hook_state =
  state :: string
  trigger :: string

record compaction_env =
  read_state :: "string \<rightharpoonup> hook_state"
  stats_db :: "(string \<Rightarrow> usize option) option"
  transcript_fs :: filesystem

definition drop_ratio :: "usize \<Rightarrow> usize \<Rightarrow> f64" where
  "drop_ratio last_tokens current_tokens =
     (if last_tokens > 0 then real (last_tokens - current_tokens) / real last_tokens else 0)"

definition classify_compaction :: "usize option \<Rightarrow> bool \<Rightarrow> usize \<Rightarrow> compaction_state" where
  "classify_compaction last_known_tokens recently_modified current_tokens =
     (case last_known_tokens of
        None \<Rightarrow> Normal
      | Some last_tokens \<Rightarrow>
          if drop_ratio last_tokens current_tokens > 1 / 2
          then (if recently_modified then InProgress else RecentlyCompleted)
          else if recently_modified \<and> last_tokens > current_tokens * 2 then InProgress
          else Normal)"

definition recently_modified :: "filesystem \<Rightarrow> string \<Rightarrow> bool" where
  "recently_modified fs transcript_path =
     (case validate_transcript_file fs transcript_path of
        Inr safe_path \<Rightarrow>
          (case metadata fs safe_path of
             Some m \<Rightarrow> (case modified_elapsed m of Some elapsed \<Rightarrow> elapsed < 10 | None \<Rightarrow> False)
           | None \<Rightarrow> False)
      | Inl _ \<Rightarrow> False)"

definition hook_reports_compacting :: "'a compaction_env_scheme \<Rightarrow> string option \<Rightarrow> bool" where
  "hook_reports_compacting env session_id =
     (case session_id of
        Some sid \<Rightarrow> (case read_state env sid of Some h \<Rightarrow> state h = ''compacting'' | None \<Rightarrow> False)
      | None \<Rightarrow> False)"

definition last_known_tokens :: "'a compaction_env_scheme \<Rightarrow> string option \<Rightarrow> usize option" where
  "last_known_tokens env session_id =
     (case session_id of
        Some sid \<Rightarrow> (case stats_db env of Some db \<Rightarrow> db sid | None \<Rightarrow> None)
      | None \<Rightarrow> None)"

definition detect_compaction_state ::
  "'a compaction_env_scheme \<Rightarrow> string \<Rightarrow> usize \<Rightarrow> string option \<Rightarrow> compaction_state" where
  "detect_compaction_state env transcript_path current_tokens session_id =
     (if hook_reports_compacting env session_id then InProgress
      else classify_compaction (last_known_tokens env session_id)
             (recently_modified (transcript_fs env) transcript_path) current_tokens)"

lemmas compaction_defs [model_defs] = drop_ratio_def classify_compaction_def
  recently_modified_def hook_reports_compacting_def last_known_tokens_def
  detect_compaction_state_def

subsection \<open>A concrete environment\<close>

text \<open>
  One transcript \<open>/t/s.jsonl\<close>, modified \<open>e\<close> seconds ago, and a stats database in which
  session \<open>S\<close> has a high-water mark of 200000 tokens: the setting of the specification's
  examples.
\<close>

definition example_fs :: "nat \<Rightarrow> filesystem" where
  "example_fs e =
     \<lparr>canonicalize = [''/t/s.jsonl'' \<mapsto> ''/t/s.jsonl''],
      metadata = [''/t/s.jsonl'' \<mapsto> \<lparr>ftype = RegularFile, contents = [], modified_elapsed = Some e\<rparr>]\<rparr>"

definition example_env :: "nat \<Rightarrow> compaction_env" where
  "example_env e =
     \<lparr>read_state = Map.empty,
      stats_db = Some (\<lambda>sid. if sid = ''S'' then Some 200000 else None),
      transcript_fs = example_fs e\<rparr>"

subsection \<open>The drop ratio as an integer test\<close>

lemma drop_ratio_gt_half_iff:
  assumes "0 < last_tokens"
  shows "(1 / 2 < drop_ratio last_tokens current_tokens) \<longleftrightarrow> 2 * current_tokens < last_tokens"
proof -
  have pos: "(0::real) < real last_tokens" using assms by simp
  have "(1 / 2 < drop_ratio last_tokens current_tokens) \<longleftrightarrow>
        real last_tokens < 2 * real (last_tokens - current_tokens)"
    using assms pos by (simp add: drop_ratio_def field_simps)
  also have "\<dots> \<longleftrightarrow> 2 * current_tokens < last_tokens"
    by (cases "current_tokens \<le> last_tokens") (auto simp: of_nat_diff)
  finally show ?thesis .
qed

lemma drop_ratio_zero [simp]: "drop_ratio 0 current_tokens = 0"
  by (simp add: drop_ratio_def)

lemma drop_ratio_gt_half_nat:
  "(1 / 2 < drop_ratio last_tokens current_tokens) \<longleftrightarrow> 2 * current_tokens < last_tokens"
proof (cases "last_tokens = 0")
  case True
  then show ?thesis by simp
next
  case False
  then show ?thesis by (intro drop_ratio_gt_half_iff) simp
qed

lemma drop_ratio_double_gt_one [simp]:
  "(1 < drop_ratio last_tokens current_tokens * 2) \<longleftrightarrow> 2 * current_tokens < last_tokens"
  using drop_ratio_gt_half_nat [of last_tokens current_tokens] by linarith

lemma classify_compaction_Some:
  "classify_compaction (Some last_tokens) recent current_tokens =
     (if 2 * current_tokens < last_tokens
      then (if recent then InProgress else RecentlyCompleted) else Normal)"
  unfolding classify_compaction_def drop_ratio_gt_half_nat by auto


subsection \<open>Properties of the detector\<close>

text \<open>
  C2. A fresh hook state reporting \<open>compacting\<close> for the session makes the detector answer
  \<open>InProgress\<close>, whatever the token history and the file's age.
\<close>

theorem detect_hook_overrides:
  assumes "read_state env sid = Some h" and "state h = ''compacting''"
  shows "detect_compaction_state env transcript_path current_tokens (Some sid) = InProgress"
  using assms by (simp add: detect_compaction_state_def hook_reports_compacting_def)

theorem detect_hook_overrides_witness:
  "read_state ((example_env 30)\<lparr>read_state := [''S'' \<mapsto> \<lparr>state = ''compacting'', trigger = ''auto''\<rparr>]\<rparr>) ''S''
     = Some \<lparr>state = ''compacting'', trigger = ''auto''\<rparr> \<and>
   detect_compaction_state
     ((example_env 30)\<lparr>read_state := [''S'' \<mapsto> \<lparr>state = ''compacting'', trigger = ''auto''\<rparr>]\<rparr>)
     ''/t/s.jsonl'' 190000 (Some ''S'') = InProgress"
  using detect_hook_overrides [of "(example_env 30)\<lparr>read_state := [''S'' \<mapsto> \<lparr>state = ''compacting'', trigger = ''auto''\<rparr>]\<rparr>"
      "''S''" "\<lparr>state = ''compacting'', trigger = ''auto''\<rparr>" "''/t/s.jsonl''" 190000]
  by simp

text \<open>
  C3. A drop of more than half of the last known token count is a compaction: in progress
  when the transcript was modified in the last 10 seconds, recently completed otherwise.
\<close>

theorem classify_large_drop:
  assumes "2 * current_tokens < last_tokens"
  shows "classify_compaction (Some last_tokens) True current_tokens = InProgress \<and>
         classify_compaction (Some last_tokens) False current_tokens = RecentlyCompleted"
  using assms by (simp add: classify_compaction_def drop_ratio_gt_half_nat)

theorem classify_large_drop_witness:
  "2 * (50000::nat) < 200000 \<and>
   classify_compaction (Some 200000) True 50000 = InProgress \<and>
   classify_compaction (Some 200000) False 50000 = RecentlyCompleted"
  using classify_large_drop [of 50000 200000] by simp

text \<open>
  C4. The rule "file modified recently and the last count more than twice the current one"
  never decides anything: without a drop ratio above one half the answer is \<open>Normal\<close>,
  recently modified or not, because that rule's test is the drop test itself.
\<close>

theorem classify_recent_rule_subsumed:
  assumes "\<not> 1 / 2 < drop_ratio last_tokens current_tokens"
  shows "classify_compaction (Some last_tokens) recent current_tokens = Normal"
  using assms by (simp add: classify_compaction_def drop_ratio_gt_half_nat)

theorem classify_recent_rule_subsumed_witness:
  "\<not> 1 / 2 < drop_ratio 200000 120000 \<and> classify_compaction (Some 200000) True 120000 = Normal"
  using classify_recent_rule_subsumed [of 200000 120000 True]
  by (simp add: drop_ratio_def)

text \<open>
  Without a session id there is no hook state and no history, so the detector answers
  \<open>Normal\<close> for every transcript and token count.
\<close>

theorem detect_no_session_normal:
  "detect_compaction_state env transcript_path current_tokens None = Normal"
  by (simp add: detect_compaction_state_def hook_reports_compacting_def
      last_known_tokens_def classify_compaction_def)

text \<open>
  The examples of the specification: a session whose high-water mark is 200000 tokens now
  shows 50000 (a 75\<percent> drop); with the transcript modified 2 seconds ago the state is
  \<open>InProgress\<close>, 30 seconds ago \<open>RecentlyCompleted\<close>, and a session with no record is
  \<open>Normal\<close>.
\<close>

theorem detect_spec_examples:
  "detect_compaction_state (example_env 2) ''/t/s.jsonl'' 50000 (Some ''S'') = InProgress \<and>
   detect_compaction_state (example_env 30) ''/t/s.jsonl'' 50000 (Some ''S'') = RecentlyCompleted \<and>
   detect_compaction_state (example_env 2) ''/t/s.jsonl'' 50000 (Some ''T'') = Normal"
  by (simp add: example_env_def example_fs_def model_defs)

end
