(* ===== verification/Config.thy ===== *)
theory Config
  imports Prelude
begin

text \<open>
  The typed settings of \<open>src/src/config.rs\<close>: one record per settings struct, with the
  values of its \<open>Default\<close> implementation, and \<open>ContextConfig::get_effective_threshold\<close>,
  the only pure operation of the module with a decision in it. The components take a
  \<open>config\<close> value as an argument, which is how the code's \<open>config_override\<close> parameters
  already use it; locating and loading the file and the once-initialised global are in
  theory \<open>Environment\<close>. The \<open>turso-sync\<close> feature is not modelled. Fields that would clash with Isar keywords carry the suffix \<open>_cfg\<close>.
\<close>

record display_config =
  progress_bar_width :: nat
  context_warning_threshold :: f64
  context_critical_threshold :: f64
  context_caution_threshold :: f64
  theme :: string
  show_directory :: bool
  show_git :: bool
  show_context :: bool
  show_model :: bool
  show_duration :: bool
  show_lines_changed :: bool
  show_cost :: bool
  show_context_tokens :: bool

record context_config =
  window_size :: usize
  model_windows :: "string \<rightharpoonup> usize"
  adaptive_learning :: bool
  learning_confidence_threshold :: f64
  buffer_size :: usize
  auto_compact_threshold :: f64
  percentage_mode :: string

record cost_config =
  low_threshold :: f64
  medium_threshold :: f64

record database_config =
  max_connections :: nat
  busy_timeout_ms :: nat
  db_path :: string
  json_backup :: bool
  retention_days_sessions :: "nat option"
  retention_days_daily :: "nat option"
  retention_days_monthly :: "nat option"

record retry_settings =
  max_attempts :: nat
  initial_delay_ms :: nat
  max_delay_ms :: nat
  backoff_factor :: f64

record retry_config =
  file_ops :: retry_settings
  db_ops :: retry_settings
  git_ops :: retry_settings
  network_ops :: retry_settings

record transcript_config =
  buffer_lines :: usize

record git_config =
  timeout_ms :: nat

record config =
  display_cfg :: display_config
  context_cfg :: context_config
  cost_cfg :: cost_config
  database_cfg :: database_config
  retry_cfg :: retry_config
  transcript_cfg :: transcript_config
  git_cfg :: git_config

text \<open>Built with the feature \<open>turso-sync\<close>, \<open>Config\<close> has one more field, the cloud-sync
  settings \<open>SyncConfig\<close> with their \<open>TursoConfig\<close>: the record \<open>config\<close> extended.\<close>

record turso_config =
  database_url :: string
  auth_token :: string

record sync_config =
  enabled :: bool
  provider :: string
  sync_interval_seconds :: nat
  soft_quota_fraction :: f64
  turso :: turso_config

record synced_config = config +
  sync_cfg :: sync_config

subsection \<open>Defaults\<close>

definition default_display_config :: display_config where
  "default_display_config =
     \<lparr>progress_bar_width = 10, context_warning_threshold = 70, context_critical_threshold = 90,
      context_caution_threshold = 50, theme = ''dark'', show_directory = True, show_git = True,
      show_context = True, show_model = True, show_duration = True, show_lines_changed = True,
      show_cost = True, show_context_tokens = False\<rparr>"

definition default_percentage_mode :: string where
  "default_percentage_mode = ''full''"

definition default_context_config :: context_config where
  "default_context_config =
     \<lparr>window_size = 200000, model_windows = Map.empty, adaptive_learning = False,
      learning_confidence_threshold = 7 / 10, buffer_size = 40000,
      auto_compact_threshold = 75, percentage_mode = default_percentage_mode\<rparr>"

definition default_cost_config :: cost_config where
  "default_cost_config = \<lparr>low_threshold = 5, medium_threshold = 20\<rparr>"

definition default_database_config :: database_config where
  "default_database_config =
     \<lparr>max_connections = 5, busy_timeout_ms = 10000, db_path = ''stats.db'', json_backup = True,
      retention_days_sessions = None, retention_days_daily = None, retention_days_monthly = None\<rparr>"

definition default_retry_settings :: retry_settings where
  "default_retry_settings =
     \<lparr>max_attempts = 3, initial_delay_ms = 100, max_delay_ms = 5000, backoff_factor = 2\<rparr>"

definition default_retry_config :: retry_config where
  "default_retry_config =
     \<lparr>file_ops = \<lparr>max_attempts = 3, initial_delay_ms = 100, max_delay_ms = 5000, backoff_factor = 2\<rparr>,
      db_ops = \<lparr>max_attempts = 5, initial_delay_ms = 50, max_delay_ms = 2000, backoff_factor = 3 / 2\<rparr>,
      git_ops = \<lparr>max_attempts = 3, initial_delay_ms = 100, max_delay_ms = 3000, backoff_factor = 2\<rparr>,
      network_ops = \<lparr>max_attempts = 2, initial_delay_ms = 200, max_delay_ms = 1000, backoff_factor = 2\<rparr>\<rparr>"

definition default_transcript_config :: transcript_config where
  "default_transcript_config = \<lparr>buffer_lines = 50\<rparr>"

definition default_git_config :: git_config where
  "default_git_config = \<lparr>timeout_ms = 200\<rparr>"

definition default_config :: config where
  "default_config =
     \<lparr>display_cfg = default_display_config, context_cfg = default_context_config,
      cost_cfg = default_cost_config, database_cfg = default_database_config,
      retry_cfg = default_retry_config, transcript_cfg = default_transcript_config,
      git_cfg = default_git_config\<rparr>"

definition default_turso_config :: turso_config where
  "default_turso_config = \<lparr>database_url = [], auth_token = []\<rparr>"

definition default_sync_config :: sync_config where
  "default_sync_config =
     \<lparr>enabled = False, provider = ''turso'', sync_interval_seconds = 60,
      soft_quota_fraction = 0.75, turso = default_turso_config\<rparr>"

definition default_synced_config :: synced_config where
  "default_synced_config =
     \<lparr>display_cfg = default_display_config, context_cfg = default_context_config,
      cost_cfg = default_cost_config, database_cfg = default_database_config,
      retry_cfg = default_retry_config, transcript_cfg = default_transcript_config,
      git_cfg = default_git_config, sync_cfg = default_sync_config\<rparr>"

lemmas default_defs [model_defs] = default_display_config_def default_percentage_mode_def
  default_context_config_def default_cost_config_def default_database_config_def
  default_retry_settings_def default_retry_config_def default_transcript_config_def
  default_git_config_def default_config_def default_turso_config_def default_sync_config_def
  default_synced_config_def

subsection \<open>The effective auto-compact threshold\<close>

text \<open>
  A threshold within 0.1 of 75 or of 80 counts as "not customised" and is replaced by the
  mode's default: 94 in \<open>working\<close> mode, 75 otherwise.
\<close>

definition get_effective_threshold :: "context_config \<Rightarrow> f64" where
  "get_effective_threshold c =
     (let t = auto_compact_threshold c;
          is_custom = \<bar>t - 75\<bar> > 1 / 10 \<and> \<bar>t - 80\<bar> > 1 / 10
      in if is_custom then t
         else if percentage_mode c = ''working'' then 94 else 75)"

lemmas [model_defs] = get_effective_threshold_def

subsection \<open>Feature builds\<close>

text \<open>The defaults of a build with \<open>turso-sync\<close> agree with those of the default build on
  every field but \<open>sync\<close>, and sync is off by default.\<close>

lemma default_synced_config_truncate:
  "config.truncate default_synced_config = default_config \<and> \<not> enabled (sync_cfg default_synced_config)"
  by (simp add: default_synced_config_def default_config_def default_sync_config_def config.truncate_def)

subsection \<open>Properties of the threshold\<close>

text \<open>
  C12. A threshold more than 0.1 away from both 75 and 80 is a customised one and is used
  as configured, in every percentage mode.
\<close>

theorem effective_threshold_custom_kept:
  assumes "\<bar>auto_compact_threshold c - 75\<bar> > 1 / 10" and "\<bar>auto_compact_threshold c - 80\<bar> > 1 / 10"
  shows "get_effective_threshold c = auto_compact_threshold c"
  using assms by (simp add: get_effective_threshold_def)

theorem effective_threshold_custom_kept_witness:
  "\<bar>auto_compact_threshold (default_context_config\<lparr>auto_compact_threshold := 90, percentage_mode := ''working''\<rparr>) - 75\<bar> > 1 / 10 \<and>
   \<bar>auto_compact_threshold (default_context_config\<lparr>auto_compact_threshold := 90, percentage_mode := ''working''\<rparr>) - 80\<bar> > 1 / 10 \<and>
   get_effective_threshold (default_context_config\<lparr>auto_compact_threshold := 90, percentage_mode := ''working''\<rparr>) = 90"
  using effective_threshold_custom_kept [of "default_context_config\<lparr>auto_compact_threshold := 90, percentage_mode := ''working''\<rparr>"]
  by simp

text \<open>
  A threshold configured explicitly as 80 (or anything within 0.1 of it) is not
  respected: it becomes 75 in \<open>full\<close> mode and 94 in \<open>working\<close> mode, and a configured 75
  becomes 94 in \<open>working\<close> mode. The documentation promises that custom thresholds are
  respected in both modes; the legacy value 80 cannot be chosen.
\<close>

theorem effective_threshold_legacy_remapped:
  "get_effective_threshold (default_context_config\<lparr>auto_compact_threshold := 80\<rparr>) = 75 \<and>
   get_effective_threshold (default_context_config\<lparr>auto_compact_threshold := 8005 / 100\<rparr>) = 75 \<and>
   get_effective_threshold (default_context_config\<lparr>auto_compact_threshold := 80, percentage_mode := ''working''\<rparr>) = 94 \<and>
   get_effective_threshold (default_context_config\<lparr>auto_compact_threshold := 75, percentage_mode := ''working''\<rparr>) = 94"
  by (simp add: get_effective_threshold_def default_context_config_def default_percentage_mode_def)

end
