(* ===== verification/Tokens.thy ===== *)
theory Tokens
  imports Config Paths
begin

text \<open>
  The Token Extractor: \<open>get_token_breakdown_from_transcript\<close> and
  \<open>get_token_count_from_transcript\<close> of \<open>src/src/utils.rs\<close>. A transcript is a file of
  JSON lines; the extractor validates the path, reads a trailing window of lines (two
  strategies, by file size) and keeps the usage of the assistant entry with the highest
  token total. The transcript types (\<open>TranscriptEntry\<close>, \<open>Usage\<close>, \<open>TokenBreakdown\<close>)
  live in \<open>models.rs\<close>, which is not under \<open>src/\<close>; they are modelled from the fields
  the code reads. JSON decoding (\<open>serde_json::from_str\<close>) is a library call and is a
  parameter \<open>parse\<close> of the model, so every theorem holds for every decoder. Token counts
  are \<open>u32\<close> and their sum is computed in \<open>u32\<close>, so it is a \<open>32 word\<close> sum.
\<close>

record token_usage =
  usage_input_tokens :: "u32 option"
  usage_output_tokens :: "u32 option"
  cache_read_input_tokens :: "u32 option"
  cache_creation_input_tokens :: "u32 option"

record transcript_message =
  role :: string
  usage :: "token_usage option"

record transcript_entry =
  message :: transcript_message
  timestamp :: string

record token_breakdown =
  input_tokens :: u32
  output_tokens :: u32
  cache_read_tokens :: u32
  cache_creation_tokens :: u32

type_synonym entry_parser = "string \<Rightarrow> transcript_entry option"

definition default_breakdown :: token_breakdown where
  "default_breakdown =
     \<lparr>input_tokens = 0, output_tokens = 0, cache_read_tokens = 0, cache_creation_tokens = 0\<rparr>"

text \<open>\<open>TokenBreakdown::total\<close>: the sum of the four counts, in \<open>u32\<close>.\<close>

definition total :: "token_breakdown \<Rightarrow> u32" where
  "total b = input_tokens b + cache_read_tokens b + cache_creation_tokens b + output_tokens b"

subsection \<open>Choosing the peak entry\<close>

text \<open>The usage of a line that decodes to an assistant entry carrying usage data.\<close>

definition assistant_usage :: "entry_parser \<Rightarrow> string \<Rightarrow> token_usage option" where
  "assistant_usage parse line =
     (case parse line of
        Some entry \<Rightarrow> if role (message entry) = ''assistant'' then usage (message entry) else None
      | None \<Rightarrow> None)"

definition usage_breakdown :: "token_usage \<Rightarrow> token_breakdown" where
  "usage_breakdown u =
     \<lparr>input_tokens = unwrap_or 0 (usage_input_tokens u),
      output_tokens = unwrap_or 0 (usage_output_tokens u),
      cache_read_tokens = unwrap_or 0 (cache_read_input_tokens u),
      cache_creation_tokens = unwrap_or 0 (cache_creation_input_tokens u)\<rparr>"

definition usage_total :: "token_usage \<Rightarrow> u32" where
  "usage_total u = total (usage_breakdown u)"

text \<open>One iteration of the loop over the window: keep the breakdown if its total is
  strictly larger than the best so far.\<close>

definition best_step :: "token_breakdown \<times> u32 \<Rightarrow> token_usage \<Rightarrow> token_breakdown \<times> u32" where
  "best_step acc u =
     (let current_total = usage_total u
      in if current_total > snd acc then (usage_breakdown u, current_total) else acc)"

definition scan_line :: "entry_parser \<Rightarrow> token_breakdown \<times> u32 \<Rightarrow> string \<Rightarrow> token_breakdown \<times> u32" where
  "scan_line parse acc line =
     (case assistant_usage parse line of Some u \<Rightarrow> best_step acc u | None \<Rightarrow> acc)"

definition select_peak_breakdown :: "entry_parser \<Rightarrow> string list \<Rightarrow> token_breakdown option" where
  "select_peak_breakdown parse lines =
     (let (best_breakdown, max_total) = foldl (scan_line parse) (default_breakdown, 0) lines
      in if max_total > 0 then Some best_breakdown else None)"

text \<open>The usages the loop looks at, in order.\<close>

abbreviation window_usages :: "entry_parser \<Rightarrow> string list \<Rightarrow> token_usage list" where
  "window_usages parse lines \<equiv> List.map_filter (assistant_usage parse) lines"

lemmas token_defs [model_defs] = default_breakdown_def total_def assistant_usage_def
  usage_breakdown_def usage_total_def best_step_def scan_line_def select_peak_breakdown_def

subsection \<open>Reading the trailing window of lines\<close>

text \<open>
  \<open>BufRead::lines\<close> on the file's bytes: pieces between \<open>\\n\<close> bytes (no empty piece
  after a final newline), each with one trailing \<open>\\r\<close> removed, each decoded as UTF-8.
  \<open>map_while(|l| l.ok())\<close> stops at the first piece that is not valid UTF-8.
  \<open>utf8_valid\<close> is the well-formedness table of the Unicode standard, which
  \<open>str::from_utf8\<close> implements (library code, not part of the repository).
\<close>

definition utf8_cont :: "nat \<Rightarrow> nat \<Rightarrow> char \<Rightarrow> bool" where
  "utf8_cont lo hi c \<longleftrightarrow> lo \<le> of_char c \<and> of_char c \<le> hi"

definition utf8_second_range :: "nat \<Rightarrow> nat \<times> nat" where
  "utf8_second_range b =
     (if b = 0xE0 then (0xA0, 0xBF) else if b = 0xED then (0x80, 0x9F)
      else if b = 0xF0 then (0x90, 0xBF) else if b = 0xF4 then (0x80, 0x8F) else (0x80, 0xBF))"

fun utf8_valid :: "string \<Rightarrow> bool" where
  "utf8_valid [] = True"
| "utf8_valid (c # cs) =
     (let b = (of_char c :: nat); (lo, hi) = utf8_second_range b in
      if b < 0x80 then utf8_valid cs
      else if 0xC2 \<le> b \<and> b \<le> 0xDF then
        (case cs of c1 # r \<Rightarrow> utf8_cont 0x80 0xBF c1 \<and> utf8_valid r | [] \<Rightarrow> False)
      else if 0xE0 \<le> b \<and> b \<le> 0xEF then
        (case cs of c1 # c2 # r \<Rightarrow> utf8_cont lo hi c1 \<and> utf8_cont 0x80 0xBF c2 \<and> utf8_valid r
         | _ \<Rightarrow> False)
      else if 0xF0 \<le> b \<and> b \<le> 0xF4 then
        (case cs of c1 # c2 # c3 # r \<Rightarrow>
            utf8_cont lo hi c1 \<and> utf8_cont 0x80 0xBF c2 \<and> utf8_cont 0x80 0xBF c3 \<and> utf8_valid r
         | _ \<Rightarrow> False)
      else False)"

definition raw_lines :: "string \<Rightarrow> string list" where
  "raw_lines bytes =
     (let ps = split_on (CHR 0x0A) bytes in if last ps = [] then butlast ps else ps)"

definition strip_cr :: "string \<Rightarrow> string" where
  "strip_cr l = (if l \<noteq> [] \<and> last l = CHR 0x0D then butlast l else l)"

definition read_lines :: "string \<Rightarrow> string list" where
  "read_lines bytes = map strip_cr (takeWhile utf8_valid (raw_lines bytes))"

text \<open>
  Small files: every line passes through a \<open>VecDeque\<close> of capacity \<open>buf_size\<close>;
  when it is full, the oldest line is popped before the new one is pushed.
\<close>

definition push_line :: "nat \<Rightarrow> 'a list \<Rightarrow> 'a \<Rightarrow> 'a list" where
  "push_line buf_size circular_buffer line =
     (if length circular_buffer = buf_size then tl circular_buffer else circular_buffer) @ [line]"

definition read_small_window :: "nat \<Rightarrow> string list \<Rightarrow> string list" where
  "read_small_window buf_size lines = foldl (push_line buf_size) [] lines"

text \<open>
  Large files: seek to \<open>file_size - max (buf_size * 2048) (200 * 1024)\<close> (saturating),
  read the lines from there, skip the first one if the seek did not start at 0, and keep
  the last \<open>buf_size\<close> (\<open>.rev().take(buf_size).rev()\<close>).
\<close>

definition large_read_start :: "nat \<Rightarrow> nat \<Rightarrow> nat" where
  "large_read_start buf_size file_size = file_size - max (buf_size * 2048) (200 * 1024)"

definition read_large_window :: "nat \<Rightarrow> string \<Rightarrow> string list" where
  "read_large_window buf_size bytes =
     (let start_pos = large_read_start buf_size (length bytes);
          all_lines = read_lines (drop start_pos bytes);
          skip_first = (if start_pos > 0 then 1 else 0)
      in rev (take buf_size (rev (drop skip_first all_lines))))"

definition read_transcript_lines :: "nat \<Rightarrow> string \<Rightarrow> string list" where
  "read_transcript_lines buf_size bytes =
     (if length bytes < 1024 * 1024 then read_small_window buf_size (read_lines bytes)
      else read_large_window buf_size bytes)"

subsection \<open>The extractor\<close>

text \<open>
  The buffer size comes from the process-wide configuration (\<open>config::get_config()\<close>),
  which the model receives as the argument \<open>global_cfg\<close>.
\<close>

definition get_token_breakdown_from_transcript ::
  "filesystem \<Rightarrow> config \<Rightarrow> entry_parser \<Rightarrow> string \<Rightarrow> token_breakdown option" where
  "get_token_breakdown_from_transcript fs global_cfg parse transcript_path =
     (case validate_transcript_file fs transcript_path of
        Inl _ \<Rightarrow> None
      | Inr safe_path \<Rightarrow>
          (case metadata fs safe_path of
             None \<Rightarrow> None
           | Some file \<Rightarrow>
               select_peak_breakdown parse
                 (read_transcript_lines (buffer_lines (transcript_cfg global_cfg)) (contents file))))"

definition get_token_count_from_transcript ::
  "filesystem \<Rightarrow> config \<Rightarrow> entry_parser \<Rightarrow> string \<Rightarrow> u32 option" where
  "get_token_count_from_transcript fs global_cfg parse transcript_path =
     map_option total (get_token_breakdown_from_transcript fs global_cfg parse transcript_path)"

lemmas reading_defs [model_defs] = utf8_cont_def utf8_second_range_def raw_lines_def
  strip_cr_def read_lines_def push_line_def read_small_window_def large_read_start_def
  read_large_window_def read_transcript_lines_def get_token_breakdown_from_transcript_def
  get_token_count_from_transcript_def

subsection \<open>Example transcript entries\<close>

text \<open>
  A decoder for a five-line example: assistant entries with 1000, 3000 and 2000 input
  tokens (lines \<open>a1\<close>, \<open>a2\<close>, \<open>a3\<close>), a user entry with usage (\<open>u1\<close>), and any other
  line undecodable.
\<close>

definition example_entry :: "string \<Rightarrow> u32 \<Rightarrow> transcript_entry" where
  "example_entry r n =
     \<lparr>message = \<lparr>role = r, usage = Some \<lparr>usage_input_tokens = Some n, usage_output_tokens = None,
        cache_read_input_tokens = None, cache_creation_input_tokens = None\<rparr>\<rparr>,
      timestamp = ''2025-08-22T18:32:37.789Z''\<rparr>"

definition example_parse :: entry_parser where
  "example_parse line =
     (if line = ''a1'' then Some (example_entry ''assistant'' 1000)
      else if line = ''a2'' then Some (example_entry ''assistant'' 3000)
      else if line = ''a3'' then Some (example_entry ''assistant'' 2000)
      else if line = ''u1'' then Some (example_entry ''user'' 9000)
      else None)"

subsection \<open>The selection loop is a fold over the assistant usages\<close>

lemma foldl_scan_line:
  "foldl (scan_line parse) acc lines = foldl best_step acc (window_usages parse lines)"
  by (induction lines arbitrary: acc)
     (auto simp: scan_line_def List.map_filter_def split: option.splits)

lemma best_step_snd: "snd (best_step acc u) = max (snd acc) (usage_total u)"
  by (auto simp: best_step_def Let_def max_def)

lemma foldl_best_step_max:
  "snd (foldl best_step acc us) = foldl max (snd acc) (map usage_total us)"
  by (induction us arbitrary: acc) (simp_all add: best_step_snd)

lemma best_step_pair:
  "best_step (b, m) u = (if m < usage_total u then (usage_breakdown u, usage_total u) else (b, m))"
  by (simp add: best_step_def)

lemma foldl_max_ge: "(m::'a::linorder) \<le> foldl max m xs"
proof (induction xs arbitrary: m)
  case Nil
  then show ?case by simp
next
  case (Cons y ys)
  have "max m y \<le> foldl max (max m y) ys" by (rule Cons.IH)
  then show ?case by simp
qed

lemma foldl_max_upper: "x \<in> set xs \<Longrightarrow> (x::'a::linorder) \<le> foldl max m xs"
proof (induction xs arbitrary: m)
  case Nil
  then show ?case by simp
next
  case (Cons y ys)
  then show ?case using foldl_max_ge [of "max m y" ys] by (auto intro: order_trans)
qed

lemma foldl_max_mem: "foldl max (m::'a::linorder) xs = m \<or> foldl max m xs \<in> set xs"
proof (induction xs arbitrary: m)
  case Nil
  then show ?case by simp
next
  case (Cons y ys)
  from Cons.IH [of "max m y"] show ?case
    by (cases "m \<le> y") (auto simp: max_def)
qed

text \<open>
  What the fold leaves: either nothing beat the start value, or the result is the
  breakdown of the first usage whose total is the maximum.
\<close>

lemma foldl_best_step_first_peak:
  assumes "foldl best_step (b, m) us = (b', m')"
  shows "(b' = b \<and> m' = m \<and> (\<forall>v \<in> set us. usage_total v \<le> m)) \<or>
         (m < m' \<and> (\<exists>xs u ys. us = xs @ u # ys \<and> b' = usage_breakdown u \<and> usage_total u = m' \<and>
            (\<forall>v \<in> set xs. usage_total v < m') \<and> (\<forall>v \<in> set ys. usage_total v \<le> m')))"
  using assms
proof (induction us arbitrary: b' m' rule: rev_induct)
  case Nil
  then show ?case by simp
next
  case (snoc x us)
  obtain b1 m1 where fold1: "foldl best_step (b, m) us = (b1, m1)" by fastforce
  note IH = snoc.IH [OF fold1]
  from snoc.prems fold1 have last_step: "best_step (b1, m1) x = (b', m')" by simp
  show ?case
  proof (cases "m1 < usage_total x")
    case True
    with last_step have res: "b' = usage_breakdown x" "m' = usage_total x"
      by (simp_all add: best_step_pair)
    from IH have le: "m \<le> m1" "\<forall>v \<in> set us. usage_total v \<le> m1"
      by (auto simp: less_imp_le)
    with True res have "m < m'" by simp
    moreover from le True res have
      "us @ [x] = us @ x # [] \<and> b' = usage_breakdown x \<and> usage_total x = m' \<and>
       (\<forall>v \<in> set us. usage_total v < m') \<and> (\<forall>v \<in> set []. usage_total v \<le> m')"
      by auto
    ultimately show ?thesis by blast
  next
    case False
    with last_step have res: "b' = b1" "m' = m1"
      by (simp_all add: best_step_pair)
    from IH show ?thesis
    proof
      assume "b1 = b \<and> m1 = m \<and> (\<forall>v \<in> set us. usage_total v \<le> m)"
      with False res show ?thesis by (auto simp: not_less)
    next
      assume "m < m1 \<and> (\<exists>xs u ys. us = xs @ u # ys \<and> b1 = usage_breakdown u \<and>
                usage_total u = m1 \<and> (\<forall>v \<in> set xs. usage_total v < m1) \<and>
                (\<forall>v \<in> set ys. usage_total v \<le> m1))"
      then obtain xs u ys where "m < m1" "us = xs @ u # ys" "b1 = usage_breakdown u"
        "usage_total u = m1" "\<forall>v \<in> set xs. usage_total v < m1" "\<forall>v \<in> set ys. usage_total v \<le> m1"
        by blast
      with False res have "m < m'" and
        "us @ [x] = xs @ u # (ys @ [x]) \<and> b' = usage_breakdown u \<and> usage_total u = m' \<and>
         (\<forall>v \<in> set xs. usage_total v < m') \<and> (\<forall>v \<in> set (ys @ [x]). usage_total v \<le> m')"
        by (auto simp: not_less)
      then show ?thesis by blast
    qed
  qed
qed


subsection \<open>The two reading strategies\<close>

lemma push_line_last_n:
  assumes "0 < n" and "length buf \<le> n"
  shows "push_line n buf l = last_n n (buf @ [l])"
proof (cases "length buf = n")
  case True
  with assms(1) show ?thesis
    by (simp add: push_line_def last_n_def drop_Suc tl_append_if)
next
  case False
  with assms(2) show ?thesis by (simp add: push_line_def last_n_all)
qed

lemma push_line_length: "0 < n \<Longrightarrow> length buf \<le> n \<Longrightarrow> length (push_line n buf l) \<le> n"
  by (simp add: push_line_last_n last_n_length)

lemma foldl_push_line:
  "0 < n \<Longrightarrow> length buf \<le> n \<Longrightarrow> foldl (push_line n) buf ls = last_n n (buf @ ls)"
proof (induction ls arbitrary: buf)
  case Nil
  then show ?case by (simp add: last_n_all)
next
  case (Cons l ls)
  have "foldl (push_line n) (push_line n buf l) ls = last_n n (push_line n buf l @ ls)"
    using Cons.prems by (intro Cons.IH) (simp_all add: push_line_length)
  also have "\<dots> = last_n n (buf @ l # ls)"
    using Cons.prems by (simp add: push_line_last_n last_n_append_last_n)
  finally show ?case by simp
qed

lemma foldl_push_line_zero: "foldl (push_line 0) buf ls = (if buf = [] \<and> ls = [] then [] else
    (if buf = [] then ls else buf @ ls))"
proof (induction ls arbitrary: buf)
  case Nil
  then show ?case by simp
next
  case (Cons l ls)
  then show ?case by (auto simp: push_line_def)
qed

lemma read_large_window_last_n:
  "read_large_window n bytes =
     (let start_pos = large_read_start n (length bytes)
      in last_n n (drop (if start_pos > 0 then 1 else 0) (read_lines (drop start_pos bytes))))"
  by (simp add: read_large_window_def Let_def rev_take_rev_last_n)

subsection \<open>Properties of the extractor\<close>

text \<open>
  C5. The extractor keeps the peak, not the last entry: when it finds data, the breakdown
  is that of an assistant usage in the window whose total is strictly larger than every
  earlier one and at least every later one.
\<close>

theorem select_peak_first_maximum:
  assumes "select_peak_breakdown parse lines = Some b"
  shows "\<exists>xs u ys. window_usages parse lines = xs @ u # ys \<and> b = usage_breakdown u \<and>
           (\<forall>v \<in> set xs. usage_total v < usage_total u) \<and>
           (\<forall>v \<in> set ys. usage_total v \<le> usage_total u)"
proof -
  obtain b' m' where fold: "foldl best_step (default_breakdown, 0) (window_usages parse lines) = (b', m')"
    by fastforce
  with assms have "0 < m'" and "b = b'"
    by (simp_all add: select_peak_breakdown_def foldl_scan_line split: if_splits)
  with foldl_best_step_first_peak [OF fold] show ?thesis by auto
qed

theorem select_peak_first_maximum_witness:
  "select_peak_breakdown example_parse [''a1'', ''a2'', ''junk'', ''u1'', ''a3''] =
     Some (usage_breakdown (the (usage (message (example_entry ''assistant'' 3000))))) \<and>
   (\<exists>xs u ys. window_usages example_parse [''a1'', ''a2'', ''junk'', ''u1'', ''a3''] = xs @ u # ys \<and>
      usage_breakdown (the (usage (message (example_entry ''assistant'' 3000)))) = usage_breakdown u \<and>
      (\<forall>v \<in> set xs. usage_total v < usage_total u) \<and> (\<forall>v \<in> set ys. usage_total v \<le> usage_total u))"
proof -
  have h: "select_peak_breakdown example_parse [''a1'', ''a2'', ''junk'', ''u1'', ''a3''] =
     Some (usage_breakdown (the (usage (message (example_entry ''assistant'' 3000)))))"
    by (simp add: example_parse_def example_entry_def model_defs)
  show ?thesis using h select_peak_first_maximum [OF h] by blast
qed

text \<open>
  The extractor reports no data exactly when every assistant usage in the window has a
  zero total (in particular when there is none).
\<close>

theorem select_peak_none_iff:
  "select_peak_breakdown parse lines = None \<longleftrightarrow>
     (\<forall>u \<in> set (window_usages parse lines). usage_total u = 0)"
proof -
  let ?ts = "map usage_total (window_usages parse lines)"
  have max_eq: "snd (foldl best_step (default_breakdown, 0) (window_usages parse lines)) = foldl max 0 ?ts"
    by (simp add: foldl_best_step_max)
  have "foldl max 0 ?ts = 0 \<longleftrightarrow> (\<forall>t \<in> set ?ts. t = 0)"
  proof
    assume z: "foldl max 0 ?ts = 0"
    show "\<forall>t \<in> set ?ts. t = 0"
      using foldl_max_upper [of _ ?ts 0] z by (metis word_le_0_iff)
  next
    assume "\<forall>t \<in> set ?ts. t = 0"
    then show "foldl max 0 ?ts = 0" using foldl_max_mem [of 0 ?ts] by auto
  qed
  then show ?thesis
    using max_eq by (auto simp: select_peak_breakdown_def foldl_scan_line word_neq_0_conv split: prod.splits)
qed

theorem select_peak_none_iff_witness:
  "select_peak_breakdown example_parse [''u1'', ''zz''] = None \<and>
   select_peak_breakdown example_parse [''u1'', ''a1''] \<noteq> None"
  using select_peak_none_iff [of example_parse "[''u1'', ''zz'']"]
    select_peak_none_iff [of example_parse "[''u1'', ''a1'']"]
  by (simp add: List.map_filter_def assistant_usage_def example_parse_def example_entry_def
      usage_total_def usage_breakdown_def total_def)

text \<open>
  C6. Small transcripts are read through a ring buffer of \<open>buffer_lines\<close> lines; for a
  positive buffer size it holds exactly the last \<open>buffer_lines\<close> lines of the file.
\<close>

theorem read_small_window_is_last_n:
  assumes "0 < n"
  shows "read_small_window n lines = last_n n lines"
  using assms by (simp add: read_small_window_def foldl_push_line)

theorem read_small_window_is_last_n_witness:
  "0 < (2::nat) \<and> read_small_window 2 [''l1'', ''l2'', ''l3''] = [''l2'', ''l3'']"
  using read_small_window_is_last_n [of 2 "[''l1'', ''l2'', ''l3'']"] by (simp add: last_n_def)



text \<open>
  C7. With \<open>buffer_lines = 0\<close> the ring buffer is never full after its first line, so a
  small transcript is read whole, while the large-file strategy keeps no line at all.
\<close>

theorem buffer_zero_reads_everything:
  "read_small_window 0 lines = lines \<and> read_large_window 0 bytes = []"
  by (simp add: read_small_window_def foldl_push_line_zero read_large_window_last_n Let_def)

text \<open>
  C8. On a large file, if the seek lands inside a multi-byte UTF-8 character, the first
  line read is not valid UTF-8, \<open>map_while\<close> stops there, and no line at all is kept:
  the skip of the partial first line comes too late to save the rest.
\<close>

theorem large_window_lost_on_split_char:
  assumes "\<not> utf8_valid (hd (raw_lines (drop (large_read_start n (length bytes)) bytes)))"
  shows "read_large_window n bytes = []"
proof -
  have "read_lines (drop (large_read_start n (length bytes)) bytes) = []"
    using assms by (cases "raw_lines (drop (large_read_start n (length bytes)) bytes)")
       (simp_all add: read_lines_def)
  then show ?thesis by (simp add: read_large_window_last_n Let_def last_n_def)
qed

theorem large_window_lost_on_split_char_witness:
  "\<not> utf8_valid (hd (raw_lines (drop (large_read_start 50 (length [CHR 0x80, CHR 0x0A, CHR ''a''])) [CHR 0x80, CHR 0x0A, CHR ''a'']))) \<and>
   read_large_window 50 [CHR 0x80, CHR 0x0A, CHR ''a''] = []"
proof -
  have h: "\<not> utf8_valid (hd (raw_lines (drop (large_read_start 50 (length [CHR 0x80, CHR 0x0A, CHR ''a''])) [CHR 0x80, CHR 0x0A, CHR ''a''])))"
    by (simp add: large_read_start_def raw_lines_def utf8_second_range_def)
  show ?thesis using h large_window_lost_on_split_char [OF h] by simp
qed

end
