(* ===== verification/Window.thy ===== *)
theory Window
  imports Config
begin

text \<open>
  The Context Window Resolver, \<open>get_context_window_for_model\<close> of \<open>src/src/utils.rs\<close>,
  and the two collaborators it consults:
  \<^item> the Adaptive Window Learner (\<open>ContextLearner::get_learned_window\<close> in
    \<open>context_learning.rs\<close>, not under \<open>src/\<close>): a table of learned windows per model,
    each with an observation count whose confidence must reach the configured threshold;
    the confidence function follows the specification's anchors (0.1 after one
    observation, 0.4 after three, 0.7 after five) and grows linearly up to 1;
  \<^item> \<open>ModelType::from_name\<close> (\<open>models.rs\<close>, not under \<open>src/\<close>): the family is the first
    word of the display name that is Opus, Sonnet or Haiku (any letter case), the version
    the first word that starts with a digit; no family word gives \<open>Unknown\<close>.
  The resolver's own code, the priority order and the version parsing
  (\<open>split('.')\<close>, \<open>parse::<u32>\<close>, default 0), is modelled line by line. The learned table
  is \<open>None\<close> when the database cannot be opened, which the code treats like "nothing
  learned" (\<open>if let Ok(Some(window))\<close>).
\<close>

record learned_window =
  learned_compaction_point :: usize
  observation_count :: nat

definition learning_confidence :: "nat \<Rightarrow> f64" where
  "learning_confidence n = (if n = 0 then 0 else min 1 ((3 * real n - 1) / 20))"

definition get_learned_window :: "(string \<rightharpoonup> learned_window) \<Rightarrow> string \<Rightarrow> f64 \<Rightarrow> usize option" where
  "get_learned_window learned model threshold =
     (case learned model of
        Some w \<Rightarrow> if threshold \<le> learning_confidence (observation_count w)
                  then Some (learned_compaction_point w) else None
      | None \<Rightarrow> None)"

datatype model_type = Model (model_family: string) (model_version: string) | Unknown

definition model_family_of_word :: "string \<Rightarrow> string option" where
  "model_family_of_word w =
     (if eq_ignore_ascii_case w ''opus'' then Some ''Opus''
      else if eq_ignore_ascii_case w ''sonnet'' then Some ''Sonnet''
      else if eq_ignore_ascii_case w ''haiku'' then Some ''Haiku'' else None)"

definition model_type_from_name :: "string \<Rightarrow> model_type" where
  "model_type_from_name name =
     (let words = filter (\<lambda>w. w \<noteq> []) (split_on CHR '' '' name);
          fams = List.map_filter model_family_of_word words;
          vers = filter (\<lambda>w. is_digit (hd w)) words
      in case fams of
           [] \<Rightarrow> Unknown
         | f # _ \<Rightarrow> Model f (case vers of [] \<Rightarrow> [] | v # _ \<Rightarrow> v))"

text \<open>\<open>version.split('.').next()\<close> and \<open>.nth(1)\<close>, each parsed as \<open>u32\<close>, 0 on failure.\<close>

definition version_number :: "string \<Rightarrow> nat" where
  "version_number version = unwrap_or 0 (parse_u32 (hd (split_on CHR ''.'' version)))"

definition minor_version :: "string \<Rightarrow> nat" where
  "minor_version version =
     (case split_on CHR ''.'' version of _ # m # _ \<Rightarrow> unwrap_or 0 (parse_u32 m) | _ \<Rightarrow> 0)"

definition family_window :: "string \<Rightarrow> string \<Rightarrow> usize \<Rightarrow> usize" where
  "family_window fam version default_window =
     (let major = version_number version; minor = minor_version version in
      if fam = ''Sonnet'' then (if major \<ge> 4 \<or> (major = 3 \<and> minor \<ge> 5) then 200000 else 160000)
      else if fam = ''Opus'' then (if major \<ge> 4 \<or> (major = 3 \<and> minor \<ge> 5) then 200000 else 160000)
      else if fam = ''Haiku'' then default_window
      else default_window)"

definition learned_context_window ::
  "(string \<rightharpoonup> learned_window) option \<Rightarrow> string \<Rightarrow> config \<Rightarrow> usize option" where
  "learned_context_window learned model cfg =
     (case learned of
        Some db \<Rightarrow> get_learned_window db model (learning_confidence_threshold (context_cfg cfg))
      | None \<Rightarrow> None)"

definition get_context_window_for_model ::
  "(string \<rightharpoonup> learned_window) option \<Rightarrow> string option \<Rightarrow> config \<Rightarrow> usize" where
  "get_context_window_for_model learned model_name cfg =
     (let ctx = context_cfg cfg in
      case model_name of
        None \<Rightarrow> window_size ctx
      | Some model \<Rightarrow>
          (case model_windows ctx model of
             Some custom_size \<Rightarrow> custom_size
           | None \<Rightarrow>
               (case (if adaptive_learning ctx then learned_context_window learned model cfg else None) of
                  Some window \<Rightarrow> window
                | None \<Rightarrow>
                    (case model_type_from_name model of
                       Model fam ver \<Rightarrow> family_window fam ver (window_size ctx)
                     | Unknown \<Rightarrow> window_size ctx))))"

lemmas window_defs [model_defs] = learning_confidence_def get_learned_window_def
  model_family_of_word_def model_type_from_name_def version_number_def minor_version_def
  family_window_def learned_context_window_def get_context_window_for_model_def


subsection \<open>Properties of the resolver\<close>

lemma get_context_window_no_override:
  assumes "model_windows (context_cfg cfg) model = None"
  shows "get_context_window_for_model learned (Some model) cfg =
     (case (if adaptive_learning (context_cfg cfg) then learned_context_window learned model cfg else None) of
        Some window \<Rightarrow> window
      | None \<Rightarrow> (case model_type_from_name model of
                  Model fam ver \<Rightarrow> family_window fam ver (window_size (context_cfg cfg))
                | Unknown \<Rightarrow> window_size (context_cfg cfg)))"
  using assms by (simp add: get_context_window_for_model_def Let_def)

text \<open>
  C9. A per-model override in the configuration is returned verbatim, before anything
  learned and before the family heuristics.
\<close>

theorem window_override_wins:
  assumes "model_windows (context_cfg cfg) model = Some w"
  shows "get_context_window_for_model learned (Some model) cfg = w"
  using assms by (simp add: get_context_window_for_model_def)

theorem window_override_wins_witness:
  "model_windows (context_cfg (default_config\<lparr>context_cfg := default_context_config
       \<lparr>model_windows := [''Claude 3 Opus'' \<mapsto> 123456]\<rparr>\<rparr>)) ''Claude 3 Opus'' = Some 123456 \<and>
   get_context_window_for_model None (Some ''Claude 3 Opus'')
     (default_config\<lparr>context_cfg := default_context_config
       \<lparr>model_windows := [''Claude 3 Opus'' \<mapsto> 123456]\<rparr>\<rparr>) = 123456"
  using window_override_wins [of "default_config\<lparr>context_cfg := default_context_config
       \<lparr>model_windows := [''Claude 3 Opus'' \<mapsto> 123456]\<rparr>\<rparr>" "''Claude 3 Opus''" 123456 None]
  by (simp add: default_config_def default_context_config_def)

text \<open>
  With adaptive learning on and no override, a learned window whose confidence
  reaches the configured threshold is the answer.
\<close>

theorem window_learned_used:
  assumes "model_windows (context_cfg cfg) model = None"
    and "adaptive_learning (context_cfg cfg)"
    and "db model = Some w"
    and "learning_confidence_threshold (context_cfg cfg) \<le> learning_confidence (observation_count w)"
  shows "get_context_window_for_model (Some db) (Some model) cfg = learned_compaction_point w"
  using assms by (simp add: get_context_window_no_override learned_context_window_def get_learned_window_def)

theorem window_learned_used_witness:
  "model_windows (context_cfg (default_config\<lparr>context_cfg := default_context_config\<lparr>adaptive_learning := True\<rparr>\<rparr>))
       ''Claude Sonnet 4.5'' = None \<and>
   adaptive_learning (context_cfg (default_config\<lparr>context_cfg := default_context_config\<lparr>adaptive_learning := True\<rparr>\<rparr>)) \<and>
   [''Claude Sonnet 4.5'' \<mapsto> \<lparr>learned_compaction_point = 156000, observation_count = 5\<rparr>] ''Claude Sonnet 4.5''
     = Some \<lparr>learned_compaction_point = 156000, observation_count = 5\<rparr> \<and>
   learning_confidence_threshold (context_cfg (default_config\<lparr>context_cfg := default_context_config\<lparr>adaptive_learning := True\<rparr>\<rparr>))
     \<le> learning_confidence (observation_count \<lparr>learned_compaction_point = 156000, observation_count = 5\<rparr>) \<and>
   get_context_window_for_model
     (Some [''Claude Sonnet 4.5'' \<mapsto> \<lparr>learned_compaction_point = 156000, observation_count = 5\<rparr>])
     (Some ''Claude Sonnet 4.5'')
     (default_config\<lparr>context_cfg := default_context_config\<lparr>adaptive_learning := True\<rparr>\<rparr>) = 156000"
proof -
  let ?cfg = "default_config\<lparr>context_cfg := default_context_config\<lparr>adaptive_learning := True\<rparr>\<rparr>"
  let ?w = "\<lparr>learned_compaction_point = 156000, observation_count = 5\<rparr>"
  let ?db = "[''Claude Sonnet 4.5'' \<mapsto> ?w]"
  have h1: "model_windows (context_cfg ?cfg) ''Claude Sonnet 4.5'' = None"
    and h2: "adaptive_learning (context_cfg ?cfg)"
    and h3: "?db ''Claude Sonnet 4.5'' = Some ?w"
    and h4: "learning_confidence_threshold (context_cfg ?cfg) \<le> learning_confidence (observation_count ?w)"
    by (simp_all add: default_config_def default_context_config_def learning_confidence_def)
  show ?thesis
    using h1 h2 h3 h4 window_learned_used [of ?cfg "''Claude Sonnet 4.5''" ?db ?w, OF h1 h2 h3 h4]
    by simp
qed

text \<open>
  With adaptive learning off, what the learner holds (or whether its database opens)
  never changes the resolved window.
\<close>

theorem window_learning_off_ignores_learner:
  assumes "\<not> adaptive_learning (context_cfg cfg)"
  shows "get_context_window_for_model learned1 model_name cfg =
         get_context_window_for_model learned2 model_name cfg"
  using assms by (simp add: get_context_window_for_model_def Let_def split: option.splits)

theorem window_learning_off_ignores_learner_witness:
  "\<not> adaptive_learning (context_cfg default_config) \<and>
   get_context_window_for_model None (Some ''Claude 3 Opus'') default_config =
   get_context_window_for_model (Some [''Claude 3 Opus'' \<mapsto> \<lparr>learned_compaction_point = 1, observation_count = 9\<rparr>])
     (Some ''Claude 3 Opus'') default_config"
proof -
  have h: "\<not> adaptive_learning (context_cfg default_config)"
    by (simp add: default_config_def default_context_config_def)
  show ?thesis using h window_learning_off_ignores_learner [OF h] by blast
qed

text \<open>
  The family heuristics: without override or learned value, a Sonnet or Opus model
  of major version at least 4, or 3 with minor at least 5, gets 200000 tokens and an older
  one 160000; Haiku, unknown families and a missing model name get the configured default.
\<close>

theorem window_family_heuristics:
  "get_context_window_for_model None (Some ''Claude Sonnet 4.5'') default_config = 200000 \<and>
   get_context_window_for_model None (Some ''Claude 3.5 Sonnet'') default_config = 200000 \<and>
   get_context_window_for_model None (Some ''Claude 3.5 Opus'') default_config = 200000 \<and>
   get_context_window_for_model None (Some ''Claude Opus 4.1'') default_config = 200000 \<and>
   get_context_window_for_model None (Some ''Claude 3 Opus'') default_config = 160000 \<and>
   get_context_window_for_model None (Some ''Claude 3 Sonnet'') default_config = 160000 \<and>
   get_context_window_for_model None (Some ''Claude 3 Haiku'') default_config = 200000 \<and>
   get_context_window_for_model None (Some ''GPT-4'') default_config = 200000 \<and>
   get_context_window_for_model None None default_config = 200000"
  by (simp add: model_defs)

text \<open>
  The configuration's documentation promises that "Sonnet 4.5 (1M context)" is
  auto-detected as a 1M-token window; the resolver has no such rule and answers 200000.
\<close>

theorem window_one_million_not_detected:
  "get_context_window_for_model None (Some ''Claude Sonnet 4.5 (1M context)'') default_config = 200000"
  by (simp add: model_defs)

end
