(* ===== verification/Usage.thy ===== *)
theory Usage
  imports Compaction Tokens Window
begin

text \<open>
  The Usage Estimator, \<open>calculate_context_usage\<close> of \<open>src/src/utils.rs\<close>: it takes the
  token count from the Token Extractor, the compaction state from the Compaction
  Detector and the window from the Context Window Resolver, and computes the
  \<open>ContextUsage\<close> shown by the statusline. The part after the three calls is a pure
  function, \<open>context_usage_of\<close>.

  The percentage is an \<open>f64\<close> quotient whose divisor, the working window, is 0 when the
  buffer is at least the window (adaptive learning off). IEEE division then gives
  \<open>+\<infinity>\<close> (or NaN for \<open>0/0\<close>), where HOL's \<open>x / 0 = 0\<close> would silently differ, so the
  three outcomes are a datatype and the two later uses, \<open>percentage >= threshold\<close> and
  \<open>percentage.min(100.0)\<close> (which returns the other operand when one is NaN), are written
  out for each. Finite quotients of integers below \<open>2^32\<close> are modelled exactly.
\<close>

datatype f64_value = Finite f64 | PosInf | NaN

definition f64_percent :: "usize \<Rightarrow> usize \<Rightarrow> f64_value" where
  "f64_percent tokens window =
     (if window = 0 then (if tokens = 0 then NaN else PosInf)
      else Finite (real tokens / real window * 100))"

definition f64_ge :: "f64_value \<Rightarrow> f64 \<Rightarrow> bool" where
  "f64_ge x t = (case x of Finite v \<Rightarrow> t \<le> v | PosInf \<Rightarrow> True | NaN \<Rightarrow> False)"

definition f64_min :: "f64_value \<Rightarrow> f64 \<Rightarrow> f64" where
  "f64_min x y = (case x of Finite v \<Rightarrow> min v y | PosInf \<Rightarrow> y | NaN \<Rightarrow> y)"

record context_usage =
  percentage :: f64
  approaching_limit :: bool
  tokens_remaining :: usize
  compaction_state :: compaction_state

text \<open>
  The resolved window means the learned working window when adaptive learning is on
  (the full window adds the buffer) and the advertised full window otherwise (the working
  window subtracts it, saturating at 0).
\<close>

definition context_windows :: "context_config \<Rightarrow> usize \<Rightarrow> usize \<times> usize" where
  "context_windows ctx base_window =
     (if adaptive_learning ctx then (base_window + buffer_size ctx, base_window)
      else (base_window, base_window - buffer_size ctx))"

definition context_usage_of ::
  "context_config \<Rightarrow> usize \<Rightarrow> usize \<Rightarrow> compaction_state \<Rightarrow> context_usage" where
  "context_usage_of ctx base_window total_tokens cstate =
     (let (full_window, working_window) = context_windows ctx base_window;
          pct = (if percentage_mode ctx = ''working'' then f64_percent total_tokens working_window
                 else f64_percent total_tokens full_window);
          remaining = working_window - total_tokens;
          effective_threshold = get_effective_threshold ctx
      in \<lparr>percentage = f64_min pct 100, approaching_limit = f64_ge pct effective_threshold,
          tokens_remaining = remaining, compaction_state = cstate\<rparr>)"

record usage_env = compaction_env +
  learned_windows :: "(string \<rightharpoonup> learned_window) option"

text \<open>
  \<open>global_cfg\<close> is the process-wide configuration; \<open>config_override\<close> replaces it for the
  window and percentage settings but not for the extractor's buffer size, which reads the
  global configuration itself.
\<close>

definition calculate_context_usage ::
  "usage_env \<Rightarrow> config \<Rightarrow> entry_parser \<Rightarrow> string \<Rightarrow> string option \<Rightarrow> string option \<Rightarrow>
   config option \<Rightarrow> context_usage option" where
  "calculate_context_usage env global_cfg parse transcript_path model_name session_id config_override =
     (case get_token_count_from_transcript (transcript_fs env) global_cfg parse transcript_path of
        None \<Rightarrow> None
      | Some total_tokens \<Rightarrow>
          (let cfg = unwrap_or global_cfg config_override;
               cstate = detect_compaction_state env transcript_path (unat total_tokens) session_id;
               base_window = get_context_window_for_model (learned_windows env) model_name cfg
           in Some (context_usage_of (context_cfg cfg) base_window (unat total_tokens) cstate)))"

lemmas usage_defs [model_defs] = f64_percent_def f64_ge_def f64_min_def context_windows_def
  context_usage_of_def calculate_context_usage_def

subsection \<open>An example transcript\<close>

text \<open>
  The unit test's transcript: one assistant line with 120000 input and 5000 output tokens
  and one user line, in \<open>/t/s.jsonl\<close>; no hook state, no database.
\<close>

definition example_usage_parse :: entry_parser where
  "example_usage_parse line =
     (if line = ''A'' then
        Some \<lparr>message = \<lparr>role = ''assistant'', usage = Some \<lparr>usage_input_tokens = Some 120000,
           usage_output_tokens = Some 5000, cache_read_input_tokens = None,
           cache_creation_input_tokens = None\<rparr>\<rparr>, timestamp = ''2025-08-22T18:32:37.789Z''\<rparr>
      else if line = ''U'' then
        Some \<lparr>message = \<lparr>role = ''user'', usage = None\<rparr>, timestamp = ''2025-08-22T18:33:00.000Z''\<rparr>
      else None)"

definition example_usage_env :: usage_env where
  "example_usage_env =
     \<lparr>read_state = Map.empty, stats_db = None,
      transcript_fs = \<lparr>canonicalize = [''/t/s.jsonl'' \<mapsto> ''/t/s.jsonl''],
        metadata = [''/t/s.jsonl'' \<mapsto> \<lparr>ftype = RegularFile,
          contents = ''A'' @ [CHR 0x0A] @ ''U'' @ [CHR 0x0A], modified_elapsed = Some 60\<rparr>]\<rparr>,
      learned_windows = None\<rparr>"

subsection \<open>Lemmas\<close>

lemma f64_min_bounds:
  assumes "\<And>v. x = Finite v \<Longrightarrow> 0 \<le> v"
  shows "0 \<le> f64_min x 100 \<and> f64_min x 100 \<le> 100"
  using assms by (cases x) (auto simp: f64_min_def)

lemma f64_percent_nonneg: "f64_percent t w = Finite v \<Longrightarrow> 0 \<le> v"
  by (auto simp: f64_percent_def split: if_splits)

lemma context_usage_of_percentage_bounds:
  "0 \<le> percentage (context_usage_of ctx b t c) \<and> percentage (context_usage_of ctx b t c) \<le> 100"
  unfolding context_usage_of_def
  by (auto simp: Let_def split: prod.splits intro!: f64_min_bounds dest: f64_percent_nonneg)

lemma calculate_context_usage_Some:
  assumes "calculate_context_usage env global_cfg parse path model_name session_id config_override = Some u"
  shows "\<exists>t. get_token_count_from_transcript (transcript_fs env) global_cfg parse path = Some t \<and>
     u = context_usage_of (context_cfg (unwrap_or global_cfg config_override))
           (get_context_window_for_model (learned_windows env) model_name (unwrap_or global_cfg config_override))
           (unat t) (detect_compaction_state env path (unat t) session_id)"
  using assms by (auto simp: calculate_context_usage_def Let_def split: option.splits)


subsection \<open>Properties of the estimator\<close>

text \<open>
  C1. Whenever the estimator produces a result, its percentage lies between 0 and 100,
  including when the window it divides by is 0.
\<close>

theorem calculate_context_usage_percentage_bounds:
  assumes "calculate_context_usage env global_cfg parse path model_name session_id config_override = Some u"
  shows "0 \<le> percentage u \<and> percentage u \<le> 100"
  using calculate_context_usage_Some [OF assms] context_usage_of_percentage_bounds by auto

theorem calculate_context_usage_percentage_bounds_witness:
  "calculate_context_usage example_usage_env default_config example_usage_parse ''/t/s.jsonl'' None None None
     = Some \<lparr>percentage = 125 / 2, approaching_limit = False, tokens_remaining = 35000,
             compaction_state = Normal\<rparr> \<and>
   0 \<le> percentage \<lparr>percentage = 125 / 2, approaching_limit = False, tokens_remaining = 35000,
             compaction_state = Normal\<rparr> \<and>
   percentage \<lparr>percentage = 125 / 2, approaching_limit = False, tokens_remaining = 35000,
             compaction_state = Normal\<rparr> \<le> (100::real)"
proof -
  have h: "calculate_context_usage example_usage_env default_config example_usage_parse ''/t/s.jsonl'' None None None
     = Some \<lparr>percentage = 125 / 2, approaching_limit = False, tokens_remaining = 35000,
             compaction_state = Normal\<rparr>"
    by (simp add: example_usage_env_def example_usage_parse_def model_defs)
  show ?thesis using h calculate_context_usage_percentage_bounds [OF h] by blast
qed

text \<open>
  The specification's example: 125000 tokens against the default 200000-token window
  give 62.5\<percent> in "full" mode; with adaptive learning off, "working" mode divides by
  200000 - 40000 = 160000 and gives 78.125\<percent>. Both leave 35000 tokens before the buffer.
\<close>

theorem calculate_context_usage_spec_example:
  "calculate_context_usage example_usage_env default_config example_usage_parse ''/t/s.jsonl'' None None None
     = Some \<lparr>percentage = 125 / 2, approaching_limit = False, tokens_remaining = 35000,
             compaction_state = Normal\<rparr> \<and>
   calculate_context_usage example_usage_env default_config example_usage_parse ''/t/s.jsonl'' None None
     (Some (default_config\<lparr>context_cfg := default_context_config\<lparr>percentage_mode := ''working''\<rparr>\<rparr>))
     = Some \<lparr>percentage = 625 / 8, approaching_limit = False, tokens_remaining = 35000,
             compaction_state = Normal\<rparr>"
  by (simp add: example_usage_env_def example_usage_parse_def model_defs)

text \<open>
  The mode-aware default thresholds do not warn at the same token count: with the
  default 200000-token window and 40000-token buffer, "full" mode warns from 150000 tokens
  on (75\<percent>) and "working" mode only from 150400 (94\<percent> of 160000), although the
  specification and the code's comments say the 94 was chosen to give the same count.
\<close>

theorem default_thresholds_warn_apart:
  "(approaching_limit (context_usage_of default_context_config 200000 t c) \<longleftrightarrow> 150000 \<le> t) \<and>
   (approaching_limit (context_usage_of (default_context_config\<lparr>percentage_mode := ''working''\<rparr>) 200000 t c)
     \<longleftrightarrow> 150400 \<le> t)"
  by (simp add: context_usage_of_def context_windows_def f64_percent_def f64_ge_def
        get_effective_threshold_def default_context_config_def default_percentage_mode_def
        field_simps)

text \<open>
  C10. When the buffer is at least the window and learning is off, the working window is
  0; in "working" mode the division yields infinity, which the code turns into a
  percentage of exactly 100 with the warning on and no tokens remaining.
\<close>

theorem zero_working_window_saturates:
  assumes "\<not> adaptive_learning ctx" and "percentage_mode ctx = ''working''"
    and "base_window \<le> buffer_size ctx" and "0 < total_tokens"
  shows "percentage (context_usage_of ctx base_window total_tokens c) = 100 \<and>
         approaching_limit (context_usage_of ctx base_window total_tokens c) \<and>
         tokens_remaining (context_usage_of ctx base_window total_tokens c) = 0"
  using assms by (simp add: context_usage_of_def context_windows_def f64_percent_def
                    f64_ge_def f64_min_def)

theorem zero_working_window_saturates_witness:
  "\<not> adaptive_learning (default_context_config\<lparr>percentage_mode := ''working''\<rparr>) \<and>
   percentage_mode (default_context_config\<lparr>percentage_mode := ''working''\<rparr>) = ''working'' \<and>
   (30000::nat) \<le> buffer_size (default_context_config\<lparr>percentage_mode := ''working''\<rparr>) \<and>
   0 < (1000::nat) \<and>
   percentage (context_usage_of (default_context_config\<lparr>percentage_mode := ''working''\<rparr>) 30000 1000 Normal) = 100 \<and>
   approaching_limit (context_usage_of (default_context_config\<lparr>percentage_mode := ''working''\<rparr>) 30000 1000 Normal) \<and>
   tokens_remaining (context_usage_of (default_context_config\<lparr>percentage_mode := ''working''\<rparr>) 30000 1000 Normal) = 0"
proof -
  let ?ctx = "default_context_config\<lparr>percentage_mode := ''working''\<rparr>"
  have h1: "\<not> adaptive_learning ?ctx" and h2: "percentage_mode ?ctx = ''working''"
    and h3: "(30000::nat) \<le> buffer_size ?ctx" and h4: "0 < (1000::nat)"
    by (simp_all add: default_context_config_def)
  show ?thesis using h1 h2 h3 h4 zero_working_window_saturates [OF h1 h2 h3 h4, of Normal] by simp
qed

end
