(* ===== verification/Display.thy ===== *)
theory Display
  imports Prelude
begin

text \<open>
  The numeric formatting of the statusline (\<open>src/src/utils.rs\<close> and
  \<open>src/src/display.rs\<close>): \<open>format_token_count\<close>, \<open>format_duration\<close>, and the progress
  bar drawn by \<open>format_context_bar\<close>. Colours come from the theme (I/O on theme files and
  environment variables) and are not modelled; the bar is the text between the colour
  codes.

  Two \<open>f64\<close> roundings occur. \<open>(tokens as f64 / 1000.0).round()\<close> rounds half away from
  zero; for counts below \<open>2^40\<close> the quotient is either exactly a half-integer or at least
  0.001 away from one, far more than its rounding error, so it equals
  \<open>(tokens + 500) div 1000\<close>; \<open>format_token_count_f64\<close> proves this for every value a
  correctly rounded division can produce. The bar's \<open>(ratio * width).round() as usize\<close> is modelled on
  the exact real product: round half away from zero, and the saturating cast sends
  negative values to 0.
\<close>

definition format_token_count :: "usize \<Rightarrow> string" where
  "format_token_count tokens =
     (if tokens = 0 then ''0''
      else string_of_nat (max ((tokens + 500) div 1000) 1) @ ''k'')"

definition format_duration :: "nat \<Rightarrow> string" where
  "format_duration seconds =
     (if seconds < 60 then string_of_nat seconds @ ''s''
      else if seconds < 3600 then string_of_nat (seconds div 60) @ ''m''
      else string_of_nat (seconds div 3600) @ ''h'' @ string_of_nat ((seconds mod 3600) div 60) @ ''m'')"

definition f64_round_to_usize :: "f64 \<Rightarrow> nat" where
  "f64_round_to_usize x = (if x \<le> 0 then 0 else nat \<lfloor>x + 1 / 2\<rfloor>)"

definition bar_filled :: "f64 \<Rightarrow> nat \<Rightarrow> nat" where
  "bar_filled pct bar_width = min (f64_round_to_usize (pct / 100 * real bar_width)) bar_width"

definition progress_bar :: "f64 \<Rightarrow> nat \<Rightarrow> string" where
  "progress_bar pct bar_width =
     (let filled = bar_filled pct bar_width;
          empty = bar_width - filled
      in replicate filled CHR ''='' @ (if filled < bar_width then ''>'' else []) @
         replicate (empty - (if filled < bar_width then 1 else 0)) CHR ''-'')"

lemmas display_defs [model_defs] = format_token_count_def format_duration_def
  f64_round_to_usize_def bar_filled_def progress_bar_def

subsection \<open>Lemmas\<close>

lemma bar_filled_le: "bar_filled pct w \<le> w"
  by (simp add: bar_filled_def)

lemma string_of_nat_no_k: "CHR ''k'' \<notin> set (string_of_nat n)"
  using string_of_nat_digits [of n] by (auto simp: list_all_iff is_digit_def)

subsection \<open>Properties of the formatting\<close>

text \<open>
  The token counts of the specification and the unit test: 0 shows as \<open>0\<close>, any
  positive count as its nearest thousand with at least \<open>1k\<close>.
\<close>

theorem format_token_count_examples:
  "format_token_count 0 = ''0'' \<and> format_token_count 1 = ''1k'' \<and> format_token_count 100 = ''1k'' \<and>
   format_token_count 500 = ''1k'' \<and> format_token_count 999 = ''1k'' \<and>
   format_token_count 1234 = ''1k'' \<and> format_token_count 1500 = ''2k'' \<and>
   format_token_count 179000 = ''179k'' \<and> format_token_count 200000 = ''200k'' \<and>
   format_token_count 1000000 = ''1000k''"
  by (simp add: format_token_count_def digit_char_def)

text \<open>
  A positive count is shown as a decimal number followed by \<open>k\<close>, and reading that
  number back gives the count rounded to the nearest thousand, at least 1.
\<close>

theorem format_token_count_roundtrip:
  assumes "0 < tokens" and "tokens < 2 ^ 32"
  shows "last (format_token_count tokens) = CHR ''k'' \<and>
         parse_u32 (butlast (format_token_count tokens)) = Some (max ((tokens + 500) div 1000) 1)"
proof -
  have "tokens + 500 < 2 ^ 32 * 1000" using assms(2) by simp
  then have "(tokens + 500) div 1000 < 2 ^ 32" by (rule less_mult_imp_div_less)
  then have "max ((tokens + 500) div 1000) 1 < 2 ^ 32" by (simp add: max_def)
  with assms(1) show ?thesis by (simp add: format_token_count_def)
qed

theorem format_token_count_roundtrip_witness:
  "0 < (1500::nat) \<and> (1500::nat) < 2 ^ 32 \<and> last (format_token_count 1500) = CHR ''k'' \<and>
   parse_u32 (butlast (format_token_count 1500)) = Some 2"
  using format_token_count_roundtrip [of 1500] by simp

text \<open>
  C14. The integer formula of the model is the code's floating-point computation: for
  every positive count below \<open>2^40\<close> and every value \<open>q\<close> that \<open>tokens as f64 / 1000.0\<close>
  can produce (IEEE division rounds to nearest, so \<open>q\<close> is at least as close to the
  exact quotient as every binary64 number \<open>m / 2^e\<close>), \<open>format_token_count\<close> prints
  \<open>max(q.round() as usize, 1)\<close> followed by \<open>k\<close>.
\<close>

theorem format_token_count_f64:
  fixes q :: real
  assumes pos: "0 < tokens" and small: "tokens < 2 ^ 40"
    and nearest: "\<forall>(m::int) (e::nat). \<bar>m\<bar> < 2 ^ 53 \<longrightarrow>
                    \<bar>q - real tokens / 1000\<bar> \<le> \<bar>real_of_int m / 2 ^ e - real tokens / 1000\<bar>"
  shows "format_token_count tokens = string_of_nat (max (f64_round_to_usize q) 1) @ ''k''"
proof -
  define x where "x = real tokens / 1000"
  define n where "n = (tokens + 500) div 1000"
  have fl: "\<lfloor>x + 1 / 2\<rfloor> = int n"
  proof -
    have "x + 1 / 2 = real (tokens + 500) / real (1000::nat)" by (simp add: x_def field_simps)
    then show ?thesis by (simp only: floor_divide_of_nat_eq n_def)
  qed
  define m where "m = \<lfloor>x * 2 ^ 20\<rfloor>"
  have "x * 2 ^ 20 < 2 ^ 53"
    using small by (simp add: x_def)
  moreover have "0 \<le> x" by (simp add: x_def)
  ultimately have "0 \<le> m" "m < 2 ^ 53" unfolding m_def by (simp_all add: floor_less_iff)
  then have "\<bar>m\<bar> < 2 ^ 53" by simp
  with nearest have close: "\<bar>q - x\<bar> \<le> \<bar>real_of_int m / 2 ^ 20 - x\<bar>"
    unfolding x_def by blast
  have "\<bar>real_of_int m / 2 ^ 20 - x\<bar> < 1 / 2 ^ 20"
    unfolding m_def by (simp add: abs_less_iff field_simps) linarith
  with close have err: "\<bar>q - x\<bar> < 1 / 2 ^ 20" by linarith
  have "\<lfloor>q + 1 / 2\<rfloor> = int n"
  proof (cases "x + 1 / 2 = real n")
    case True
    then have half: "x = real_of_int (2 * int n - 1) / 2 ^ 1" by simp
    have "\<bar>2 * int n - 1\<bar> < 2 ^ 53"
      using small by (simp add: n_def)
    with nearest have "\<bar>q - x\<bar> \<le> 0"
      unfolding x_def by (metis half x_def diff_self abs_zero)
    then show ?thesis using True by simp
  next
    case False
    have lo: "real n + 1 / 1000 \<le> x + 1 / 2"
    proof -
      have "real n \<le> x + 1 / 2" using fl by linarith
      with False have "real n < x + 1 / 2" by simp
      then have "1000 * n < tokens + 500" by (simp add: x_def field_simps)
      then have "1000 * n + 1 \<le> tokens + 500" by simp
      then show ?thesis by (simp add: x_def field_simps)
    qed
    have hi: "x + 1 / 2 + 1 / 1000 \<le> real n + 1"
    proof -
      have "tokens + 500 < 1000 + 1000 * n"
        unfolding n_def by (rule dividend_less_times_div) simp
      then have "tokens + 500 < 1000 * (n + 1)" by simp
      then have "tokens + 500 + 1 \<le> 1000 * (n + 1)" by simp
      then show ?thesis by (simp add: x_def field_simps)
    qed
    from err have e1: "q - x < 1 / 2 ^ 20" and e2: "x - q < 1 / 2 ^ 20"
      by (simp_all only: abs_less_iff) linarith+
    have "real n \<le> q + 1 / 2" and "q + 1 / 2 < real n + 1"
      using lo hi e1 e2 by simp_all
    then show ?thesis by (intro floor_unique) simp_all
  qed
  then have "f64_round_to_usize q = n"
  proof -
    assume fq: "\<lfloor>q + 1 / 2\<rfloor> = int n"
    then have "real n \<le> q + 1 / 2" using of_int_floor_le [of "q + 1 / 2"] by simp
    then have "q \<le> 0 \<Longrightarrow> n = 0" by simp
    with fq show ?thesis by (auto simp: f64_round_to_usize_def)
  qed
  then show ?thesis using pos by (simp add: format_token_count_def n_def)
qed

theorem format_token_count_f64_witness:
  "format_token_count 1500 = ''2k'' \<and> f64_round_to_usize (3 / 2) = 2"
  using format_token_count_f64 [of 1500 "3 / 2"] by (simp add: f64_round_to_usize_def digit_char_def)

text \<open>
  The progress bar always has exactly the configured width, whatever the percentage
  (including values outside 0 to 100).
\<close>

theorem progress_bar_length: "length (progress_bar pct bar_width) = bar_width"
proof (cases "bar_filled pct bar_width < bar_width")
  case True
  then show ?thesis by (simp add: progress_bar_def Let_def)
next
  case False
  with bar_filled_le [of pct bar_width] show ?thesis by (simp add: progress_bar_def Let_def)
qed

text \<open>
  Durations of an hour or more show whole hours and the remaining whole minutes,
  the minutes below 60, so the shown time is at most a minute below the real one.
\<close>

theorem format_duration_hours:
  assumes "3600 \<le> seconds"
  shows "format_duration seconds =
           string_of_nat (seconds div 3600) @ ''h'' @ string_of_nat ((seconds mod 3600) div 60) @ ''m'' \<and>
         (seconds mod 3600) div 60 < 60 \<and>
         3600 * (seconds div 3600) + 60 * ((seconds mod 3600) div 60) \<le> seconds \<and>
         seconds < 3600 * (seconds div 3600) + 60 * ((seconds mod 3600) div 60) + 60"
proof -
  let ?h = "seconds div 3600" and ?r = "seconds mod 3600"
  have split_h: "seconds = 3600 * ?h + ?r" by simp
  have "?r < 60 * 60" by simp
  then have m_lt: "?r div 60 < 60" by (rule less_mult_imp_div_less)
  have split_m: "?r = 60 * (?r div 60) + ?r mod 60" by simp
  have "?r mod 60 < 60" by simp
  with split_h split_m have bounds:
    "3600 * ?h + 60 * (?r div 60) \<le> seconds \<and> seconds < 3600 * ?h + 60 * (?r div 60) + 60"
    by linarith
  from assms have "format_duration seconds =
      string_of_nat ?h @ ''h'' @ string_of_nat (?r div 60) @ ''m''"
    by (simp add: format_duration_def)
  with m_lt bounds show ?thesis by blast
qed

theorem format_duration_hours_witness:
  "3600 \<le> (3665::nat) \<and> format_duration 3665 = ''1h1m''"
  using format_duration_hours [of 3665] by (simp add: digit_char_def)

end
