(* ===== verification/ContextBar.thy ===== *)
theory ContextBar
  imports Terminal Usage Display
begin

text \<open>
  Colours and the context bar of \<open>src/src/display.rs\<close>. A colour is a role of the theme
  (\<open>Colors::directory()\<close>, \<open>Colors::cost_color(..)\<close>, ...); what escape sequence a role
  resolves to is read from theme files and is the argument \<open>theme_color\<close> of a
  \<open>palette\<close>. \<open>Colors::enabled()\<close> (no \<open>NO_COLOR\<close> in the environment) is its flag: when
  it is off every colour and \<open>reset\<close> is the empty string, as in the code.
  \<open>format_context_bar\<close> reads the process-wide configuration, never the display
  configuration passed to \<open>format_statusline_string\<close>; it takes that configuration as
  \<open>global_cfg\<close>. The output is a list of code points; the bullet (U+2022), the warning sign
  (U+26A0) and the check mark (U+2713) are the code points of the source's literals.
\<close>

datatype color_role =
  Red | Green | Yellow | Cyan | Gray | LightGray | Orange | Separator
| DirectoryColor | ModelColor | DurationColor | LinesAddedColor | LinesRemovedColor
| CostLow | CostMedium | CostHigh
| ContextNormal | ContextCaution | ContextWarning | ContextCritical

record palette =
  colors_enabled :: bool
  theme_color :: "color_role \<Rightarrow> ustr"

definition color :: "palette \<Rightarrow> color_role \<Rightarrow> ustr" where
  "color p r = (if colors_enabled p then theme_color p r else [])"

definition reset :: "palette \<Rightarrow> ustr" where
  "reset p = (if colors_enabled p then [esc] @ u ''[0m'' else [])"

definition warning_sign :: nat where
  "warning_sign = 0x26A0"

definition check_mark :: nat where
  "check_mark = 0x2713"

definition bullet :: nat where
  "bullet = 0x2022"

subsection \<open>Colour thresholds\<close>

definition cost_color_role :: "cost_config \<Rightarrow> f64 \<Rightarrow> color_role" where
  "cost_color_role ccfg cost =
     (if cost \<ge> medium_threshold ccfg then CostHigh
      else if cost \<ge> low_threshold ccfg then CostMedium else CostLow)"

definition context_color_role :: "display_config \<Rightarrow> f64 \<Rightarrow> color_role" where
  "context_color_role dcfg pct =
     (if pct > context_critical_threshold dcfg then ContextCritical
      else if pct > context_warning_threshold dcfg then ContextWarning
      else if pct > context_caution_threshold dcfg then ContextCaution
      else ContextNormal)"

definition context_severity :: "color_role \<Rightarrow> nat" where
  "context_severity r =
     (case r of ContextCritical \<Rightarrow> 3 | ContextWarning \<Rightarrow> 2 | ContextCaution \<Rightarrow> 1 | _ \<Rightarrow> 0)"

subsection \<open>The context bar\<close>

text \<open>\<open>percentage.round() as u32\<close>: rounding half away from zero, then the saturating cast.\<close>

definition f64_round_to_u32 :: "f64 \<Rightarrow> nat" where
  "f64_round_to_u32 x = min (f64_round_to_usize x) (2 ^ 32 - 1)"

definition token_display ::
  "palette \<Rightarrow> display_config \<Rightarrow> u32 option \<Rightarrow> usize option \<Rightarrow> ustr" where
  "token_display p dcfg current_tokens window_sz =
     (case (current_tokens, window_sz) of
        (Some current, Some window) \<Rightarrow>
          if show_context_tokens dcfg
          then u '' '' @ color p LightGray @ u (format_token_count (unat current)) @ u ''/'' @
               u (format_token_count window) @ reset p
          else []
      | _ \<Rightarrow> [])"

definition percent_and_bar :: "palette \<Rightarrow> display_config \<Rightarrow> f64 \<Rightarrow> ustr" where
  "percent_and_bar p dcfg pct =
     (let c = color p (context_color_role dcfg pct)
      in c @ u (string_of_nat (f64_round_to_u32 pct)) @ u ''%'' @ reset p @ u '' '' @
         c @ u ''['' @ u (progress_bar pct (progress_bar_width dcfg)) @ u '']'' @ reset p)"

definition format_context_bar ::
  "palette \<Rightarrow> config \<Rightarrow> context_usage \<Rightarrow> u32 option \<Rightarrow> usize option \<Rightarrow> ustr" where
  "format_context_bar p global_cfg ctx_usage current_tokens window_sz =
     (let dcfg = display_cfg global_cfg;
          tokens = token_display p dcfg current_tokens window_sz
      in case compaction_state ctx_usage of
           InProgress \<Rightarrow> color p Yellow @ u ''Compacting...'' @ reset p @ tokens
         | RecentlyCompleted \<Rightarrow>
             percent_and_bar p dcfg (percentage ctx_usage) @ u '' '' @ color p Green @ [check_mark] @
             reset p @ tokens
         | Normal \<Rightarrow>
             percent_and_bar p dcfg (percentage ctx_usage) @
             (if approaching_limit ctx_usage then u '' '' @ color p Orange @ [warning_sign] @ reset p
              else []) @ tokens)"

lemmas context_bar_defs [model_defs] = color_def reset_def cost_color_role_def
  context_color_role_def f64_round_to_u32_def token_display_def percent_and_bar_def
  format_context_bar_def

subsection \<open>Lemmas\<close>

text \<open>A code point from U+0100 on occurs in the bar only where a theme colour or one of the
  bar's own symbols puts it: ASCII text, digits and \<open>reset\<close> cannot contain it.\<close>

lemma high_notin_u [simp]: "256 \<le> x \<Longrightarrow> x \<notin> set (u s)"
proof
  assume "256 \<le> x" and "x \<in> set (u s)"
  then obtain c where "x = of_char c" and "256 \<le> x" by (auto simp: u_def)
  with nat_of_char_less_256 [of c] show False by linarith
qed

lemma high_notin_color [simp]:
  "\<forall>r. x \<notin> set (theme_color p r) \<Longrightarrow> x \<notin> set (color p r)"
  by (simp add: color_def)

lemma high_notin_reset [simp]: "256 \<le> x \<Longrightarrow> x \<notin> set (reset p)"
  by (simp add: reset_def esc_def)

lemma high_notin_token_display [simp]:
  "256 \<le> x \<Longrightarrow> \<forall>r. x \<notin> set (theme_color p r) \<Longrightarrow> x \<notin> set (token_display p d c w)"
  by (simp add: token_display_def split: option.split)

lemma high_notin_percent_and_bar [simp]:
  "256 \<le> x \<Longrightarrow> \<forall>r. x \<notin> set (theme_color p r) \<Longrightarrow> x \<notin> set (percent_and_bar p d pct)"
  by (simp add: percent_and_bar_def Let_def)

lemma symbols_high [simp]: "256 \<le> warning_sign" "256 \<le> check_mark" "warning_sign \<noteq> check_mark"
  "check_mark \<noteq> warning_sign"
  by (simp_all add: warning_sign_def check_mark_def)

lemma context_severity_mono_step:
  "x \<le> y \<Longrightarrow> context_severity (context_color_role d x) \<le> context_severity (context_color_role d y)"
  by (auto simp: context_color_role_def context_severity_def)

subsection \<open>Properties of the colours and the bar\<close>

text \<open>
  The context colour never gets milder as the percentage grows: with any thresholds,
  even unordered ones, a higher percentage has a colour of at least the same severity
  (normal, caution, warning, critical).
\<close>

theorem context_color_monotone:
  assumes "pct1 \<le> pct2"
  shows "context_severity (context_color_role dcfg pct1) \<le> context_severity (context_color_role dcfg pct2)"
  using assms by (auto simp: context_color_role_def context_severity_def)

theorem context_color_monotone_witness:
  "(60::real) \<le> 95 \<and>
   context_color_role default_display_config 60 = ContextCaution \<and>
   context_color_role default_display_config 95 = ContextCritical \<and>
   context_severity (context_color_role default_display_config 60) \<le>
   context_severity (context_color_role default_display_config 95)"
  using context_color_monotone [of 60 95 default_display_config]
  by (simp add: context_color_role_def default_display_config_def context_severity_def)

text \<open>
  The unit test of \<open>format_context_bar\<close>, exactly: with colours off and the default
  width of 10, 10\<percent> draws \<open>10% [=>--------]\<close> with no warning, and 95\<percent> near the
  limit rounds to a full bar and appends the warning sign.
\<close>

theorem context_bar_unit_test:
  "format_context_bar \<lparr>colors_enabled = False, theme_color = \<lambda>_. []\<rparr> default_config
     \<lparr>percentage = 10, approaching_limit = False, tokens_remaining = 180000, compaction_state = Normal\<rparr>
     None None = u ''10% [=>--------]'' \<and>
   format_context_bar \<lparr>colors_enabled = False, theme_color = \<lambda>_. []\<rparr> default_config
     \<lparr>percentage = 95, approaching_limit = True, tokens_remaining = 10000, compaction_state = Normal\<rparr>
     None None = u ''95% [==========] '' @ [warning_sign]"
  by (simp add: context_bar_defs default_config_def default_display_config_def
      progress_bar_def bar_filled_def f64_round_to_usize_def u_def digit_char_def)

text \<open>
  Whatever the theme (as long as its colours do not themselves contain the symbols),
  the warning sign is shown exactly for a \<open>Normal\<close> state near the limit, and the check mark
  exactly for \<open>RecentlyCompleted\<close>: a recently completed compaction hides the warning even
  when the percentage is above the threshold.
\<close>

theorem context_bar_symbols:
  assumes "\<forall>r. warning_sign \<notin> set (theme_color p r)" and "\<forall>r. check_mark \<notin> set (theme_color p r)"
  shows "(warning_sign \<in> set (format_context_bar p cfg cu cur w) \<longleftrightarrow>
            compaction_state cu = Normal \<and> approaching_limit cu) \<and>
         (check_mark \<in> set (format_context_bar p cfg cu cur w) \<longleftrightarrow>
            compaction_state cu = RecentlyCompleted)"
  using assms by (cases "compaction_state cu") (simp_all add: format_context_bar_def Let_def)

theorem context_bar_symbols_witness:
  "(\<forall>r. warning_sign \<notin> set (theme_color \<lparr>colors_enabled = True, theme_color = \<lambda>_. [esc]\<rparr> r)) \<and>
   (\<forall>r. check_mark \<notin> set (theme_color \<lparr>colors_enabled = True, theme_color = \<lambda>_. [esc]\<rparr> r)) \<and>
   warning_sign \<notin> set (format_context_bar \<lparr>colors_enabled = True, theme_color = \<lambda>_. [esc]\<rparr> default_config
     \<lparr>percentage = 95, approaching_limit = True, tokens_remaining = 10000,
      compaction_state = RecentlyCompleted\<rparr> None None)"
  using context_bar_symbols [of "\<lparr>colors_enabled = True, theme_color = \<lambda>_. [esc]\<rparr>"
      default_config "\<lparr>percentage = 95, approaching_limit = True, tokens_remaining = 10000,
      compaction_state = RecentlyCompleted\<rparr>" None None]
  by (simp add: esc_def warning_sign_def check_mark_def)

end
