(* ===== verification/Duration.thy ===== *)
theory Duration
  imports Tokens
begin

text \<open>
  The session duration shown in the status line, \<open>parse_duration\<close> in
  \<open>src/src/utils.rs\<close>: the transcript is validated, read line by line with
  \<open>lines().map_while(|l| l.ok())\<close>, and the duration is the difference between the
  timestamp of the first line and that of the last line that decodes as an entry.
  \<open>parse_iso8601_to_unix\<close> delegates to chrono's RFC 3339 and naive-datetime parsers
  (library code); it is the argument \<open>parse_ts\<close>, as the JSON decoder is \<open>parse\<close>, and
  theory \<open>Timestamps\<close> instantiates it with its model of the parser.
  The loop is a left fold of \<open>duration_step\<close> over the lines, its state the triple
  \<open>(first_timestamp, last_timestamp, first_line)\<close> of the code. \<open>duration_spec\<close> is the
  same computation stated without the loop; \<open>parse_duration_equiv\<close> shows they agree.
\<close>

type_synonym timestamp_parser = "string \<Rightarrow> nat option"

definition duration_step ::
  "entry_parser \<Rightarrow> timestamp_parser \<Rightarrow> nat option \<times> nat option \<times> string option \<Rightarrow> string \<Rightarrow>
   nat option \<times> nat option \<times> string option" where
  "duration_step parse parse_ts acc line =
     (let (first_timestamp, last_timestamp, first_line) = acc;
          (first_timestamp', first_line') =
            (if first_line = None
             then ((case parse line of Some entry \<Rightarrow> parse_ts (timestamp entry) | None \<Rightarrow> first_timestamp),
                   Some line)
             else (first_timestamp, first_line));
          last_timestamp' =
            (case parse line of Some entry \<Rightarrow> parse_ts (timestamp entry) | None \<Rightarrow> last_timestamp)
      in (first_timestamp', last_timestamp', first_line'))"

definition duration_of :: "nat option \<Rightarrow> nat option \<Rightarrow> nat option" where
  "duration_of first_timestamp last_timestamp =
     (if first_timestamp = None \<or> last_timestamp = None then None
      else case (first_timestamp, last_timestamp) of
        (Some first, Some last_ts) \<Rightarrow> if last_ts > first then Some (last_ts - first) else None
      | _ \<Rightarrow> None)"

definition duration_of_lines :: "entry_parser \<Rightarrow> timestamp_parser \<Rightarrow> string list \<Rightarrow> nat option" where
  "duration_of_lines parse parse_ts lines =
     (let (first_timestamp, last_timestamp, _) = foldl (duration_step parse parse_ts) (None, None, None) lines
      in duration_of first_timestamp last_timestamp)"

definition parse_duration ::
  "filesystem \<Rightarrow> entry_parser \<Rightarrow> timestamp_parser \<Rightarrow> string \<Rightarrow> nat option" where
  "parse_duration fs parse parse_ts transcript_path =
     (case validate_transcript_file fs transcript_path of
        Inl _ \<Rightarrow> None
      | Inr safe_path \<Rightarrow>
          (case metadata fs safe_path of
             None \<Rightarrow> None
           | Some file \<Rightarrow> duration_of_lines parse parse_ts (read_lines (contents file))))"

subsection \<open>The computation without the loop\<close>

definition entry_ts :: "entry_parser \<Rightarrow> timestamp_parser \<Rightarrow> string \<Rightarrow> nat option" where
  "entry_ts parse parse_ts line = (case parse line of Some e \<Rightarrow> parse_ts (timestamp e) | None \<Rightarrow> None)"

definition last_entry_ts :: "entry_parser \<Rightarrow> timestamp_parser \<Rightarrow> string list \<Rightarrow> nat option" where
  "last_entry_ts parse parse_ts lines =
     (let es = filter (\<lambda>l. parse l \<noteq> None) lines
      in if es = [] then None else entry_ts parse parse_ts (last es))"

definition duration_spec :: "entry_parser \<Rightarrow> timestamp_parser \<Rightarrow> string list \<Rightarrow> nat option" where
  "duration_spec parse parse_ts lines =
     (case lines of
        [] \<Rightarrow> None
      | l0 # _ \<Rightarrow>
          (case (entry_ts parse parse_ts l0, last_entry_ts parse parse_ts lines) of
             (Some a, Some b) \<Rightarrow> if a < b then Some (b - a) else None
           | _ \<Rightarrow> None))"

lemmas duration_defs [model_defs] = duration_step_def duration_of_def duration_of_lines_def
  parse_duration_def

text \<open>A transcript of entries stamped \<open>T0\<close> (second 1000) and \<open>T1\<close> (second 4600), one
  with an unreadable stamp, and a summary line that is not an entry.\<close>

definition example_ts_parse :: timestamp_parser where
  "example_ts_parse ts = (if ts = ''T0'' then Some 1000 else if ts = ''T1'' then Some 4600 else None)"

definition example_stamped :: "string \<Rightarrow> transcript_entry" where
  "example_stamped ts = \<lparr>message = \<lparr>role = ''user'', usage = None\<rparr>, timestamp = ts\<rparr>"

definition example_duration_parse :: entry_parser where
  "example_duration_parse line =
     (if line = ''e0'' then Some (example_stamped ''T0'')
      else if line = ''e1'' then Some (example_stamped ''T1'')
      else if line = ''eb'' then Some (example_stamped ''bad'') else None)"

subsection \<open>Lemmas\<close>

lemma duration_step_later:
  "duration_step parse parse_ts (f, l, Some x) line =
     (f, (case parse line of Some e \<Rightarrow> parse_ts (timestamp e) | None \<Rightarrow> l), Some x)"
  by (simp add: duration_step_def)

lemma duration_step_first:
  "duration_step parse parse_ts (None, None, None) line =
     (entry_ts parse parse_ts line, entry_ts parse parse_ts line, Some line)"
  by (simp add: duration_step_def entry_ts_def split: option.split)

lemma foldl_duration_step_later:
  "foldl (duration_step parse parse_ts) (f, l, Some x) ls =
     (f, (let es = filter (\<lambda>l. parse l \<noteq> None) ls
          in if es = [] then l else entry_ts parse parse_ts (last es)), Some x)"
proof (induction ls rule: rev_induct)
  case Nil
  then show ?case by simp
next
  case (snoc y ys)
  then show ?case
    by (cases "parse y")
       (simp_all add: duration_step_later entry_ts_def Let_def)
qed

lemma last_entry_ts_Cons:
  "last_entry_ts parse parse_ts (l0 # ls) =
     (let es = filter (\<lambda>l. parse l \<noteq> None) ls
      in if es = [] then entry_ts parse parse_ts l0 else entry_ts parse parse_ts (last es))"
  by (cases "parse l0") (simp_all add: last_entry_ts_def entry_ts_def Let_def)

subsection \<open>Properties of the duration\<close>

text \<open>
  C21. The loop of \<open>parse_duration\<close> computes the reference \<open>duration_spec\<close>: no duration
  for an empty transcript; otherwise the timestamp of the first line and that of the last
  line that decodes as an entry, and their difference when the second is strictly later.
\<close>

theorem parse_duration_equiv:
  "duration_of_lines parse parse_ts lines = duration_spec parse parse_ts lines"
proof (cases lines)
  case Nil
  then show ?thesis by (simp add: duration_of_lines_def duration_of_def duration_spec_def)
next
  case (Cons l0 ls)
  then show ?thesis
    by (simp add: duration_of_lines_def duration_step_first foldl_duration_step_later
        duration_spec_def last_entry_ts_Cons duration_of_def Let_def
        split: option.split)
qed

text \<open>
  C22. Only the first line can supply the start: when it does not decode as an entry
  (a summary record, a truncated line), there is no duration at all, whatever the rest
  of the transcript holds.
\<close>

theorem duration_needs_first_entry:
  assumes "parse l0 = None"
  shows "duration_of_lines parse parse_ts (l0 # ls) = None"
  using assms by (simp add: duration_of_lines_def duration_step_first foldl_duration_step_later
    duration_of_def entry_ts_def)

theorem duration_needs_first_entry_witness:
  "example_duration_parse ''s'' = None \<and>
   duration_of_lines example_duration_parse example_ts_parse [''s'', ''e0'', ''e1''] = None"
  using duration_needs_first_entry [of example_duration_parse "''s''" example_ts_parse "[''e0'', ''e1'']"]
  by (simp add: example_duration_parse_def)

text \<open>
  The end is the last decodable entry, even when its timestamp cannot be read: a
  trailing line that is not an entry is skipped, but a trailing entry with a bad
  timestamp removes the duration although earlier entries were well stamped.
\<close>

theorem duration_last_entry_decides:
  "duration_of_lines example_duration_parse example_ts_parse [''e0'', ''e1''] = Some 3600 \<and>
   duration_of_lines example_duration_parse example_ts_parse [''e0'', ''e1'', ''junk''] = Some 3600 \<and>
   duration_of_lines example_duration_parse example_ts_parse [''e0'', ''e1'', ''eb''] = None \<and>
   duration_of_lines example_duration_parse example_ts_parse [''e1'', ''e0''] = None"
  by (simp add: duration_defs example_duration_parse_def example_ts_parse_def example_stamped_def)

end
