(* ===== verification/Statusline.thy ===== *)
theory Statusline
  imports ContextBar Duration
begin

text \<open>
  \<open>format_statusline_string\<close> (\<open>src/src/display.rs\<close>): up to seven parts (directory, git,
  context bar, model, duration, lines changed, cost), each shown when its \<open>show_*\<close> flag
  of the display configuration is set and its data are present, joined by a coloured
  bullet. The environment adds to the Usage environment what the code reads from the
  outside: the palette, \<open>HOME\<close>, the text of \<open>format_git_info(get_git_status(dir))\<close>
  (git queries run an external command), \<open>ModelType::abbreviation\<close> (in \<open>models.rs\<close>,
  not under \<open>src/\<close>) and the Stats Store's \<open>get_session_duration\<close>. The directory and
  model name are \<open>&str\<close>s: lists of code points here, passed to the byte-level components
  (the window resolver, the usage estimator) as their UTF-8 encoding \<open>utf8_encode\<close>.
  Money is printed with \<open>{:.2}\<close>: the exact value rounded to cents, ties to even, as
  Rust's formatter does; amounts are real numbers, so \<open>-0.0\<close> is not represented.
\<close>

subsection \<open>Representation helpers\<close>

definition utf8_encode_char :: "nat \<Rightarrow> string" where
  "utf8_encode_char c =
     (if c < 0x80 then [char_of c]
      else if c < 0x800 then [char_of (0xC0 + c div 64), char_of (0x80 + c mod 64)]
      else if c < 0x10000 then
        [char_of (0xE0 + c div 4096), char_of (0x80 + c div 64 mod 64), char_of (0x80 + c mod 64)]
      else [char_of (0xF0 + c div 262144), char_of (0x80 + c div 4096 mod 64),
            char_of (0x80 + c div 64 mod 64), char_of (0x80 + c mod 64)])"

definition utf8_encode :: "ustr \<Rightarrow> string" where
  "utf8_encode s = concat (map utf8_encode_char s)"

text \<open>\<open>char::is_whitespace\<close>, the Unicode White_Space property, for \<open>trim_start\<close>.\<close>

definition is_whitespace :: "nat \<Rightarrow> bool" where
  "is_whitespace c \<longleftrightarrow>
     (9 \<le> c \<and> c \<le> 13) \<or> c = 32 \<or> c = 0x85 \<or> c = 0xA0 \<or> c = 0x1680 \<or>
     (0x2000 \<le> c \<and> c \<le> 0x200A) \<or> c = 0x2028 \<or> c = 0x2029 \<or> c = 0x202F \<or> c = 0x205F \<or> c = 0x3000"

definition trim_start :: "ustr \<Rightarrow> ustr" where
  "trim_start s = dropWhile is_whitespace s"

text \<open>\<open>format!("{:.2}", x)\<close>.\<close>

definition round_half_even :: "real \<Rightarrow> nat" where
  "round_half_even x =
     (let f = \<lfloor>x\<rfloor>; r = x - of_int f
      in nat (if r > 1 / 2 then f + 1 else if r < 1 / 2 then f else if even f then f else f + 1))"

definition format_fixed2 :: "f64 \<Rightarrow> string" where
  "format_fixed2 x =
     (let c = round_half_even (\<bar>x\<bar> * 100)
      in (if x < 0 then ''-'' else []) @ string_of_nat (c div 100) @ ''.'' @
         [digit_char (c mod 100 div 10), digit_char (c mod 10)])"

subsection \<open>Inputs\<close>

text \<open>\<open>Cost\<close> of \<open>models.rs\<close>: the fields of the status line's JSON input.\<close>

record cost_info =
  total_cost_usd :: "f64 option"
  total_lines_added :: "nat option"
  total_lines_removed :: "nat option"

record statusline_env = usage_env +
  palette :: palette
  home :: "ustr option"
  git_info :: "ustr \<Rightarrow> ustr option"
  model_abbreviation :: "model_type \<Rightarrow> ustr"
  session_duration :: "string \<Rightarrow> nat option"

subsection \<open>The parts\<close>

definition lines_text :: "palette \<Rightarrow> nat \<Rightarrow> nat \<Rightarrow> ustr" where
  "lines_text p added removed =
     (if added > 0 then color p LinesAddedColor @ u ''+'' @ u (string_of_nat added) @ reset p else []) @
     (if removed > 0
      then (if added > 0 then u '' '' else []) @ color p LinesRemovedColor @ u ''-'' @
           u (string_of_nat removed) @ reset p
      else [])"

definition burn_rate :: "f64 \<Rightarrow> nat option \<Rightarrow> f64 option" where
  "burn_rate total_cost duration =
     (case duration of Some d \<Rightarrow> if d > 60 then Some (total_cost * 3600 / real d) else None | None \<Rightarrow> None)"

definition cost_text ::
  "palette \<Rightarrow> cost_config \<Rightarrow> f64 \<Rightarrow> nat option \<Rightarrow> f64 \<Rightarrow> ustr" where
  "cost_text p ccfg total_cost duration daily_total =
     color p (cost_color_role ccfg total_cost) @ u ''$'' @ u (format_fixed2 total_cost) @ reset p @
     (case burn_rate total_cost duration of
        Some rate \<Rightarrow>
          if rate > 0 then u '' '' @ color p LightGray @ u ''($'' @ u (format_fixed2 rate) @ u ''/hr)'' @ reset p
          else []
      | None \<Rightarrow> []) @
     (if daily_total > total_cost
      then u '' '' @ reset p @ u ''(day: '' @ color p (cost_color_role ccfg daily_total) @ u ''$'' @
           u (format_fixed2 daily_total) @ u '')'' @ reset p
      else [])"

definition daily_only_text :: "palette \<Rightarrow> cost_config \<Rightarrow> f64 \<Rightarrow> ustr" where
  "daily_only_text p ccfg daily_total =
     u ''day: '' @ color p (cost_color_role ccfg daily_total) @ u ''$'' @ u (format_fixed2 daily_total) @
     reset p"

definition separator :: "palette \<Rightarrow> ustr" where
  "separator p = u '' '' @ color p Separator @ [bullet] @ reset p @ u '' ''"

text \<open>The seven parts, each a list of zero or one strings, in the order of the code.\<close>

definition directory_part :: "statusline_env \<Rightarrow> display_config \<Rightarrow> ustr \<Rightarrow> ustr list" where
  "directory_part env dcfg current_dir =
     (if show_directory dcfg
      then [color (palette env) DirectoryColor @
            sanitize_for_terminal (shorten_path (home env) current_dir) @ reset (palette env)]
      else [])"

definition git_part :: "statusline_env \<Rightarrow> display_config \<Rightarrow> ustr \<Rightarrow> ustr list" where
  "git_part env dcfg current_dir =
     (if show_git dcfg
      then (case git_info env current_dir of
              Some gi \<Rightarrow> if gi \<noteq> [] then [trim_start gi] else []
            | None \<Rightarrow> [])
      else [])"

definition context_part ::
  "statusline_env \<Rightarrow> config \<Rightarrow> entry_parser \<Rightarrow> display_config \<Rightarrow> string option \<Rightarrow> string option \<Rightarrow>
   string option \<Rightarrow> ustr list" where
  "context_part env global_cfg parse dcfg model_bytes transcript_path session_id =
     (if show_context dcfg
      then (case transcript_path of
              Some transcript \<Rightarrow>
                (case calculate_context_usage (usage_env.truncate env) global_cfg parse transcript
                        model_bytes session_id None of
                   Some ctx \<Rightarrow>
                     [format_context_bar (palette env) global_cfg ctx
                        (get_token_count_from_transcript (transcript_fs env) global_cfg parse transcript)
                        (Some (get_context_window_for_model (learned_windows env) model_bytes global_cfg))]
                 | None \<Rightarrow> [])
            | None \<Rightarrow> [])
      else [])"

definition model_part :: "statusline_env \<Rightarrow> display_config \<Rightarrow> ustr option \<Rightarrow> ustr list" where
  "model_part env dcfg model_name =
     (if show_model dcfg
      then (case model_name of
              Some name \<Rightarrow>
                [color (palette env) ModelColor @
                 sanitize_for_terminal
                   (model_abbreviation env (model_type_from_name (utf8_encode (sanitize_for_terminal name)))) @
                 reset (palette env)]
            | None \<Rightarrow> [])
      else [])"

definition duration_part ::
  "statusline_env \<Rightarrow> entry_parser \<Rightarrow> timestamp_parser \<Rightarrow> display_config \<Rightarrow> string option \<Rightarrow> ustr list" where
  "duration_part env parse parse_ts dcfg transcript_path =
     (if show_duration dcfg
      then (case transcript_path of
              Some transcript \<Rightarrow>
                (case parse_duration (transcript_fs env) parse parse_ts transcript of
                   Some d \<Rightarrow> [color (palette env) DurationColor @ u (format_duration d) @ reset (palette env)]
                 | None \<Rightarrow> [])
            | None \<Rightarrow> [])
      else [])"

definition lines_part :: "statusline_env \<Rightarrow> display_config \<Rightarrow> cost_info option \<Rightarrow> ustr list" where
  "lines_part env dcfg cost_data =
     (if show_lines_changed dcfg
      then (case cost_data of
              Some cd \<Rightarrow>
                (case (total_lines_added cd, total_lines_removed cd) of
                   (Some added, Some removed) \<Rightarrow>
                     if added > 0 \<or> removed > 0 then [lines_text (palette env) added removed] else []
                 | _ \<Rightarrow> [])
            | None \<Rightarrow> [])
      else [])"

text \<open>The duration for the burn rate: the Stats Store's, else the transcript's.\<close>

definition session_or_transcript_duration ::
  "statusline_env \<Rightarrow> entry_parser \<Rightarrow> timestamp_parser \<Rightarrow> string option \<Rightarrow> string option \<Rightarrow> nat option" where
  "session_or_transcript_duration env parse parse_ts session_id transcript_path =
     (case (case session_id of Some sid \<Rightarrow> session_duration env sid | None \<Rightarrow> None) of
        Some d \<Rightarrow> Some d
      | None \<Rightarrow>
          (case transcript_path of
             Some transcript \<Rightarrow> parse_duration (transcript_fs env) parse parse_ts transcript
           | None \<Rightarrow> None))"

definition cost_part ::
  "statusline_env \<Rightarrow> config \<Rightarrow> entry_parser \<Rightarrow> timestamp_parser \<Rightarrow> display_config \<Rightarrow> cost_info option \<Rightarrow>
   f64 \<Rightarrow> string option \<Rightarrow> string option \<Rightarrow> ustr list" where
  "cost_part env global_cfg parse parse_ts dcfg cost_data daily_total session_id transcript_path =
     (let p = palette env; ccfg = cost_cfg global_cfg in
      if show_cost dcfg
      then (case cost_data of
              Some cd \<Rightarrow>
                (case total_cost_usd cd of
                   Some total_cost \<Rightarrow>
                     [cost_text p ccfg total_cost
                        (session_or_transcript_duration env parse parse_ts session_id transcript_path) daily_total]
                 | None \<Rightarrow> if daily_total > 0 then [daily_only_text p ccfg daily_total] else [])
            | None \<Rightarrow> if daily_total > 0 then [daily_only_text p ccfg daily_total] else [])
      else [])"

definition format_statusline_string ::
  "statusline_env \<Rightarrow> config \<Rightarrow> entry_parser \<Rightarrow> timestamp_parser \<Rightarrow> ustr \<Rightarrow> ustr option \<Rightarrow>
   string option \<Rightarrow> cost_info option \<Rightarrow> f64 \<Rightarrow> string option \<Rightarrow> display_config \<Rightarrow> ustr" where
  "format_statusline_string env global_cfg parse parse_ts current_dir model_name transcript_path cost_data
     daily_total session_id dcfg =
     (let model_bytes = map_option utf8_encode model_name
      in join_with (separator (palette env))
           (directory_part env dcfg current_dir @ git_part env dcfg current_dir @
            context_part env global_cfg parse dcfg model_bytes transcript_path session_id @
            model_part env dcfg model_name @ duration_part env parse parse_ts dcfg transcript_path @
            lines_part env dcfg cost_data @
            cost_part env global_cfg parse parse_ts dcfg cost_data daily_total session_id transcript_path))"

lemmas statusline_defs [model_defs] = utf8_encode_char_def utf8_encode_def is_whitespace_def
  trim_start_def round_half_even_def format_fixed2_def lines_text_def burn_rate_def cost_text_def
  daily_only_text_def separator_def directory_part_def git_part_def context_part_def model_part_def
  duration_part_def lines_part_def session_or_transcript_duration_def cost_part_def
  format_statusline_string_def

text \<open>A status line environment without colours, \<open>HOME=/home/ann\<close>, not in a git
  repository, and the transcript of the Usage examples.\<close>

definition no_colors :: palette where
  "no_colors = \<lparr>colors_enabled = False, theme_color = \<lambda>_. []\<rparr>"

definition example_status_env :: statusline_env where
  "example_status_env =
     usage_env.extend example_usage_env
       \<lparr>palette = no_colors, home = Some (u ''/home/ann''), git_info = \<lambda>_. None,
        model_abbreviation = \<lambda>_. u ''S4'', session_duration = \<lambda>_. None\<rparr>"

subsection \<open>Escape characters\<close>

text \<open>With colours off, an escape character can only come from the text of the inputs;
  the numbers, bars and literals the code formats never contain one.\<close>

lemma color_disabled [simp]: "\<not> colors_enabled p \<Longrightarrow> color p r = []"
  by (simp add: color_def)

lemma reset_disabled [simp]: "\<not> colors_enabled p \<Longrightarrow> reset p = []"
  by (simp add: reset_def)

lemma u_append [simp]: "u (xs @ ys) = u xs @ u ys"
  by (simp add: u_def)

lemma esc_in_u_iff [simp]: "esc \<in> set (u s) \<longleftrightarrow> \<not> list_all (\<lambda>c. of_char c \<noteq> (27::nat)) s"
  by (auto simp: u_def esc_def list_all_iff)

lemma digits_not_esc: "list_all is_digit s \<Longrightarrow> list_all (\<lambda>c. of_char c \<noteq> (27::nat)) s"
  by (auto simp: list_all_iff is_digit_def)

lemma string_of_nat_not_esc [simp]: "list_all (\<lambda>c. of_char c \<noteq> (27::nat)) (string_of_nat n)"
  by (rule digits_not_esc [OF string_of_nat_digits])

lemma digit_char_not_esc [simp]: "d < 10 \<Longrightarrow> of_char (digit_char d) \<noteq> (27::nat)"
  by (simp add: of_char_digit_char)

lemma esc_notin_format_token_count [simp]: "list_all (\<lambda>c. of_char c \<noteq> (27::nat)) (format_token_count n)"
  by (simp add: format_token_count_def)

lemma esc_notin_format_duration [simp]: "list_all (\<lambda>c. of_char c \<noteq> (27::nat)) (format_duration n)"
  by (simp add: format_duration_def)

lemma esc_notin_progress_bar [simp]: "list_all (\<lambda>c. of_char c \<noteq> (27::nat)) (progress_bar pct w)"
  by (auto simp: progress_bar_def Let_def list_all_iff)

lemma esc_notin_format_fixed2 [simp]: "list_all (\<lambda>c. of_char c \<noteq> (27::nat)) (format_fixed2 x)"
  by (simp add: format_fixed2_def Let_def)

lemma symbols_not_esc [simp]: "warning_sign \<noteq> esc" "check_mark \<noteq> esc" "bullet \<noteq> esc"
  "esc \<noteq> warning_sign" "esc \<noteq> check_mark" "esc \<noteq> bullet"
  by (simp_all add: warning_sign_def check_mark_def bullet_def esc_def)

lemma esc_notin_sanitized [simp]: "esc \<notin> set (sanitize_for_terminal s)"
  by (simp add: sanitize_for_terminal_def)

lemma set_trim_start: "set (trim_start s) \<subseteq> set s"
  by (simp add: trim_start_def set_dropWhileD subsetI)

lemma set_join_with: "set (join_with sep xs) \<subseteq> set sep \<union> (\<Union>x \<in> set xs. set x)"
  by (induction sep xs rule: join_with.induct) auto

lemma esc_notin_context_bar:
  "\<not> colors_enabled p \<Longrightarrow> esc \<notin> set (format_context_bar p cfg cu cur w)"
  by (simp add: format_context_bar_def token_display_def percent_and_bar_def Let_def
      split: compaction_state.split option.split)

lemma esc_notin_directory_part:
  "\<not> colors_enabled (palette env) \<Longrightarrow> list_all (\<lambda>x. esc \<notin> set x) (directory_part env d cwd)"
  by (simp add: directory_part_def)

lemma esc_notin_context_part:
  "\<not> colors_enabled (palette env) \<Longrightarrow> list_all (\<lambda>x. esc \<notin> set x) (context_part env cfg parse d mb tp sid)"
  by (simp add: context_part_def esc_notin_context_bar split: option.split)

lemma esc_notin_model_part:
  "\<not> colors_enabled (palette env) \<Longrightarrow> list_all (\<lambda>x. esc \<notin> set x) (model_part env d mn)"
  by (simp add: model_part_def split: option.split)

lemma esc_notin_duration_part:
  "\<not> colors_enabled (palette env) \<Longrightarrow> list_all (\<lambda>x. esc \<notin> set x) (duration_part env parse pts d tp)"
  by (simp add: duration_part_def split: option.split)

lemma esc_notin_lines_part:
  "\<not> colors_enabled (palette env) \<Longrightarrow> list_all (\<lambda>x. esc \<notin> set x) (lines_part env d cd)"
  by (simp add: lines_part_def lines_text_def split: option.split)

lemma esc_notin_cost_part:
  "\<not> colors_enabled (palette env) \<Longrightarrow> list_all (\<lambda>x. esc \<notin> set x) (cost_part env cfg parse pts d cd dt sid tp)"
  by (simp add: cost_part_def cost_text_def daily_only_text_def Let_def split: option.split)

lemma esc_notin_git_part:
  "(case git_info env cwd of Some g \<Rightarrow> esc \<notin> set g | None \<Rightarrow> True) \<Longrightarrow>
   list_all (\<lambda>x. esc \<notin> set x) (git_part env d cwd)"
  by (auto simp: git_part_def dest: set_trim_start [THEN subsetD] split: option.split)

lemma esc_notin_join_with:
  "esc \<notin> set sep \<Longrightarrow> list_all (\<lambda>x. esc \<notin> set x) xs \<Longrightarrow> esc \<notin> set (join_with sep xs)"
  using set_join_with [of sep xs] by (auto simp: list_all_iff)

lemma join_with_prefix: "prefix x (join_with sep (x # xs))"
  by (cases xs) auto

lemma round_half_even_error:
  assumes "0 \<le> y"
  shows "\<bar>real (round_half_even y) - y\<bar> \<le> 1 / 2"
proof -
  let ?f = "\<lfloor>y\<rfloor>" let ?r = "y - of_int ?f"
  have f0: "0 \<le> ?f" using assms by simp
  have r: "0 \<le> ?r" "?r < 1" using floor_correct [of y] by linarith+
  have "real (nat ?f) = of_int ?f" "real (nat (?f + 1)) = of_int ?f + 1" using f0 by simp_all
  with r show ?thesis by (auto simp: round_half_even_def Let_def)
qed

subsection \<open>Properties of the status line\<close>

text \<open>
  C24. With colours off (\<open>NO_COLOR\<close>), the status line contains no escape character unless
  the git summary brings one: the directory and the model name, which come from
  untrusted input, always pass through the sanitiser, and every other part is numbers
  and fixed text.
\<close>

theorem statusline_no_escape_without_color:
  assumes "\<not> colors_enabled (palette env)"
    and "case git_info env current_dir of Some g \<Rightarrow> esc \<notin> set g | None \<Rightarrow> True"
  shows "esc \<notin> set (format_statusline_string env cfg parse parse_ts current_dir model_name
                       transcript_path cost_data daily_total session_id dcfg)"
proof -
  have "esc \<notin> set (separator (palette env))" using assms(1) by (simp add: separator_def)
  moreover have "list_all (\<lambda>x. esc \<notin> set x)
      (directory_part env dcfg current_dir @ git_part env dcfg current_dir @
       context_part env cfg parse dcfg (map_option utf8_encode model_name) transcript_path session_id @
       model_part env dcfg model_name @ duration_part env parse parse_ts dcfg transcript_path @
       lines_part env dcfg cost_data @
       cost_part env cfg parse parse_ts dcfg cost_data daily_total session_id transcript_path)"
    using assms by (simp add: esc_notin_directory_part esc_notin_git_part esc_notin_context_part
        esc_notin_model_part esc_notin_duration_part esc_notin_lines_part esc_notin_cost_part)
  ultimately show ?thesis by (simp add: format_statusline_string_def esc_notin_join_with)
qed

theorem statusline_no_escape_without_color_witness:
  "\<not> colors_enabled (palette example_status_env) \<and>
   (case git_info example_status_env (u ''/home/ann/'' @ esc # u ''[31mx'') of
      Some g \<Rightarrow> esc \<notin> set g | None \<Rightarrow> True) \<and>
   esc \<notin> set (format_statusline_string example_status_env default_config example_usage_parse
     example_ts_parse (u ''/home/ann/'' @ esc # u ''[31mx'') (Some (u ''Claude'' @ [7])) (Some ''/t/s.jsonl'')
     None 0 None default_display_config)"
proof -
  have h1: "\<not> colors_enabled (palette example_status_env)"
    by (simp add: example_status_env_def no_colors_def usage_env.defs)
  have h2: "case git_info example_status_env (u ''/home/ann/'' @ esc # u ''[31mx'') of
      Some g \<Rightarrow> esc \<notin> set g | None \<Rightarrow> True"
    by (simp add: example_status_env_def usage_env.defs)
  from statusline_no_escape_without_color [OF h1 h2] h1 h2 show ?thesis by blast
qed

text \<open>
  When the directory is shown it comes first: the status line starts with the
  directory colour, the sanitised, home-shortened directory and a reset.
\<close>

theorem statusline_directory_first:
  assumes "show_directory dcfg"
  shows "prefix (color (palette env) DirectoryColor @ sanitize_for_terminal (shorten_path (home env) current_dir) @
                 reset (palette env))
           (format_statusline_string env cfg parse parse_ts current_dir model_name transcript_path cost_data
              daily_total session_id dcfg)"
  using assms by (simp add: format_statusline_string_def directory_part_def join_with_prefix)

theorem statusline_directory_first_witness:
  "show_directory default_display_config \<and>
   prefix (u ''~/src'')
     (format_statusline_string example_status_env default_config example_usage_parse example_ts_parse
        (u ''/home/ann/src'') None None None 0 None default_display_config)"
proof -
  have h: "show_directory default_display_config" by (simp add: default_display_config_def)
  have "color (palette example_status_env) DirectoryColor @
          sanitize_for_terminal (shorten_path (home example_status_env) (u ''/home/ann/src'')) @
          reset (palette example_status_env) = u ''~/src''"
    by (simp add: example_status_env_def usage_env.defs no_colors_def shorten_path_def
        sanitize_for_terminal_def u_def esc_def sgr_param_def keep_char_def)
  with statusline_directory_first [where env = example_status_env and cfg = default_config
      and parse = example_usage_parse and parse_ts = example_ts_parse and current_dir = "u ''/home/ann/src''"
      and model_name = None and transcript_path = None and cost_data = None and daily_total = 0
      and session_id = None, OF h] h
  show ?thesis by simp
qed

text \<open>
  The cost part on the unit test's numbers, colours off: \$0.50 over 600 seconds
  shows a burn rate of \$3.00 per hour; over exactly 60 seconds no rate is shown; a
  daily total above the session cost is appended; \$33.28 over 300 seconds is
  \$399.36 per hour.
\<close>

theorem cost_text_examples:
  "cost_text no_colors default_cost_config (1 / 2) (Some 600) 0 = u ''$0.50 ($3.00/hr)'' \<and>
   cost_text no_colors default_cost_config (1 / 2) (Some 60) 0 = u ''$0.50'' \<and>
   cost_text no_colors default_cost_config (1 / 2) None 2 = u ''$0.50 (day: $2.00)'' \<and>
   cost_text no_colors default_cost_config (3328 / 100) (Some 300) 0 = u ''$33.28 ($399.36/hr)''"
  by (simp add: cost_text_def burn_rate_def format_fixed2_def round_half_even_def no_colors_def
      digit_char_def u_def)

text \<open>
  The two-decimal amounts are correct to half a cent: the printed number of cents
  differs from the exact amount times 100 by at most one half.
\<close>

theorem format_fixed2_cents_bound:
  assumes "0 \<le> x"
  shows "\<bar>real (round_half_even (\<bar>x\<bar> * 100)) - x * 100\<bar> \<le> 1 / 2"
  using assms round_half_even_error [of "\<bar>x\<bar> * 100"] by simp

theorem format_fixed2_cents_bound_witness:
  "0 \<le> (1 / 8 :: real) \<and> round_half_even (\<bar>1 / 8\<bar> * 100) = 12 \<and>
   \<bar>real (round_half_even (\<bar>1 / 8 :: real\<bar> * 100)) - 1 / 8 * 100\<bar> \<le> 1 / 2"
  using format_fixed2_cents_bound [of "1 / 8"] by (simp add: round_half_even_def)

text \<open>
  The lines part shows the added count with \<open>+\<close>, the removed count with \<open>-\<close>,
  separated by a space when both are positive, and nothing when both are 0.
\<close>

theorem lines_part_examples:
  "lines_text no_colors 200 5 = u ''+200 -5'' \<and> lines_text no_colors 210 0 = u ''+210'' \<and>
   lines_text no_colors 0 7 = u ''-7'' \<and>
   lines_part env dcfg (Some \<lparr>total_cost_usd = None, total_lines_added = Some 0, total_lines_removed = Some 0\<rparr>) = []"
  by (simp add: lines_text_def lines_part_def no_colors_def digit_char_def u_def)

end
