(* ===== verification/Environment.thy ===== *)
theory Environment
  imports Statusline
begin

text \<open>
  What the program reads from its process environment: the data and config directories
  (\<open>get_data_dir\<close>, \<open>get_config_dir\<close>, \<open>get_device_id\<close> in \<open>src/src/common.rs\<close>), the search
  for and loading of the config file and the process-wide configuration
  (\<open>Config::load\<close>, \<open>load_from_file\<close>, \<open>find_config_file\<close>, \<open>default_config_path\<close>, the
  \<open>From\<close> conversions, \<open>get_config\<close>, \<open>get_theme\<close> in \<open>src/src/config.rs\<close>), and the
  colour switch and theme of \<open>Colors\<close> and the entry points \<open>format_output\<close> and
  \<open>format_output_to_string\<close> (\<open>src/src/display.rs\<close>).
  The \<open>host\<close> record holds the outside world these functions query: \<open>std::env::var\<close> as a
  partial map (\<open>None\<close> when a variable is unset or not Unicode), the \<open>dirs\<close> crate's
  directories, \<open>Path::exists\<close>, \<open>fs::read_to_string\<close> and the host name. The TOML decoder
  (\<open>toml::from_str\<close> with serde's defaults), the theme files and SHA-256 are library code
  and enter as arguments. Paths are strings joined by \<open>PathBuf::join\<close>.
\<close>

type_synonym env_vars = "string \<rightharpoonup> string"

record host =
  env_var :: env_vars
  os_data_dir :: "string option"
  os_config_dir :: "string option"
  os_home_dir :: "string option"
  path_exists :: "string \<Rightarrow> bool"
  read_to_string :: "string \<Rightarrow> string option"
  host_name :: "string option"

type_synonym toml_parser = "string \<Rightarrow> config option"

subsection \<open>Directories\<close>

text \<open>\<open>PathBuf::join\<close> on Unix: an absolute component replaces the path; otherwise a
  separator is inserted unless the path is empty or already ends in one.\<close>

definition path_join :: "string \<Rightarrow> string \<Rightarrow> string" where
  "path_join base p =
     (if p \<noteq> [] \<and> hd p = CHR ''/'' then p
      else if base = [] \<or> last base = CHR ''/'' then base @ p
      else base @ CHR ''/'' # p)"

definition get_data_dir :: "host \<Rightarrow> string" where
  "get_data_dir h =
     (case env_var h ''XDG_DATA_HOME'' of
        Some xdg_data_home \<Rightarrow> path_join xdg_data_home ''claudia-statusline''
      | None \<Rightarrow>
          (let base_dir =
             (case os_data_dir h of
                Some d \<Rightarrow> d
              | None \<Rightarrow> path_join (path_join (unwrap_or ''.'' (env_var h ''HOME'')) ''.local'') ''share'')
           in path_join base_dir ''claudia-statusline''))"

definition get_config_dir :: "host \<Rightarrow> string" where
  "get_config_dir h =
     (case env_var h ''XDG_CONFIG_HOME'' of
        Some xdg_config_home \<Rightarrow> path_join xdg_config_home ''claudia-statusline''
      | None \<Rightarrow>
          (let base_dir =
             (case os_config_dir h of
                Some d \<Rightarrow> d
              | None \<Rightarrow> path_join (unwrap_or ''.'' (env_var h ''HOME'')) ''.config'')
           in path_join base_dir ''claudia-statusline''))"

subsection \<open>The config file\<close>

text \<open>\<open>if path.exists() { return Some(path) }\<close>.\<close>

definition existing :: "host \<Rightarrow> string \<Rightarrow> string option" where
  "existing h p = (if path_exists h p then Some p else None)"

definition find_config_file :: "host \<Rightarrow> string option" where
  "find_config_file h =
     (case Option.bind (env_var h ''STATUSLINE_CONFIG_PATH'') (existing h) of
        Some p \<Rightarrow> Some p
      | None \<Rightarrow>
          (case Option.bind (env_var h ''STATUSLINE_CONFIG'') (existing h) of
             Some p \<Rightarrow> Some p
           | None \<Rightarrow>
               (case existing h (path_join (get_config_dir h) ''config.toml'') of
                  Some p \<Rightarrow> Some p
                | None \<Rightarrow> Option.bind (os_home_dir h) (\<lambda>home_dir.
                            existing h (path_join home_dir ''.claudia-statusline.toml'')))))"

definition default_config_path :: "host \<Rightarrow> statusline_error + string" where
  "default_config_path h = Inr (path_join (get_config_dir h) ''config.toml'')"

definition load_from_file :: "host \<Rightarrow> toml_parser \<Rightarrow> string \<Rightarrow> statusline_error + config" where
  "load_from_file h parse_toml path =
     (case read_to_string h path of
        None \<Rightarrow> Inl (ConfigError ''Failed to read config file'')
      | Some file_contents \<Rightarrow>
          (case parse_toml file_contents of
             None \<Rightarrow> Inl (ConfigError ''Failed to parse config file'')
           | Some config \<Rightarrow> Inr config))"

definition load :: "host \<Rightarrow> toml_parser \<Rightarrow> statusline_error + config" where
  "load h parse_toml =
     (case find_config_file h of
        Some config_path \<Rightarrow> load_from_file h parse_toml config_path
      | None \<Rightarrow> Inr default_config)"

text \<open>The four \<open>From\<close> conversions: \<open>load_from_file(path).unwrap_or_default()\<close>.\<close>

definition config_from_path :: "host \<Rightarrow> toml_parser \<Rightarrow> string \<Rightarrow> config" where
  "config_from_path h parse_toml path =
     (case load_from_file h parse_toml path of Inr config \<Rightarrow> config | Inl _ \<Rightarrow> default_config)"

subsection \<open>The process-wide configuration\<close>

text \<open>The initialiser of the \<open>OnceLock\<close>: the loaded configuration (the defaults when
  loading fails), then the theme from \<open>CLAUDE_THEME\<close> or else \<open>STATUSLINE_THEME\<close>, then
  \<open>json_backup\<close> from \<open>STATUSLINE_JSON_BACKUP\<close>.\<close>

definition with_theme :: "string \<Rightarrow> config \<Rightarrow> config" where
  "with_theme t config = config\<lparr>display_cfg := (display_cfg config)\<lparr>theme := t\<rparr>\<rparr>"

definition get_config :: "host \<Rightarrow> toml_parser \<Rightarrow> config" where
  "get_config h parse_toml =
     (let config = (case load h parse_toml of Inr config \<Rightarrow> config | Inl _ \<Rightarrow> default_config);
          config = (case env_var h ''CLAUDE_THEME'' of
                      Some t \<Rightarrow> with_theme t config
                    | None \<Rightarrow> (case env_var h ''STATUSLINE_THEME'' of
                                Some t \<Rightarrow> with_theme t config
                              | None \<Rightarrow> config))
      in case env_var h ''STATUSLINE_JSON_BACKUP'' of
           Some val \<Rightarrow>
             config\<lparr>database_cfg := (database_cfg config)\<lparr>json_backup := (val = ''true'' \<or> val = ''1'')\<rparr>\<rparr>
         | None \<Rightarrow> config)"

text \<open>The lock itself: the first call initialises the cell, every later call returns what it
  holds, whatever the host looks like by then.\<close>

definition get_config_cached ::
  "config option \<Rightarrow> host \<Rightarrow> toml_parser \<Rightarrow> config \<times> config option" where
  "get_config_cached cell h parse_toml =
     (case cell of
        Some config \<Rightarrow> (config, cell)
      | None \<Rightarrow> (let config = get_config h parse_toml in (config, Some config)))"

definition get_theme :: "host \<Rightarrow> toml_parser \<Rightarrow> string" where
  "get_theme h parse_toml =
     (case env_var h ''CLAUDE_THEME'' of
        Some t \<Rightarrow> t
      | None \<Rightarrow>
          (case env_var h ''STATUSLINE_THEME'' of
             Some t \<Rightarrow> t
           | None \<Rightarrow> theme (display_cfg (get_config h parse_toml))))"

subsection \<open>Colours\<close>

text \<open>The theme manager: \<open>get_or_load(name)\<close> (\<open>None\<close> when the theme cannot be loaded) and
  \<open>Theme::default()\<close>; a theme resolves colour roles to escape sequences.\<close>

record theme_source =
  get_or_load :: "string \<Rightarrow> (color_role \<Rightarrow> ustr) option"
  default_theme :: "color_role \<Rightarrow> ustr"

definition colors_enabled_env :: "host \<Rightarrow> bool" where
  "colors_enabled_env h \<longleftrightarrow> env_var h ''NO_COLOR'' = None"

definition get_current_theme :: "host \<Rightarrow> toml_parser \<Rightarrow> theme_source \<Rightarrow> color_role \<Rightarrow> ustr" where
  "get_current_theme h parse_toml themes =
     (case get_or_load themes (get_theme h parse_toml) of Some t \<Rightarrow> t | None \<Rightarrow> default_theme themes)"

text \<open>\<open>Colors::get_themed\<close> and \<open>Colors::reset\<close> read through a palette.\<close>

definition palette_of :: "host \<Rightarrow> toml_parser \<Rightarrow> theme_source \<Rightarrow> palette" where
  "palette_of h parse_toml themes =
     \<lparr>colors_enabled = colors_enabled_env h, theme_color = get_current_theme h parse_toml themes\<rparr>"

subsection \<open>Entry points\<close>

text \<open>\<open>format_output_with_config\<close> and \<open>format_output\<close> print the status line; their value here
  is the text written to standard output. \<open>format_output\<close> and \<open>format_output_to_string\<close> run
  under the process-wide configuration and pass on its display section.\<close>

definition format_output_with_config ::
  "statusline_env \<Rightarrow> config \<Rightarrow> entry_parser \<Rightarrow> timestamp_parser \<Rightarrow> ustr \<Rightarrow> ustr option \<Rightarrow>
   string option \<Rightarrow> cost_info option \<Rightarrow> f64 \<Rightarrow> string option \<Rightarrow> display_config \<Rightarrow> ustr" where
  "format_output_with_config env global_cfg parse parse_ts current_dir model_name transcript_path cost
     daily_total session_id display_config =
     format_statusline_string env global_cfg parse parse_ts current_dir model_name transcript_path cost
       daily_total session_id display_config"

definition format_output ::
  "host \<Rightarrow> toml_parser \<Rightarrow> statusline_env \<Rightarrow> entry_parser \<Rightarrow> timestamp_parser \<Rightarrow> ustr \<Rightarrow> ustr option \<Rightarrow>
   string option \<Rightarrow> cost_info option \<Rightarrow> f64 \<Rightarrow> string option \<Rightarrow> ustr" where
  "format_output h parse_toml env parse parse_ts current_dir model_name transcript_path cost daily_total
     session_id =
     (let config = get_config h parse_toml
      in format_output_with_config env config parse parse_ts current_dir model_name transcript_path cost
           daily_total session_id (display_cfg config))"

definition format_output_to_string ::
  "host \<Rightarrow> toml_parser \<Rightarrow> statusline_env \<Rightarrow> entry_parser \<Rightarrow> timestamp_parser \<Rightarrow> ustr \<Rightarrow> ustr option \<Rightarrow>
   string option \<Rightarrow> cost_info option \<Rightarrow> f64 \<Rightarrow> string option \<Rightarrow> ustr" where
  "format_output_to_string h parse_toml env parse parse_ts current_dir model_name transcript_path cost
     daily_total session_id =
     (let config = get_config h parse_toml
      in format_statusline_string env config parse parse_ts current_dir model_name transcript_path cost
           daily_total session_id (display_cfg config))"

subsection \<open>Device id\<close>

definition device_preimage :: "string \<Rightarrow> string \<Rightarrow> string" where
  "device_preimage hostname username = hostname @ ''|'' @ username"

definition device_user :: "host \<Rightarrow> string" where
  "device_user h =
     (case env_var h ''USER'' of
        Some user \<Rightarrow> user
      | None \<Rightarrow> (case env_var h ''USERNAME'' of Some user \<Rightarrow> user | None \<Rightarrow> ''unknown-user''))"

definition device_id_input :: "host \<Rightarrow> string" where
  "device_id_input h = device_preimage (unwrap_or ''unknown-host'' (host_name h)) (device_user h)"

text \<open>\<open>format!("{:016x}", v)\<close>: sixteen lower-case hexadecimal digits.\<close>

definition hex_digit :: "nat \<Rightarrow> char" where
  "hex_digit d = ''0123456789abcdef'' ! d"

fun hex_fixed :: "nat \<Rightarrow> nat \<Rightarrow> string" where
  "hex_fixed 0 n = []"
| "hex_fixed (Suc k) n = hex_fixed k (n div 16) @ [hex_digit (n mod 16)]"

definition format_hex16 :: "64 word \<Rightarrow> string" where
  "format_hex16 v = hex_fixed 16 (unat v)"

text \<open>\<open>u64::from_be_bytes\<close>: eight bytes, the first the most significant.\<close>

definition be_value :: "8 word list \<Rightarrow> nat" where
  "be_value bs = foldl (\<lambda>acc b. 256 * acc + unat b) 0 bs"

definition from_be_bytes :: "8 word list \<Rightarrow> 64 word" where
  "from_be_bytes bs = word_of_nat (be_value bs)"

text \<open>\<open>u64::from_be_bytes(result[0..8].try_into().unwrap())\<close> over the digest of the host
  name, a bar and the user name; the slice panics (\<open>None\<close>) on a digest shorter than
  8 bytes.\<close>

definition get_device_id :: "(string \<Rightarrow> 8 word list) \<Rightarrow> host \<Rightarrow> string option" where
  "get_device_id sha256 h =
     (let result = sha256 (device_id_input h)
      in if 8 \<le> length result then Some (format_hex16 (from_be_bytes (take 8 result))) else None)"

text \<open>Reading a hexadecimal string back and splitting a number into big-endian bytes, for
  the round trip.\<close>

definition hex_value :: "string \<Rightarrow> nat" where
  "hex_value s = foldl (\<lambda>acc c. 16 * acc + (if of_char c \<le> (57::nat) then of_char c - 48 else of_char c - 87)) 0 s"

fun be_bytes :: "nat \<Rightarrow> nat \<Rightarrow> 8 word list" where
  "be_bytes 0 n = []"
| "be_bytes (Suc k) n = be_bytes k (n div 256) @ [word_of_nat (n mod 256)]"

lemmas environment_defs [model_defs] = path_join_def get_data_dir_def get_config_dir_def existing_def
  find_config_file_def default_config_path_def load_from_file_def load_def config_from_path_def
  with_theme_def get_config_def get_config_cached_def get_theme_def colors_enabled_env_def
  get_current_theme_def palette_of_def device_preimage_def device_user_def device_id_input_def
  hex_digit_def be_value_def from_be_bytes_def format_hex16_def get_device_id_def

subsection \<open>Reference and examples\<close>

text \<open>The candidate config files in the order the doc comment of \<open>find_config_file\<close> lists
  them.\<close>

definition config_candidates :: "host \<Rightarrow> string list" where
  "config_candidates h =
     (case env_var h ''STATUSLINE_CONFIG_PATH'' of Some p \<Rightarrow> [p] | None \<Rightarrow> []) @
     (case env_var h ''STATUSLINE_CONFIG'' of Some p \<Rightarrow> [p] | None \<Rightarrow> []) @
     [path_join (get_config_dir h) ''config.toml''] @
     (case os_home_dir h of Some home_dir \<Rightarrow> [path_join home_dir ''.claudia-statusline.toml''] | None \<Rightarrow> [])"

text \<open>A host with a config file in the XDG config directory, \<open>CLAUDE_THEME=light\<close> and no
  other variables; a TOML decoder that reads every file as the defaults, and one that
  rejects every file.\<close>

definition example_host :: host where
  "example_host =
     \<lparr>env_var = [''HOME'' \<mapsto> ''/home/ann'', ''CLAUDE_THEME'' \<mapsto> ''light''],
      os_data_dir = Some ''/home/ann/.local/share'', os_config_dir = Some ''/home/ann/.config'',
      os_home_dir = Some ''/home/ann'', path_exists = (\<lambda>p. p = ''/home/ann/.config/claudia-statusline/config.toml''),
      read_to_string = (\<lambda>p. if p = ''/home/ann/.config/claudia-statusline/config.toml'' then Some ''theme = 1''
                            else None),
      host_name = Some ''box''\<rparr>"

definition defaults_toml :: toml_parser where
  "defaults_toml s = Some default_config"

definition rejecting_toml :: toml_parser where
  "rejecting_toml s = None"

definition counting_digest :: "string \<Rightarrow> 8 word list" where
  "counting_digest s = map word_of_nat [0..<32]"

subsection \<open>Lemmas\<close>

lemma theme_get_config:
  "theme (display_cfg (get_config h parse_toml)) =
     (case env_var h ''CLAUDE_THEME'' of Some t \<Rightarrow> t
      | None \<Rightarrow> (case env_var h ''STATUSLINE_THEME'' of Some t \<Rightarrow> t
                | None \<Rightarrow> theme (display_cfg (case load h parse_toml of Inr config \<Rightarrow> config | Inl _ \<Rightarrow> default_config))))"
  by (simp add: get_config_def with_theme_def Let_def split: option.split)

lemma path_join_relative: "path_join [] p = p"
  by (simp add: path_join_def)

lemma takeWhile_preimage: "CHR ''|'' \<notin> set hn \<Longrightarrow> takeWhile (\<lambda>c. c \<noteq> CHR ''|'') (device_preimage hn un) = hn"
  unfolding device_preimage_def by (subst takeWhile_append2) auto

lemma hex_digit_value:
  "d < 16 \<Longrightarrow> (if of_char (hex_digit d) \<le> (57::nat) then of_char (hex_digit d) - 48 else of_char (hex_digit d) - 87) = d"
proof -
  assume "d < 16"
  then have "d \<in> set [0..<16]" by simp
  then show ?thesis by (auto simp: hex_digit_def upt_rec)
qed

lemma hex_value_snoc: "hex_value (xs @ [c]) = 16 * hex_value xs +
  (if of_char c \<le> (57::nat) then of_char c - 48 else of_char c - 87)"
  by (simp add: hex_value_def)

lemma hex_fixed_length [simp]: "length (hex_fixed k n) = k"
  by (induction k arbitrary: n) simp_all

lemma hex_value_hex_fixed: "hex_value (hex_fixed k n) = n mod 16 ^ k"
proof (induction k arbitrary: n)
  case 0
  then show ?case by (simp add: hex_value_def)
next
  case (Suc k)
  have "n mod 16 ^ Suc k = 16 * (n div 16 mod 16 ^ k) + n mod 16"
    by (simp add: mod_mult2_eq)
  with Suc show ?case by (simp add: hex_value_snoc hex_digit_value)
qed

lemma be_value_snoc: "be_value (bs @ [b]) = 256 * be_value bs + unat b"
  by (simp add: be_value_def)

lemma unat_byte_bound: "unat (b :: 8 word) < 256"
  using unsigned_less [of b] by simp

lemma be_bytes_be_value: "be_bytes (length bs) (be_value bs) = bs"
proof (induction bs rule: rev_induct)
  case Nil
  then show ?case by simp
next
  case (snoc b bs)
  have "(256 * be_value bs + unat b) div 256 = be_value bs" "(256 * be_value bs + unat b) mod 256 = unat b"
    using unat_byte_bound [of b] by simp_all
  with snoc show ?case by (simp add: be_value_snoc)
qed

lemma be_value_bound: "be_value bs < 256 ^ length bs"
proof (induction bs rule: rev_induct)
  case (snoc b bs)
  then have "256 * be_value bs + unat b < 256 * 256 ^ length bs"
    using unat_byte_bound [of b] by linarith
  then show ?case by (simp add: be_value_snoc)
qed (simp add: be_value_def)

lemma hex_from_be_bytes:
  assumes "length bs = 8"
  shows "hex_value (format_hex16 (from_be_bytes bs)) = be_value bs"
proof -
  have "be_value bs < 2 ^ 64" using be_value_bound [of bs] assms by simp
  then show ?thesis by (simp add: format_hex16_def from_be_bytes_def hex_value_hex_fixed unat_of_nat)
qed

lemma example_host_config_file:
  "find_config_file example_host = Some ''/home/ann/.config/claudia-statusline/config.toml''"
  by (simp add: find_config_file_def example_host_def existing_def get_config_dir_def path_join_def)

subsection \<open>Properties of the environment\<close>

text \<open>
  C28. \<open>find_config_file\<close> returns the first existing file of the candidates
  \<open>STATUSLINE_CONFIG_PATH\<close>, \<open>STATUSLINE_CONFIG\<close>, the XDG config directory's
  \<open>config.toml\<close> and \<open>~/.claudia-statusline.toml\<close>, in this order, and nothing when none
  exists.
\<close>

theorem find_config_file_first_existing:
  "find_config_file h = find (path_exists h) (config_candidates h)"
  by (simp add: find_config_file_def config_candidates_def existing_def split: option.split)

text \<open>
  A config file that cannot be read or parsed is reported by \<open>load\<close> as an error, and
  \<open>get_config\<close> then silently runs on the defaults: without theme or backup variables it
  is exactly \<open>Config::default()\<close>.
\<close>

theorem get_config_unloadable_defaults:
  assumes "find_config_file h = Some p"
    and "case read_to_string h p of None \<Rightarrow> True | Some c \<Rightarrow> parse_toml c = None"
    and "env_var h ''CLAUDE_THEME'' = None" "env_var h ''STATUSLINE_THEME'' = None"
    and "env_var h ''STATUSLINE_JSON_BACKUP'' = None"
  shows "(\<exists>e. load h parse_toml = Inl e) \<and> get_config h parse_toml = default_config"
proof -
  have "\<exists>e. load h parse_toml = Inl e"
    using assms(1,2) by (auto simp: load_def load_from_file_def split: option.splits)
  with assms(3-5) show ?thesis by (auto simp: get_config_def)
qed

theorem get_config_unloadable_defaults_witness:
  "find_config_file (example_host\<lparr>env_var := Map.empty\<rparr>) = Some ''/home/ann/.config/claudia-statusline/config.toml'' \<and>
   (case read_to_string (example_host\<lparr>env_var := Map.empty\<rparr>) ''/home/ann/.config/claudia-statusline/config.toml'' of
      None \<Rightarrow> True | Some c \<Rightarrow> rejecting_toml c = None) \<and>
   get_config (example_host\<lparr>env_var := Map.empty\<rparr>) rejecting_toml = default_config"
proof -
  have f: "find_config_file (example_host\<lparr>env_var := Map.empty\<rparr>) =
    Some ''/home/ann/.config/claudia-statusline/config.toml''"
    by (simp add: find_config_file_def example_host_def existing_def get_config_dir_def path_join_def)
  show ?thesis
    using get_config_unloadable_defaults [OF f] f by (simp add: example_host_def rejecting_toml_def)
qed

text \<open>
  C29. The theme comes from the environment before the config file: \<open>get_theme\<close> agrees with
  the process-wide configuration, and a set \<open>CLAUDE_THEME\<close> decides it whatever the file
  says. The doc comment of \<open>get_current_theme\<close> lists the config file first.
\<close>

theorem get_theme_env_first:
  "get_theme h parse_toml = theme (display_cfg (get_config h parse_toml)) \<and>
   (env_var h ''CLAUDE_THEME'' = Some t \<longrightarrow> get_theme h parse_toml = t)"
  by (simp add: get_theme_def theme_get_config split: option.split)

theorem get_theme_env_first_witness:
  "env_var example_host ''CLAUDE_THEME'' = Some ''light'' \<and>
   theme (display_cfg (config_from_path example_host defaults_toml ''/home/ann/.config/claudia-statusline/config.toml'')) = ''dark'' \<and>
   get_theme example_host defaults_toml = ''light''"
proof -
  have e: "env_var example_host ''CLAUDE_THEME'' = Some ''light''" by (simp add: example_host_def)
  have "env_var example_host ''CLAUDE_THEME'' = Some ''light'' \<longrightarrow> get_theme example_host defaults_toml = ''light''"
    using get_theme_env_first [of example_host defaults_toml "''light''"] by (rule conjunct2)
  with e have t: "get_theme example_host defaults_toml = ''light''" by blast
  have "theme (display_cfg (config_from_path example_host defaults_toml
      ''/home/ann/.config/claudia-statusline/config.toml'')) = ''dark''"
    by (simp add: example_host_def config_from_path_def load_from_file_def defaults_toml_def default_defs)
  with e t show ?thesis by blast
qed

text \<open>
  An empty \<open>XDG_DATA_HOME\<close> or \<open>XDG_CONFIG_HOME\<close>, which the XDG Base Directory
  specification says to treat as unset, is used as given: the data directory, the config
  directory and the default config path become paths relative to the working directory.
\<close>

theorem empty_xdg_relative_dirs:
  "(env_var h ''XDG_DATA_HOME'' = Some [] \<longrightarrow> get_data_dir h = ''claudia-statusline'') \<and>
   (env_var h ''XDG_CONFIG_HOME'' = Some [] \<longrightarrow>
      get_config_dir h = ''claudia-statusline'' \<and> default_config_path h = Inr ''claudia-statusline/config.toml'')"
  by (simp add: get_data_dir_def get_config_dir_def default_config_path_def path_join_def)

theorem empty_xdg_relative_dirs_witness:
  "env_var (example_host\<lparr>env_var := [''XDG_DATA_HOME'' \<mapsto> [], ''XDG_CONFIG_HOME'' \<mapsto> []]\<rparr>) ''XDG_DATA_HOME'' = Some [] \<and>
   get_data_dir (example_host\<lparr>env_var := [''XDG_DATA_HOME'' \<mapsto> [], ''XDG_CONFIG_HOME'' \<mapsto> []]\<rparr>) = ''claudia-statusline''"
  using empty_xdg_relative_dirs [of "example_host\<lparr>env_var := [''XDG_DATA_HOME'' \<mapsto> [], ''XDG_CONFIG_HOME'' \<mapsto> []]\<rparr>"]
  by simp

text \<open>
  C30. The device id is sixteen hexadecimal digits from which the first eight bytes of the
  SHA-256 digest are read back: decoding the id and splitting it into big-endian bytes
  gives exactly \<open>result[0..8]\<close>.
\<close>

theorem device_id_roundtrip:
  assumes "length (sha256 (device_id_input h)) = 32"
  shows "\<exists>id. get_device_id sha256 h = Some id \<and> length id = 16 \<and>
           be_bytes 8 (hex_value id) = take 8 (sha256 (device_id_input h))"
proof -
  let ?bs = "take 8 (sha256 (device_id_input h))"
  have l: "length ?bs = 8" using assms by simp
  have "be_bytes 8 (hex_value (format_hex16 (from_be_bytes ?bs))) = ?bs"
    using hex_from_be_bytes [OF l] be_bytes_be_value [of ?bs] l by simp
  with assms show ?thesis by (simp add: get_device_id_def format_hex16_def)
qed

theorem device_id_roundtrip_witness:
  "length (counting_digest (device_id_input example_host)) = 32 \<and>
   (\<exists>id. get_device_id counting_digest example_host = Some id \<and> length id = 16 \<and>
      be_bytes 8 (hex_value id) = take 8 (counting_digest (device_id_input example_host)))"
  using device_id_roundtrip [of counting_digest example_host] by (simp add: counting_digest_def)

text \<open>
  C31. The bar between host name and user name keeps the digest input unambiguous as long as
  the host name has no bar: two inputs are equal only for the same host and user. A host
  name with a bar collides (\<open>device_preimage_collision\<close>).
\<close>

theorem device_preimage_injective:
  assumes "CHR ''|'' \<notin> set h1" and "CHR ''|'' \<notin> set h2"
    and "device_preimage h1 u1 = device_preimage h2 u2"
  shows "h1 = h2 \<and> u1 = u2"
proof -
  have "h1 = h2" using takeWhile_preimage [OF assms(1), of u1] takeWhile_preimage [OF assms(2), of u2] assms(3)
    by simp
  with assms(3) show ?thesis by (simp add: device_preimage_def)
qed

theorem device_preimage_injective_witness:
  "CHR ''|'' \<notin> set ''box'' \<and> CHR ''|'' \<notin> set ''box'' \<and>
   device_preimage ''box'' ''ann'' = device_preimage ''box'' ''ann'' \<and> ''box'' = ''box'' \<and> ''ann'' = ''ann''"
  using device_preimage_injective [of "''box''" "''box''" "''ann''" "''ann''"] by simp

theorem device_preimage_collision:
  "device_preimage ''a|b'' ''c'' = device_preimage ''a'' ''b|c''"
  by (simp add: device_preimage_def)

end
