(* ===== verification/Timestamps.thy ===== *)
theory Timestamps
  imports Duration "HOL-Library.Monad_Syntax"
begin

text \<open>
  Timestamps (\<open>parse_iso8601_to_unix\<close> in \<open>src/src/utils.rs\<close>; \<open>current_timestamp\<close>,
  \<open>current_date\<close> and \<open>current_month\<close> in \<open>src/src/common.rs\<close>). The code calls chrono:
  \<open>DateTime::parse_from_rfc3339\<close>, \<open>NaiveDateTime::parse_from_str\<close> with the formats
  \<open>%Y-%m-%dT%H:%M:%S%.f\<close> and \<open>%Y-%m-%dT%H:%M:%S\<close>, \<open>to_rfc3339\<close> and \<open>format\<close>. Those
  library routines are modelled here by the rules chrono documents: fixed-width digit
  fields, the proleptic Gregorian calendar, a leap second \<open>:60\<close> read as \<open>:59\<close>, an RFC 3339
  offset \<open>Z\<close> or \<open>\<plusminus>HH:MM\<close> of at most 23:59, an optional fraction for \<open>%.f\<close>, and
  \<open>to_rfc3339\<close>'s automatic fraction width. Timestamps are \<open>i64\<close> seconds as integers; the
  code's \<open>dt.timestamp() as u64\<close> is the reinterpretation \<open>u64_of_i64\<close> through a 64-bit word.
  The strings are the bytes of the UTF-8 text.
\<close>

subsection \<open>The proleptic Gregorian calendar\<close>

definition is_leap :: "int \<Rightarrow> bool" where
  "is_leap y \<longleftrightarrow> (4 dvd y \<and> \<not> 100 dvd y) \<or> 400 dvd y"

definition days_in_month :: "int \<Rightarrow> nat \<Rightarrow> nat" where
  "days_in_month y m =
     (if m = 2 then (if is_leap y then 29 else 28)
      else if m = 4 \<or> m = 6 \<or> m = 9 \<or> m = 11 then 30 else 31)"

definition valid_date :: "int \<Rightarrow> nat \<Rightarrow> nat \<Rightarrow> bool" where
  "valid_date y m d \<longleftrightarrow> 1 \<le> m \<and> m \<le> 12 \<and> 1 \<le> d \<and> d \<le> days_in_month y m"

text \<open>Days from 0001-01-01 to the first of January of year \<open>y\<close>, in closed form.\<close>

definition days_before_year :: "int \<Rightarrow> int" where
  "days_before_year y = 365 * (y - 1) + (y - 1) div 4 - (y - 1) div 100 + (y - 1) div 400"

definition days_before_month :: "int \<Rightarrow> nat \<Rightarrow> nat" where
  "days_before_month y m = sum_list (map (days_in_month y) [1..<m])"

definition days_from_epoch :: "int \<Rightarrow> nat \<Rightarrow> nat \<Rightarrow> int" where
  "days_from_epoch y m d =
     days_before_year y - days_before_year 1970 + int (days_before_month y m) + int d - 1"

text \<open>The length of a year: the reference the closed form is checked against.\<close>

definition year_days :: "int \<Rightarrow> int" where
  "year_days y = (if is_leap y then 366 else 365)"

text \<open>Seconds since 1970-01-01T00:00:00 UTC of a date and time read as UTC; second 60 (a
  leap second) has the timestamp of second 59, as chrono represents it.\<close>

definition unix_seconds :: "int \<Rightarrow> nat \<Rightarrow> nat \<Rightarrow> nat \<Rightarrow> nat \<Rightarrow> nat \<Rightarrow> int" where
  "unix_seconds y mo d h mi s =
     days_from_epoch y mo d * 86400 + int h * 3600 + int mi * 60 + int (min s 59)"

definition valid_time :: "nat \<Rightarrow> nat \<Rightarrow> nat \<Rightarrow> bool" where
  "valid_time h mi s \<longleftrightarrow> h \<le> 23 \<and> mi \<le> 59 \<and> s \<le> 60"

text \<open>\<open>i64 as u64\<close>: the two's complement bits read as unsigned.\<close>

definition u64_of_i64 :: "int \<Rightarrow> nat" where
  "u64_of_i64 t = unat (word_of_int t :: 64 word)"

subsection \<open>Scanning\<close>

text \<open>\<open>scan::number(s, w, w)\<close>: exactly \<open>w\<close> ASCII digits.\<close>

definition read_fixed :: "nat \<Rightarrow> string \<Rightarrow> (nat \<times> string) option" where
  "read_fixed w s =
     (if length s \<ge> w \<and> list_all is_digit (take w s) then Some (digits_value (take w s), drop w s)
      else None)"

definition expect_char :: "char \<Rightarrow> string \<Rightarrow> string option" where
  "expect_char c s = (case s of d # r \<Rightarrow> if d = c then Some r else None | [] \<Rightarrow> None)"

text \<open>\<open>%.f\<close>: nothing, or a dot and at least one digit; chrono keeps nine digits and skips
  the rest, and the fraction does not enter \<open>timestamp()\<close>.\<close>

definition skip_fraction :: "string \<Rightarrow> string option" where
  "skip_fraction s =
     (case s of
        c # r \<Rightarrow>
          if c = CHR ''.'' then (if r \<noteq> [] \<and> is_digit (hd r) then Some (dropWhile is_digit r) else None)
          else Some s
      | [] \<Rightarrow> Some s)"

text \<open>The sign of an offset: \<open>+\<close>, \<open>-\<close> or the minus sign U+2212 (bytes E2 88 92).\<close>

definition minus_sign_utf8 :: string where
  "minus_sign_utf8 = [char_of (0xE2::nat), char_of (0x88::nat), char_of (0x92::nat)]"

definition read_sign :: "string \<Rightarrow> (int \<times> string) option" where
  "read_sign s =
     (if s \<noteq> [] \<and> hd s = CHR ''+'' then Some (1, tl s)
      else if s \<noteq> [] \<and> hd s = CHR ''-'' then Some (-1, tl s)
      else if prefix minus_sign_utf8 s then Some (-1, drop 3 s)
      else None)"

text \<open>\<open>time-offset = "Z" / ("+" / "-") HH ":" MM\<close>, at most 23:59 either way, in seconds
  east of UTC.\<close>

definition read_offset :: "string \<Rightarrow> (int \<times> string) option" where
  "read_offset s =
     (if s \<noteq> [] \<and> (hd s = CHR ''Z'' \<or> hd s = CHR ''z'') then Some (0, tl s)
      else do {
        (sgn, r) \<leftarrow> read_sign s;
        (hh, r) \<leftarrow> read_fixed 2 r;
        r \<leftarrow> expect_char CHR '':'' r;
        (mm, r) \<leftarrow> read_fixed 2 r;
        if mm \<le> 59 \<and> hh * 60 + mm \<le> 23 * 60 + 59 then Some (sgn * int (hh * 3600 + mm * 60), r)
        else None
      })"

text \<open>The date and time fields shared by the three formats: \<open>YYYY-MM-DD\<close>, one separator
  accepted by \<open>sep\<close>, \<open>HH:MM:SS\<close>.\<close>

definition read_date_time ::
  "(char \<Rightarrow> bool) \<Rightarrow> string \<Rightarrow> ((int \<times> nat \<times> nat \<times> nat \<times> nat \<times> nat) \<times> string) option" where
  "read_date_time sep s = do {
     (y, r) \<leftarrow> read_fixed 4 s;
     r \<leftarrow> expect_char CHR ''-'' r;
     (mo, r) \<leftarrow> read_fixed 2 r;
     r \<leftarrow> expect_char CHR ''-'' r;
     (d, r) \<leftarrow> read_fixed 2 r;
     r \<leftarrow> (if r \<noteq> [] \<and> sep (hd r) then Some (tl r) else None);
     (h, r) \<leftarrow> read_fixed 2 r;
     r \<leftarrow> expect_char CHR '':'' r;
     (mi, r) \<leftarrow> read_fixed 2 r;
     r \<leftarrow> expect_char CHR '':'' r;
     (sec, r) \<leftarrow> read_fixed 2 r;
     Some ((int y, mo, d, h, mi, sec), r)
   }"

definition fields_seconds :: "int \<times> nat \<times> nat \<times> nat \<times> nat \<times> nat \<Rightarrow> int option" where
  "fields_seconds f =
     (case f of (y, mo, d, h, mi, sec) \<Rightarrow>
        if valid_date y mo d \<and> valid_time h mi sec then Some (unix_seconds y mo d h mi sec) else None)"

text \<open>\<open>DateTime::parse_from_rfc3339\<close> followed by \<open>timestamp()\<close>: the date and the time
  separated by \<open>T\<close>, \<open>t\<close> or a space, an optional fraction, an offset, and nothing after.\<close>

definition rfc3339_timestamp :: "string \<Rightarrow> int option" where
  "rfc3339_timestamp s = do {
     (f, r) \<leftarrow> read_date_time (\<lambda>c. c = CHR ''T'' \<or> c = CHR ''t'' \<or> c = CHR '' '') s;
     r \<leftarrow> skip_fraction r;
     (off, r) \<leftarrow> read_offset r;
     if r = [] then map_option (\<lambda>t. t - off) (fields_seconds f) else None
   }"

text \<open>\<open>NaiveDateTime::parse_from_str(s, "%Y-%m-%dT%H:%M:%S%.f")\<close> (with \<open>with_fraction\<close>) and
  \<open>"%Y-%m-%dT%H:%M:%S"\<close> (without), then \<open>and_utc().timestamp()\<close>.\<close>

definition naive_timestamp :: "bool \<Rightarrow> string \<Rightarrow> int option" where
  "naive_timestamp with_fraction s = do {
     (f, r) \<leftarrow> read_date_time (\<lambda>c. c = CHR ''T'') s;
     r \<leftarrow> (if with_fraction then skip_fraction r else Some r);
     if r = [] then fields_seconds f else None
   }"

definition parse_iso8601_to_unix :: "string \<Rightarrow> nat option" where
  "parse_iso8601_to_unix input =
     (case rfc3339_timestamp input of
        Some t \<Rightarrow> Some (u64_of_i64 t)
      | None \<Rightarrow>
          (case naive_timestamp True input of
             Some t \<Rightarrow> Some (u64_of_i64 t)
           | None \<Rightarrow>
               (case naive_timestamp False input of
                  Some t \<Rightarrow> Some (u64_of_i64 t)
                | None \<Rightarrow> None)))"

subsection \<open>Formatting the clock\<close>

text \<open>\<open>Local::now()\<close>: the local calendar fields, the nanoseconds (from \<open>10^9\<close> on in a
  leap second, which chrono keeps at second 59) and the offset of local time east of UTC
  in seconds.\<close>

record local_datetime =
  dt_year :: int
  dt_month :: nat
  dt_day :: nat
  dt_hour :: nat
  dt_minute :: nat
  dt_second :: nat
  dt_nano :: nat
  dt_offset :: int

definition valid_datetime :: "local_datetime \<Rightarrow> bool" where
  "valid_datetime dt \<longleftrightarrow>
     valid_date (dt_year dt) (dt_month dt) (dt_day dt) \<and> dt_hour dt \<le> 23 \<and> dt_minute dt \<le> 59 \<and>
     dt_second dt \<le> 59 \<and> dt_nano dt < 2000000000 \<and> (dt_nano dt \<ge> 1000000000 \<longrightarrow> dt_second dt = 59) \<and>
     \<bar>dt_offset dt\<bar> < 86400"

definition unix_time :: "local_datetime \<Rightarrow> int" where
  "unix_time dt =
     unix_seconds (dt_year dt) (dt_month dt) (dt_day dt) (dt_hour dt) (dt_minute dt) (dt_second dt)
     - dt_offset dt"

text \<open>\<open>format!("{:0w}", n)\<close>.\<close>

definition pad_digits :: "nat \<Rightarrow> nat \<Rightarrow> string" where
  "pad_digits w n = replicate (w - length (string_of_nat n)) CHR ''0'' @ string_of_nat n"

text \<open>The year as chrono writes it for \<open>%Y\<close> and in RFC 3339: four digits from 0 to 9999,
  otherwise an explicit sign and at least four digits (\<open>{:+05}\<close>).\<close>

definition format_year :: "int \<Rightarrow> string" where
  "format_year y =
     (if 0 \<le> y \<and> y \<le> 9999 then pad_digits 4 (nat y)
      else (if y < 0 then CHR ''-'' else CHR ''+'') # pad_digits 4 (nat \<bar>y\<bar>))"

text \<open>\<open>SecondsFormat::AutoSi\<close>: no fraction, or 3, 6 or 9 digits, the fewest that are exact.\<close>

definition fraction_autosi :: "nat \<Rightarrow> string" where
  "fraction_autosi nano =
     (if nano = 0 then []
      else if nano mod 1000000 = 0 then CHR ''.'' # pad_digits 3 (nano div 1000000)
      else if nano mod 1000 = 0 then CHR ''.'' # pad_digits 6 (nano div 1000)
      else CHR ''.'' # pad_digits 9 nano)"

text \<open>The offset as \<open>+HH:MM\<close> or \<open>-HH:MM\<close>, seconds rounded to the nearest minute.\<close>

definition format_offset :: "int \<Rightarrow> string" where
  "format_offset off =
     (let minutes = (nat \<bar>off\<bar> + 30) div 60
      in (if off < 0 then CHR ''-'' else CHR ''+'') # pad_digits 2 (minutes div 60) @ CHR '':'' #
         pad_digits 2 (minutes mod 60))"

text \<open>\<open>DateTime::to_rfc3339\<close>: a leap second is written as second 60.\<close>

definition format_rfc3339 :: "local_datetime \<Rightarrow> string" where
  "format_rfc3339 dt =
     (let (sec, nano) = (if dt_nano dt \<ge> 1000000000 then (dt_second dt + 1, dt_nano dt - 1000000000)
                         else (dt_second dt, dt_nano dt))
      in format_year (dt_year dt) @ CHR ''-'' # pad_digits 2 (dt_month dt) @ CHR ''-'' #
         pad_digits 2 (dt_day dt) @ CHR ''T'' # pad_digits 2 (dt_hour dt) @ CHR '':'' #
         pad_digits 2 (dt_minute dt) @ CHR '':'' # pad_digits 2 sec @ fraction_autosi nano @
         format_offset (dt_offset dt))"

definition current_timestamp :: "local_datetime \<Rightarrow> string" where
  "current_timestamp now = format_rfc3339 now"

definition current_date :: "local_datetime \<Rightarrow> string" where
  "current_date now =
     format_year (dt_year now) @ CHR ''-'' # pad_digits 2 (dt_month now) @ CHR ''-'' # pad_digits 2 (dt_day now)"

definition current_month :: "local_datetime \<Rightarrow> string" where
  "current_month now = format_year (dt_year now) @ CHR ''-'' # pad_digits 2 (dt_month now)"

lemmas timestamp_defs [model_defs] = is_leap_def days_in_month_def valid_date_def days_before_year_def
  days_before_month_def days_from_epoch_def unix_seconds_def valid_time_def read_fixed_def
  expect_char_def skip_fraction_def minus_sign_utf8_def read_sign_def read_offset_def
  read_date_time_def fields_seconds_def rfc3339_timestamp_def naive_timestamp_def
  parse_iso8601_to_unix_def pad_digits_def format_year_def fraction_autosi_def format_offset_def
  format_rfc3339_def current_timestamp_def current_date_def current_month_def

subsection \<open>Examples\<close>

text \<open>A transcript line that is an entry whose timestamp is the line itself, and a clock
  reading in a leap second at UTC-05:30.\<close>

definition stamped_line_parse :: entry_parser where
  "stamped_line_parse line = Some (example_stamped line)"

definition example_now :: local_datetime where
  "example_now = \<lparr>dt_year = 2025, dt_month = 8, dt_day = 5, dt_hour = 9, dt_minute = 3, dt_second = 59,
     dt_nano = 1500000000, dt_offset = -19800\<rparr>"

subsection \<open>Lemmas\<close>

lemma u64_of_i64_eq: "u64_of_i64 t = nat (t mod 2 ^ 64)"
  by (simp add: u64_of_i64_def unat_eq_nat_uint uint_word_of_int_eq take_bit_eq_mod)

text \<open>Evaluation of the parser on literal strings.\<close>

lemmas timestamp_eval = parse_iso8601_to_unix_def rfc3339_timestamp_def naive_timestamp_def
  read_date_time_def read_fixed_def expect_char_def skip_fraction_def read_offset_def read_sign_def
  minus_sign_utf8_def fields_seconds_def valid_date_def valid_time_def unix_seconds_def
  days_from_epoch_def days_before_year_def days_before_month_def days_in_month_def is_leap_def
  u64_of_i64_eq is_digit_def digits_value_def digit_value_def upt_rec

paragraph \<open>Fixed-width digits.\<close>

lemma length_string_of_nat_le: "n < 10 ^ w \<Longrightarrow> 0 < w \<Longrightarrow> length (string_of_nat n) \<le> w"
proof (induction n arbitrary: w rule: string_of_nat.induct)
  case (1 n)
  show ?case
  proof (cases "n < 10")
    case True
    with "1.prems" show ?thesis by simp
  next
    case False
    have w: "2 \<le> w"
    proof (rule ccontr)
      assume "\<not> 2 \<le> w"
      with "1.prems" have "w = 1" by simp
      with "1.prems" False show False by simp
    qed
    then obtain v where v: "w = Suc v" "0 < v" by (cases w) auto
    have "n div 10 < 10 ^ v" using "1.prems"(1) v by (simp add: div_less_iff_less_mult mult.commute)
    with "1.IH" [OF False] v False show ?thesis by simp
  qed
qed

lemma foldl_digit_zeros: "foldl (\<lambda>acc c. 10 * acc + digit_value c) 0 (replicate k CHR ''0'') = 0"
  by (induction k) (simp_all add: digit_value_def)

lemma digits_value_zeros [simp]: "digits_value (replicate k CHR ''0'' @ ds) = digits_value ds"
  by (simp add: digits_value_def foldl_digit_zeros)

lemma pad_digits_length: "length (pad_digits w n) = max w (length (string_of_nat n))"
  by (simp add: pad_digits_def)

lemma pad_digits_digits: "list_all is_digit (pad_digits w n)"
  using string_of_nat_digits [of n] by (auto simp: pad_digits_def list_all_iff is_digit_def set_replicate_conv_if)

lemma pad_digits_value [simp]: "digits_value (pad_digits w n) = n"
  by (simp add: pad_digits_def)

lemma pad_digits_nonempty [simp]: "pad_digits w n \<noteq> []"
  by (simp add: pad_digits_def)

lemma pad_digits_exact: "n < 10 ^ w \<Longrightarrow> 0 < w \<Longrightarrow> length (pad_digits w n) = w"
  using length_string_of_nat_le by (simp add: pad_digits_length)

lemma read_fixed_pad:
  assumes "n < 10 ^ w" and "0 < w"
  shows "read_fixed w (pad_digits w n @ rest) = Some (n, rest)"
  using pad_digits_exact [OF assms] pad_digits_digits [of w n] by (simp add: read_fixed_def)

lemma dropWhile_pad_digits:
  "rest = [] \<or> \<not> is_digit (hd rest) \<Longrightarrow> dropWhile is_digit (pad_digits w n @ rest) = rest"
  using pad_digits_digits [of w n] by (cases rest) (auto simp: dropWhile_append list_all_iff)

lemma hd_pad_digits_digit: "is_digit (hd (pad_digits w n))"
  using pad_digits_digits [of w n] pad_digits_nonempty [of w n]
  by (cases "pad_digits w n") auto

lemma digits_value_bound: "list_all is_digit ds \<Longrightarrow> digits_value ds < 10 ^ length ds"
proof (induction ds rule: rev_induct)
  case (snoc c ds)
  then have "digit_value c < 10" by (auto simp: is_digit_def digit_value_def)
  with snoc show ?case by simp
qed (simp add: digits_value_def)

lemma read_fixed_Some:
  "read_fixed w s = Some (n, r) \<Longrightarrow> n < 10 ^ w \<and> s = take w s @ r"
  using digits_value_bound [of "take w s"] by (auto simp: read_fixed_def split: if_splits)

paragraph \<open>Reading what \<open>to_rfc3339\<close> writes.\<close>

lemma skip_fraction_autosi:
  assumes "rest \<noteq> []" and "\<not> is_digit (hd rest)" and "hd rest \<noteq> CHR ''.''"
  shows "skip_fraction (fraction_autosi nano @ rest) = Some rest"
  using assms dropWhile_pad_digits hd_pad_digits_digit
  by (cases rest) (auto simp: skip_fraction_def fraction_autosi_def)

lemma read_sign_format:
  "read_sign ((if off < 0 then CHR ''-'' else CHR ''+'') # r) = Some (if off < 0 then -1 else 1, r)"
  by (simp add: read_sign_def)

lemma read_offset_format:
  assumes "60 dvd off" and "\<bar>off\<bar> \<le> 86340"
  shows "read_offset (format_offset off) = Some (off, [])"
proof -
  obtain k where k: "off = 60 * k" using assms(1) by (auto elim: dvdE)
  define m where "m = nat \<bar>k\<bar>"
  have a: "nat \<bar>off\<bar> = 60 * m" by (simp add: k m_def abs_mult nat_mult_distrib)
  have m: "(nat \<bar>off\<bar> + 30) div 60 = m" using a by simp
  have "m \<le> 1439" using assms(2) a by simp
  then have hh: "m div 60 < 10 ^ 2" and mm: "m mod 60 < 10 ^ 2" by simp_all
  have val: "(if off < 0 then -1 else 1) * int (m div 60 * 3600 + m mod 60 * 60) = off"
  proof -
    have "m div 60 * 3600 + m mod 60 * 60 = 60 * m" using div_mult_mod_eq [of m 60] by linarith
    then have "int (m div 60 * 3600 + m mod 60 * 60) = int (60 * m)" by (simp only:)
    also have "\<dots> = \<bar>off\<bar>" using a by simp
    finally show ?thesis by simp
  qed
  have "m div 60 * 60 + m mod 60 \<le> 23 * 60 + 59" using \<open>m \<le> 1439\<close> by simp
  with val show ?thesis
    by (simp add: read_offset_def format_offset_def m read_sign_format read_fixed_pad [OF hh]
        read_fixed_pad [OF mm, where rest = "[]", simplified] expect_char_def)
qed

lemma read_date_time_format:
  assumes "y < 10000" "mo < 100" "d < 100" "h < 100" "mi < 100" "sec < 100" "sep c"
  shows "read_date_time sep (pad_digits 4 y @ CHR ''-'' # pad_digits 2 mo @ CHR ''-'' # pad_digits 2 d @
           c # pad_digits 2 h @ CHR '':'' # pad_digits 2 mi @ CHR '':'' # pad_digits 2 sec @ rest) =
         Some ((int y, mo, d, h, mi, sec), rest)"
  using assms by (simp add: read_date_time_def read_fixed_pad expect_char_def)

lemma format_offset_hd: "format_offset off \<noteq> [] \<and> \<not> is_digit (hd (format_offset off)) \<and>
  hd (format_offset off) \<noteq> CHR ''.''"
  by (simp add: format_offset_def Let_def is_digit_def)

lemma offset_bound: "60 dvd off \<Longrightarrow> \<bar>off\<bar> < 86400 \<Longrightarrow> \<bar>off\<bar> \<le> (86340::int)"
  by (auto elim!: dvdE simp: abs_mult)

lemma valid_date_bounds: "valid_date y m d \<Longrightarrow> m < 100 \<and> d < 100"
  by (auto simp: valid_date_def days_in_month_def split: if_splits)

paragraph \<open>What the parsers accept.\<close>

lemma read_date_time_Some:
  "read_date_time sep s = Some ((y, mo, d, h, mi, sec), r) \<Longrightarrow> 0 \<le> y \<and> y < 10000"
  by (auto simp: read_date_time_def expect_char_def dest!: read_fixed_Some
      split: Option.bind_splits list.splits if_splits)

lemma read_offset_Some: "read_offset s = Some (off, r) \<Longrightarrow> \<bar>off\<bar> \<le> 86340"
  by (auto simp: read_offset_def read_sign_def split: Option.bind_splits if_splits)

lemma fields_seconds_Some:
  "fields_seconds (y, mo, d, h, mi, sec) = Some t \<Longrightarrow>
   valid_date y mo d \<and> valid_time h mi sec \<and> t = unix_seconds y mo d h mi sec"
  by (auto simp: fields_seconds_def split: if_splits)

lemma naive_without_fraction:
  "naive_timestamp False s = Some t \<Longrightarrow> naive_timestamp True s = Some t"
  by (auto simp: naive_timestamp_def skip_fraction_def split: Option.bind_splits if_splits)

lemma rfc3339_timestamp_Some:
  assumes "rfc3339_timestamp s = Some t"
  shows "\<exists>y mo d h mi sec off. 0 \<le> y \<and> y \<le> 9999 \<and> valid_date y mo d \<and> valid_time h mi sec \<and>
           \<bar>off\<bar> \<le> 86340 \<and> t = unix_seconds y mo d h mi sec - off"
proof -
  obtain f r1 r2 off where dt: "read_date_time (\<lambda>c. c = CHR ''T'' \<or> c = CHR ''t'' \<or> c = CHR '' '') s = Some (f, r1)"
    and off: "read_offset r2 = Some (off, [])" and fs: "map_option (\<lambda>t. t - off) (fields_seconds f) = Some t"
    using assms by (auto simp: rfc3339_timestamp_def split: Option.bind_splits if_splits)
  obtain y mo d h mi sec where f: "f = (y, mo, d, h, mi, sec)" by (cases f) blast
  from fs obtain t0 where "fields_seconds f = Some t0" and "t = t0 - off" by auto
  with f dt off show ?thesis
    by (fastforce dest: read_date_time_Some read_offset_Some fields_seconds_Some)
qed

lemma naive_timestamp_Some:
  assumes "naive_timestamp b s = Some t"
  shows "\<exists>y mo d h mi sec. 0 \<le> y \<and> y \<le> 9999 \<and> valid_date y mo d \<and> valid_time h mi sec \<and>
           t = unix_seconds y mo d h mi sec"
proof -
  obtain f r where dt: "read_date_time (\<lambda>c. c = CHR ''T'') s = Some (f, r)" and fs: "fields_seconds f = Some t"
    using assms by (auto simp: naive_timestamp_def split: Option.bind_splits if_splits)
  obtain y mo d h mi sec where f: "f = (y, mo, d, h, mi, sec)" by (cases f) blast
  with dt fs show ?thesis by (fastforce dest: read_date_time_Some fields_seconds_Some)
qed

paragraph \<open>The calendar and the range of timestamps.\<close>

lemma div_succ:
  assumes "(1::int) < k"
  shows "(y + 1) div k = y div k + (if k dvd (y + 1) then 1 else 0)"
proof -
  have m: "0 \<le> y mod k" "y mod k < k" using assms by simp_all
  have a: "(y + 1) div k = y div k + (y mod k + 1) div k"
    using assms by (subst div_add1_eq) simp
  have dv: "k dvd (y + 1) \<longleftrightarrow> (y mod k + 1) mod k = 0"
    by (simp add: dvd_eq_mod_eq_0 mod_add_left_eq)
  show ?thesis
  proof (cases "y mod k + 1 = k")
    case True
    then show ?thesis using a dv assms by simp
  next
    case False
    then have "y mod k + 1 < k" using m by simp
    then have "(y mod k + 1) div k = 0" "(y mod k + 1) mod k = y mod k + 1" using m by simp_all
    then show ?thesis using a dv m by simp
  qed
qed

lemma days_before_year_succ: "days_before_year (y + 1) = days_before_year y + year_days y"
proof -
  have "(y - 1 + 1) div 4 = (y - 1) div 4 + (if 4 dvd y then 1 else 0)"
    "(y - 1 + 1) div 100 = (y - 1) div 100 + (if 100 dvd y then 1 else 0)"
    "(y - 1 + 1) div 400 = (y - 1) div 400 + (if 400 dvd y then 1 else 0)"
    using div_succ [of 4 "y - 1"] div_succ [of 100 "y - 1"] div_succ [of 400 "y - 1"] by simp_all
  moreover have "400 dvd y \<Longrightarrow> 100 dvd y" "100 dvd y \<Longrightarrow> 4 dvd y"
    by (auto elim!: dvdE intro: dvdI [where k = "4 * _"] dvdI [where k = "25 * _"])
  ultimately show ?thesis
    by (auto simp: days_before_year_def year_days_def is_leap_def)
qed

lemma days_from_epoch_jan1:
  "days_from_epoch y 1 1 = days_before_year y - days_before_year 1970"
  "days_from_epoch y (Suc 0) (Suc 0) = days_before_year y - days_before_year 1970"
  by (simp_all add: days_from_epoch_def days_before_month_def)

lemma days_before_year_lower: "0 \<le> y \<Longrightarrow> -366 \<le> days_before_year y"
proof (cases "y = 0")
  case True
  then show ?thesis by (simp add: days_before_year_def)
next
  case False
  assume "0 \<le> y"
  with False have a: "0 \<le> y - 1" by simp
  then have "(y - 1) div 100 \<le> (y - 1) div 4" by (rule zdiv_mono2) simp_all
  moreover have "0 \<le> (y - 1) div 400" using a by simp
  ultimately show ?thesis using a by (simp add: days_before_year_def)
qed

lemma unix_seconds_lower: "0 \<le> y \<Longrightarrow> - (2 ^ 40) \<le> unix_seconds y mo d h mi sec"
proof -
  assume "0 \<le> y"
  have "days_before_year 1970 = 719162" by (simp add: days_before_year_def)
  then have "-719529 \<le> days_from_epoch y mo d"
    using days_before_year_lower [OF \<open>0 \<le> y\<close>] by (simp add: days_from_epoch_def)
  then show ?thesis by (simp add: unix_seconds_def)
qed

lemma u64_of_i64_neg: "- (2 ^ 64) \<le> t \<Longrightarrow> t < 0 \<Longrightarrow> u64_of_i64 t = nat (t + 2 ^ 64)"
proof -
  assume "- (2 ^ 64) \<le> t" "t < 0"
  then have "(t + 2 ^ 64) mod 2 ^ 64 = t + 2 ^ 64" by (intro mod_pos_pos_trivial) simp_all
  then have "t mod 2 ^ 64 = t + 2 ^ 64" by simp
  then show ?thesis by (simp add: u64_of_i64_def unat_eq_nat_uint uint_word_of_int_eq take_bit_eq_mod)
qed

lemma format_year_length:
  "length (format_year y) = (if 0 \<le> y \<and> y \<le> 9999 then 4 else Suc (max 4 (length (string_of_nat (nat \<bar>y\<bar>)))))"
proof (cases "0 \<le> y \<and> y \<le> 9999")
  case True
  then have "nat y < 10 ^ 4" by (simp add: nat_less_iff)
  with True show ?thesis by (simp add: format_year_def pad_digits_exact)
next
  case False
  then show ?thesis by (auto simp: format_year_def pad_digits_length)
qed

lemma current_date_month: "current_date now = current_month now @ CHR ''-'' # pad_digits 2 (dt_day now)"
  by (simp add: current_date_def current_month_def)

subsection \<open>Properties of timestamps\<close>

text \<open>
  C25. What \<open>current_timestamp\<close> writes, \<open>parse_iso8601_to_unix\<close> reads back as the same
  instant: for every valid clock reading with a four-digit year and an offset of whole
  minutes, including leap seconds and every fraction width, the parsed value is the Unix
  time of the reading (as \<open>u64\<close>).
\<close>

theorem current_timestamp_roundtrip:
  assumes "valid_datetime now" and "0 \<le> dt_year now" and "dt_year now \<le> 9999" and "60 dvd dt_offset now"
  shows "parse_iso8601_to_unix (current_timestamp now) = Some (u64_of_i64 (unix_time now))"
proof -
  define sec where "sec = (if dt_nano now \<ge> 1000000000 then dt_second now + 1 else dt_second now)"
  define nano where "nano = (if dt_nano now \<ge> 1000000000 then dt_nano now - 1000000000 else dt_nano now)"
  define off where "off = dt_offset now"
  define rest where "rest = fraction_autosi nano @ format_offset off"
  have v: "valid_date (dt_year now) (dt_month now) (dt_day now)" "dt_hour now \<le> 23" "dt_minute now \<le> 59"
    "dt_second now \<le> 59" "dt_nano now \<ge> 1000000000 \<longrightarrow> dt_second now = 59" "\<bar>off\<bar> < 86400"
    using assms(1) by (simp_all add: valid_datetime_def off_def)
  have sec: "sec \<le> 60" "min sec 59 = dt_second now" using v by (auto simp: sec_def)
  have str: "current_timestamp now =
    pad_digits 4 (nat (dt_year now)) @ CHR ''-'' # pad_digits 2 (dt_month now) @ CHR ''-'' #
    pad_digits 2 (dt_day now) @ CHR ''T'' # pad_digits 2 (dt_hour now) @ CHR '':'' #
    pad_digits 2 (dt_minute now) @ CHR '':'' # pad_digits 2 sec @ rest"
    using assms(2,3)
    by (simp add: current_timestamp_def format_rfc3339_def format_year_def sec_def nano_def rest_def off_def)
  have dt: "read_date_time (\<lambda>c. c = CHR ''T'' \<or> c = CHR ''t'' \<or> c = CHR '' '') (current_timestamp now) =
    Some ((dt_year now, dt_month now, dt_day now, dt_hour now, dt_minute now, sec), rest)"
    unfolding str using assms(2,3) v valid_date_bounds [OF v(1)] sec
    by (subst read_date_time_format) simp_all
  have fr: "skip_fraction rest = Some (format_offset off)"
    unfolding rest_def using format_offset_hd [of off] by (intro skip_fraction_autosi) simp_all
  have of: "read_offset (format_offset off) = Some (off, [])"
    using assms(4) v(6) by (intro read_offset_format) (simp_all add: off_def offset_bound)
  have fs: "fields_seconds (dt_year now, dt_month now, dt_day now, dt_hour now, dt_minute now, sec) =
    Some (unix_seconds (dt_year now) (dt_month now) (dt_day now) (dt_hour now) (dt_minute now) (dt_second now))"
    using v sec by (simp add: fields_seconds_def valid_time_def unix_seconds_def)
  show ?thesis
    by (simp add: parse_iso8601_to_unix_def rfc3339_timestamp_def dt fr of fs unix_time_def flip: off_def)
qed

theorem current_timestamp_roundtrip_witness:
  "valid_datetime example_now \<and> 0 \<le> dt_year example_now \<and> dt_year example_now \<le> 9999 \<and>
   60 dvd dt_offset example_now \<and>
   current_timestamp example_now = ''2025-08-05T09:03:60.500-05:30'' \<and>
   parse_iso8601_to_unix (current_timestamp example_now) = Some (u64_of_i64 (unix_time example_now))"
proof -
  have v: "valid_datetime example_now"
    by (simp add: valid_datetime_def example_now_def valid_date_def days_in_month_def)
  have s: "current_timestamp example_now = ''2025-08-05T09:03:60.500-05:30''"
    by (simp add: example_now_def current_timestamp_def format_rfc3339_def format_year_def pad_digits_def
        fraction_autosi_def format_offset_def digit_char_def)
  show ?thesis
    using current_timestamp_roundtrip [of example_now] v s by (simp add: example_now_def)
qed

text \<open>
  The closed form of the day count (chrono's proleptic Gregorian calendar) agrees with
  counting year by year from 1970: 365 days a year and 366 in leap years, forwards and
  backwards.
\<close>

theorem calendar_days_equiv:
  "days_from_epoch y 1 1 =
     (if 1970 \<le> y then (\<Sum>k \<in> {1970..<y}. year_days k) else - (\<Sum>k \<in> {y..<1970}. year_days k))"
proof (cases "1970 \<le> y")
  case True
  then show ?thesis
  proof (induction y rule: int_ge_induct)
    case base
    then show ?case by (simp add: days_from_epoch_def days_before_month_def)
  next
    case (step i)
    have "{1970..<i + 1} = insert i {1970..<i}" using step.hyps by auto
    with step show ?case by (simp add: days_from_epoch_jan1 days_before_year_succ)
  qed
next
  case False
  then have "y \<le> 1970" by simp
  then show ?thesis
  proof (induction y rule: int_le_induct)
    case base
    then show ?case by (simp add: days_from_epoch_def days_before_month_def)
  next
    case (step i)
    have "days_before_year i = days_before_year (i - 1) + year_days (i - 1)"
      using days_before_year_succ [of "i - 1"] by simp
    moreover have "{i - 1..<1970} = insert (i - 1) {i..<1970}" using step.hyps by auto
    ultimately show ?case using step by (auto simp: days_from_epoch_jan1 split: if_splits)
  qed
qed

text \<open>
  Every value \<open>parse_iso8601_to_unix\<close> returns is the timestamp of a valid calendar date
  and time of day, with a four-digit year and an offset of at most 23:59, cast to \<open>u64\<close>.
\<close>

theorem parse_iso8601_result_type:
  assumes "parse_iso8601_to_unix s = Some n"
  shows "\<exists>y mo d h mi sec off. 0 \<le> y \<and> y \<le> 9999 \<and> valid_date y mo d \<and> valid_time h mi sec \<and>
           \<bar>off\<bar> \<le> 86340 \<and> n = u64_of_i64 (unix_seconds y mo d h mi sec - off)"
proof (cases "rfc3339_timestamp s")
  case None
  with assms naive_without_fraction [of s] obtain t where "naive_timestamp True s = Some t" "n = u64_of_i64 t"
    by (auto simp: parse_iso8601_to_unix_def split: option.splits)
  moreover from naive_timestamp_Some [OF this(1)] obtain y mo d h mi sec where
    "0 \<le> y \<and> y \<le> 9999 \<and> valid_date y mo d \<and> valid_time h mi sec \<and> t = unix_seconds y mo d h mi sec"
    by blast
  ultimately show ?thesis by (intro exI [of _ y] exI [of _ mo] exI [of _ d] exI [of _ h] exI [of _ mi]
      exI [of _ sec] exI [of _ 0]) simp
next
  case (Some t)
  with assms have "n = u64_of_i64 t" by (simp add: parse_iso8601_to_unix_def)
  with rfc3339_timestamp_Some [OF Some] show ?thesis by blast
qed

theorem parse_iso8601_result_type_witness:
  "parse_iso8601_to_unix ''2025-08-25T10:05:00.000Z'' = Some 1756116300 \<and>
   (\<exists>y mo d h mi sec off. 0 \<le> y \<and> y \<le> 9999 \<and> valid_date y mo d \<and> valid_time h mi sec \<and>
      \<bar>off\<bar> \<le> 86340 \<and> 1756116300 = u64_of_i64 (unix_seconds y mo d h mi sec - off))"
proof -
  have p: "parse_iso8601_to_unix ''2025-08-25T10:05:00.000Z'' = Some 1756116300"
    by (simp add: timestamp_eval)
  with parse_iso8601_result_type [OF p] show ?thesis by blast
qed

text \<open>
  C26. The third attempt of \<open>parse_iso8601_to_unix\<close> (\<open>%Y-%m-%dT%H:%M:%S\<close>) never decides
  the result: \<open>%.f\<close> also matches an absent fraction, so whatever the third format accepts
  the second has already accepted with the same value.
\<close>

theorem parse_iso8601_two_branches:
  "parse_iso8601_to_unix s =
     (case rfc3339_timestamp s of
        Some t \<Rightarrow> Some (u64_of_i64 t)
      | None \<Rightarrow> map_option u64_of_i64 (naive_timestamp True s))"
  using naive_without_fraction [of s]
  by (auto simp: parse_iso8601_to_unix_def split: option.splits)

text \<open>
  C27. \<open>dt.timestamp() as u64\<close> wraps around: a timestamp before 1970 comes back as a number
  of at least \<open>2^63\<close>, larger than every timestamp after 1970.
\<close>

theorem parse_iso8601_pre_epoch_wraps:
  assumes "rfc3339_timestamp s = Some t" and "t < 0"
  shows "parse_iso8601_to_unix s = Some (nat (t + 2 ^ 64)) \<and> 2 ^ 63 \<le> nat (t + 2 ^ 64)"
proof -
  obtain y mo d h mi sec off where "0 \<le> y" "\<bar>off\<bar> \<le> 86340" "t = unix_seconds y mo d h mi sec - off"
    using rfc3339_timestamp_Some [OF assms(1)] by blast
  then have "- (2 ^ 41) \<le> t" using unix_seconds_lower [of y mo d h mi sec] by simp
  with assms show ?thesis by (simp add: parse_iso8601_to_unix_def u64_of_i64_neg)
qed

theorem parse_iso8601_pre_epoch_wraps_witness:
  "rfc3339_timestamp ''1969-12-31T23:59:59Z'' = Some (-1) \<and> (-1::int) < 0 \<and>
   parse_iso8601_to_unix ''1969-12-31T23:59:59Z'' = Some (2 ^ 64 - 1)"
proof -
  have r: "rfc3339_timestamp ''1969-12-31T23:59:59Z'' = Some (-1)" by (simp add: timestamp_eval)
  show ?thesis using parse_iso8601_pre_epoch_wraps [OF r] r by simp
qed

text \<open>
  \<open>current_date\<close> has ten characters, and \<open>current_month\<close> is its first seven, exactly
  when the year has four digits: from the year 10000 on chrono writes \<open>+10000\<close> and the
  \<open>len() == 10\<close> of the doc test fails.
\<close>

theorem current_date_shape:
  assumes "valid_date (dt_year now) (dt_month now) (dt_day now)"
  shows "(length (current_date now) = 10 \<longleftrightarrow> 0 \<le> dt_year now \<and> dt_year now \<le> 9999) \<and>
         (take 7 (current_date now) = current_month now \<longleftrightarrow> 0 \<le> dt_year now \<and> dt_year now \<le> 9999)"
proof -
  have m: "length (pad_digits 2 (dt_month now)) = 2" and d: "length (pad_digits 2 (dt_day now)) = 2"
    using valid_date_bounds [OF assms] by (simp_all add: pad_digits_exact)
  have lm: "length (current_month now) = length (format_year (dt_year now)) + 3"
    using m by (simp add: current_month_def)
  then have ld: "length (current_date now) = length (format_year (dt_year now)) + 6"
    using d by (simp add: current_date_month)
  show ?thesis
  proof (cases "0 \<le> dt_year now \<and> dt_year now \<le> 9999")
    case True
    then have "length (current_month now) = 7" using lm by (simp add: format_year_length)
    then have "take 7 (current_date now) = current_month now" by (simp add: current_date_month)
    with True ld show ?thesis by (simp add: format_year_length)
  next
    case False
    then have "length (current_month now) \<ge> 8" using lm by (simp add: format_year_length)
    then have "length (take 7 (current_date now)) \<noteq> length (current_month now)" by simp
    then have "take 7 (current_date now) \<noteq> current_month now" by metis
    moreover have "length (current_date now) \<noteq> 10" using False ld by (simp add: format_year_length)
    ultimately show ?thesis using False by blast
  qed
qed

theorem current_date_shape_witness:
  "valid_date (dt_year example_now) (dt_month example_now) (dt_day example_now) \<and>
   current_date example_now = ''2025-08-05'' \<and> current_month example_now = ''2025-08'' \<and>
   valid_date (dt_year (example_now\<lparr>dt_year := 10000\<rparr>)) (dt_month example_now) (dt_day example_now) \<and>
   length (current_date (example_now\<lparr>dt_year := 10000\<rparr>)) \<noteq> 10"
proof -
  have v: "valid_date (dt_year example_now) (dt_month example_now) (dt_day example_now)"
    "valid_date (dt_year (example_now\<lparr>dt_year := 10000\<rparr>)) (dt_month (example_now\<lparr>dt_year := 10000\<rparr>))
       (dt_day (example_now\<lparr>dt_year := 10000\<rparr>))"
    by (simp_all add: example_now_def valid_date_def days_in_month_def)
  have "current_date example_now = ''2025-08-05'' \<and> current_month example_now = ''2025-08''"
    by (simp add: example_now_def current_date_def current_month_def format_year_def pad_digits_def
        digit_char_def)
  with current_date_shape [OF v(2)] v show ?thesis by (simp add: example_now_def)
qed

text \<open>
  The session duration on the timestamps Claude writes: the unit test's two entries an
  hour apart give 3600 seconds, offsets are honoured, and a transcript that starts before
  1970 and ends after it has no duration, since its start wrapped around to a huge value.
\<close>

theorem duration_of_iso_transcripts:
  "duration_of_lines stamped_line_parse parse_iso8601_to_unix
     [''2025-08-22T18:00:00.000Z'', ''2025-08-22T19:00:00.000Z''] = Some 3600 \<and>
   duration_of_lines stamped_line_parse parse_iso8601_to_unix
     [''2025-08-25T12:00:00+02:00'', ''2025-08-25T10:05:00Z''] = Some 300 \<and>
   duration_of_lines stamped_line_parse parse_iso8601_to_unix
     [''1969-12-31T23:59:59Z'', ''1970-01-01T00:00:01Z''] = None"
  by (simp add: duration_defs stamped_line_parse_def example_stamped_def timestamp_eval)

text \<open>The assertions of \<open>test_parse_iso8601_to_unix\<close>.\<close>

theorem parse_iso8601_unit_test:
  "the (parse_iso8601_to_unix ''2025-08-25T10:05:00.000Z'') -
     the (parse_iso8601_to_unix ''2025-08-25T10:00:00.000Z'') = 300 \<and>
   the (parse_iso8601_to_unix ''2025-08-25T11:00:00.000Z'') -
     the (parse_iso8601_to_unix ''2025-08-25T10:00:00.000Z'') = 3600 \<and>
   parse_iso8601_to_unix ''2025-08-25T10:00:00.123Z'' \<noteq> None \<and>
   parse_iso8601_to_unix ''2025-08-25 10:00:00'' = None \<and>
   parse_iso8601_to_unix ''2025-08-25T10:00:00'' \<noteq> None \<and>
   parse_iso8601_to_unix ''not a timestamp'' = None"
  by (simp add: timestamp_eval)

end
