(* ===== verification/Stats.thy ===== *)
theory Stats
  imports Prelude
begin

text \<open>
  The Stats Store. Its modules (\<open>stats.rs\<close>, \<open>database.rs\<close>) are not under \<open>src/\<close>, so
  the ledger is modelled from the specification (section 4.5): sessions keyed by id with
  their latest absolute cost and line counts and a token high-water mark, daily and
  monthly buckets updated by deltas with the set of contributing sessions, and the
  all-time totals. One call of \<open>update_session\<close> is one committed transaction; the
  SQLite engine, the JSON mirror and the retry wrapper are not part of this model.
  The invariant \<open>stats_inv\<close> is the specification's: the all-time total is the sum of
  the current session costs, the session count the number of distinct sessions, and
  (with no retention pruning) the buckets add up to the same totals.
\<close>

record session =
  start_time :: string
  last_updated :: string
  cost :: f64
  lines_added :: nat
  lines_removed :: nat
  max_tokens_seen :: usize

record period_stats =
  total_cost :: f64
  total_lines_added :: int
  total_lines_removed :: int
  period_sessions :: "string set"

record stats_data =
  sessions :: "string \<rightharpoonup> session"
  daily :: "string \<rightharpoonup> period_stats"
  monthly :: "string \<rightharpoonup> period_stats"
  all_time_total_cost :: f64
  all_time_sessions :: nat

definition empty_period :: period_stats where
  "empty_period = \<lparr>total_cost = 0, total_lines_added = 0, total_lines_removed = 0, period_sessions = {}\<rparr>"

definition empty_stats :: stats_data where
  "empty_stats = \<lparr>sessions = Map.empty, daily = Map.empty, monthly = Map.empty,
     all_time_total_cost = 0, all_time_sessions = 0\<rparr>"

definition apply_delta :: "period_stats option \<Rightarrow> string \<Rightarrow> f64 \<Rightarrow> int \<Rightarrow> int \<Rightarrow> period_stats" where
  "apply_delta bucket session_id cost_delta added_delta removed_delta =
     (let p = unwrap_or empty_period bucket
      in p\<lparr>total_cost := total_cost p + cost_delta,
           total_lines_added := total_lines_added p + added_delta,
           total_lines_removed := total_lines_removed p + removed_delta,
           period_sessions := insert session_id (period_sessions p)\<rparr>)"

text \<open>
  \<open>record(session_id, cost, lines_added, lines_removed, timestamp)\<close>, with the calendar
  date and month of the timestamp and the current token total (when known) as further
  arguments.
\<close>

definition update_session ::
  "stats_data \<Rightarrow> string \<Rightarrow> f64 \<Rightarrow> nat \<Rightarrow> nat \<Rightarrow> string \<Rightarrow> string \<Rightarrow> string \<Rightarrow> usize option \<Rightarrow> stats_data" where
  "update_session st session_id new_cost added removed now date month current_tokens =
     (let prev = sessions st session_id;
          prev_cost = (case prev of Some s \<Rightarrow> cost s | None \<Rightarrow> 0);
          prev_added = (case prev of Some s \<Rightarrow> lines_added s | None \<Rightarrow> 0);
          prev_removed = (case prev of Some s \<Rightarrow> lines_removed s | None \<Rightarrow> 0);
          prev_max = (case prev of Some s \<Rightarrow> max_tokens_seen s | None \<Rightarrow> 0);
          started = (case prev of Some s \<Rightarrow> start_time s | None \<Rightarrow> now);
          cost_delta = new_cost - prev_cost;
          added_delta = int added - int prev_added;
          removed_delta = int removed - int prev_removed;
          s' = \<lparr>start_time = started, last_updated = now, cost = new_cost, lines_added = added,
                lines_removed = removed, max_tokens_seen = max prev_max (unwrap_or 0 current_tokens)\<rparr>
      in \<lparr>sessions = (sessions st)(session_id \<mapsto> s'),
          daily = (daily st)(date \<mapsto> apply_delta (daily st date) session_id cost_delta added_delta removed_delta),
          monthly = (monthly st)(month \<mapsto> apply_delta (monthly st month) session_id cost_delta added_delta removed_delta),
          all_time_total_cost = all_time_total_cost st + cost_delta,
          all_time_sessions = all_time_sessions st + (if prev = None then 1 else 0)\<rparr>)"

text \<open>\<open>get_session_max_tokens\<close>: the high-water mark the Compaction Detector reads.\<close>

definition session_max_tokens :: "stats_data \<Rightarrow> string \<Rightarrow> usize option" where
  "session_max_tokens st session_id = map_option max_tokens_seen (sessions st session_id)"

definition buckets_consistent :: "(string \<rightharpoonup> period_stats) \<Rightarrow> (string \<rightharpoonup> session) \<Rightarrow> bool" where
  "buckets_consistent b ss \<longleftrightarrow>
     finite (dom b) \<and>
     map_sum b total_cost = map_sum ss cost \<and>
     map_sum b total_lines_added = map_sum ss (\<lambda>s. int (lines_added s)) \<and>
     map_sum b total_lines_removed = map_sum ss (\<lambda>s. int (lines_removed s)) \<and>
     (\<Union>p \<in> ran b. period_sessions p) \<subseteq> dom ss"

definition stats_inv :: "stats_data \<Rightarrow> bool" where
  "stats_inv st \<longleftrightarrow>
     finite (dom (sessions st)) \<and>
     all_time_sessions st = card (dom (sessions st)) \<and>
     all_time_total_cost st = map_sum (sessions st) cost \<and>
     buckets_consistent (daily st) (sessions st) \<and>
     buckets_consistent (monthly st) (sessions st)"

lemmas stats_defs [model_defs] = empty_period_def empty_stats_def apply_delta_def
  update_session_def session_max_tokens_def

subsection \<open>The ledger's invariant\<close>

lemma stats_inv_empty: "stats_inv empty_stats"
  by (simp add: stats_inv_def buckets_consistent_def empty_stats_def)

lemma apply_delta_fields:
  "total_cost (apply_delta b sid dc da dr) = (case b of None \<Rightarrow> 0 | Some p \<Rightarrow> total_cost p) + dc"
  "total_lines_added (apply_delta b sid dc da dr) = (case b of None \<Rightarrow> 0 | Some p \<Rightarrow> total_lines_added p) + da"
  "total_lines_removed (apply_delta b sid dc da dr) = (case b of None \<Rightarrow> 0 | Some p \<Rightarrow> total_lines_removed p) + dr"
  "period_sessions (apply_delta b sid dc da dr) = insert sid (case b of None \<Rightarrow> {} | Some p \<Rightarrow> period_sessions p)"
  by (simp_all add: apply_delta_def empty_period_def split: option.splits)

lemma ran_upd_subset: "ran (m(k \<mapsto> v)) \<subseteq> insert v (ran m)"
  by (auto simp: ran_def)

lemma buckets_consistent_step:
  assumes inv: "buckets_consistent b ss" and fin: "finite (dom ss)"
    and ss': "map_sum ss' cost = map_sum ss cost + dc"
       "map_sum ss' (\<lambda>s. int (lines_added s)) = map_sum ss (\<lambda>s. int (lines_added s)) + da"
       "map_sum ss' (\<lambda>s. int (lines_removed s)) = map_sum ss (\<lambda>s. int (lines_removed s)) + dr"
    and dom': "dom ss' = insert sid (dom ss)"
  shows "buckets_consistent (b(k \<mapsto> apply_delta (b k) sid dc da dr)) ss'"
proof -
  let ?b' = "b(k \<mapsto> apply_delta (b k) sid dc da dr)"
  from inv have finb: "finite (dom b)"
    and old: "map_sum b total_cost = map_sum ss cost"
      "map_sum b total_lines_added = map_sum ss (\<lambda>s. int (lines_added s))"
      "map_sum b total_lines_removed = map_sum ss (\<lambda>s. int (lines_removed s))"
    and sub: "\<And>q x. q \<in> ran b \<Longrightarrow> x \<in> period_sessions q \<Longrightarrow> x \<in> dom ss"
    unfolding buckets_consistent_def by auto
  have sums: "map_sum ?b' total_cost = map_sum b total_cost + dc"
    "map_sum ?b' total_lines_added = map_sum b total_lines_added + da"
    "map_sum ?b' total_lines_removed = map_sum b total_lines_removed + dr"
    using finb by (simp_all add: map_sum_upd apply_delta_fields split: option.splits)
  have "x \<in> dom ss'" if p: "p \<in> ran ?b'" "x \<in> period_sessions p" for p x
  proof -
    from subsetD [OF ran_upd_subset p(1)]
    have "p = apply_delta (b k) sid dc da dr \<or> p \<in> ran b" by simp
    then show ?thesis
    proof
      assume "p = apply_delta (b k) sid dc da dr"
      with p(2) have "x = sid \<or> (\<exists>q. b k = Some q \<and> x \<in> period_sessions q)"
        by (simp add: apply_delta_fields split: option.splits)
      then show ?thesis
      proof
        assume "x = sid"
        with dom' show ?thesis by simp
      next
        assume "\<exists>q. b k = Some q \<and> x \<in> period_sessions q"
        then obtain q where "b k = Some q" "x \<in> period_sessions q" by blast
        with sub [of q x] ranI [of b k q] dom' show ?thesis by simp
      qed
    next
      assume "p \<in> ran b"
      with p(2) sub dom' show ?thesis by simp
    qed
  qed
  then have "(\<Union>p \<in> ran ?b'. period_sessions p) \<subseteq> dom ss'" by blast
  moreover have "finite (dom ?b')" using finb by simp
  ultimately show ?thesis
    unfolding buckets_consistent_def using sums old ss' by simp
qed

lemma update_session_preserves_inv:
  assumes "stats_inv st"
  shows "stats_inv (update_session st sid c added removed now date month tokens)"
proof -
  let ?ss = "sessions st"
  let ?prev = "?ss sid"
  let ?pc = "case ?prev of Some s \<Rightarrow> cost s | None \<Rightarrow> 0"
  let ?pa = "case ?prev of Some s \<Rightarrow> lines_added s | None \<Rightarrow> 0"
  let ?pr = "case ?prev of Some s \<Rightarrow> lines_removed s | None \<Rightarrow> 0"
  define s' where "s' = \<lparr>start_time = (case ?prev of Some s \<Rightarrow> start_time s | None \<Rightarrow> now),
      last_updated = now, cost = c, lines_added = added, lines_removed = removed,
      max_tokens_seen = max (case ?prev of Some s \<Rightarrow> max_tokens_seen s | None \<Rightarrow> 0) (unwrap_or 0 tokens)\<rparr>"
  from assms have fin: "finite (dom ?ss)" by (simp add: stats_inv_def)
  have cost_sum: "map_sum (?ss(sid \<mapsto> s')) cost = map_sum ?ss cost + (c - ?pc)"
    using fin by (simp add: map_sum_upd s'_def split: option.splits)
  have added_sum: "map_sum (?ss(sid \<mapsto> s')) (\<lambda>s. int (lines_added s)) =
      map_sum ?ss (\<lambda>s. int (lines_added s)) + (int added - int ?pa)"
    using fin by (simp add: map_sum_upd s'_def split: option.splits)
  have removed_sum: "map_sum (?ss(sid \<mapsto> s')) (\<lambda>s. int (lines_removed s)) =
      map_sum ?ss (\<lambda>s. int (lines_removed s)) + (int removed - int ?pr)"
    using fin by (simp add: map_sum_upd s'_def split: option.splits)
  have dom': "dom (?ss(sid \<mapsto> s')) = insert sid (dom ?ss)" by simp
  have card': "card (dom (?ss(sid \<mapsto> s'))) = card (dom ?ss) + (if ?prev = None then 1 else 0)"
    using fin by (auto simp: card_insert_if)
  have daily': "buckets_consistent ((daily st)(date \<mapsto> apply_delta (daily st date) sid (c - ?pc)
      (int added - int ?pa) (int removed - int ?pr))) (?ss(sid \<mapsto> s'))"
    using assms fin cost_sum added_sum removed_sum dom'
    by (intro buckets_consistent_step) (simp_all add: stats_inv_def)
  have monthly': "buckets_consistent ((monthly st)(month \<mapsto> apply_delta (monthly st month) sid (c - ?pc)
      (int added - int ?pa) (int removed - int ?pr))) (?ss(sid \<mapsto> s'))"
    using assms fin cost_sum added_sum removed_sum dom'
    by (intro buckets_consistent_step) (simp_all add: stats_inv_def)
  show ?thesis
    using assms fin cost_sum card' daily' monthly'
    by (simp add: update_session_def Let_def stats_inv_def s'_def)
qed

lemma update_session_max_tokens_mono:
  "sessions st sid = Some s \<Longrightarrow>
   sessions (update_session st sid c added removed now date month tokens) sid = Some s' \<Longrightarrow>
   max_tokens_seen s \<le> max_tokens_seen s'"
  by (auto simp: update_session_def Let_def)

lemma update_session_session:
  "sessions (update_session st sid c added removed now date month tokens) sid =
     Some \<lparr>start_time = (case sessions st sid of Some s \<Rightarrow> start_time s | None \<Rightarrow> now),
       last_updated = now, cost = c, lines_added = added, lines_removed = removed,
       max_tokens_seen = max (case sessions st sid of Some s \<Rightarrow> max_tokens_seen s | None \<Rightarrow> 0)
                             (unwrap_or 0 tokens)\<rparr>"
  by (simp add: update_session_def Let_def)

lemma update_session_other:
  "sid' \<noteq> sid \<Longrightarrow> sessions (update_session st sid c added removed now date month tokens) sid' = sessions st sid'"
  by (simp add: update_session_def Let_def)

end
