(* ===== verification/Retry.thy ===== *)
theory Retry
  imports Stats Paths Config
begin

text \<open>
  The retry wrapper of the Stats Store (\<open>retry.rs\<close>, not under \<open>src/\<close>), from the
  specification: each I/O attempt of a category (file, database, git, network) is
  retried with exponential backoff under that category's \<open>RetrySettings\<close> of
  \<open>src/src/config.rs\<close>; retries are silent up to \<open>max_attempts\<close>, after which the last
  error is surfaced. An operation is the sequence of its attempts' outcomes
  (\<open>nat \<Rightarrow> 'e + 'a\<close>, attempt \<open>i\<close> counted from 0), so that a lock released between two
  attempts is a later \<open>Inr\<close>. The wait before retry \<open>k + 1\<close> is
  \<open>min (initial_delay \<cdot> factor^k) max_delay\<close> milliseconds; at least one attempt is made
  even when \<open>max_attempts\<close> is 0. The loop spends one attempt per call, so it is
  structural recursion on the attempts left and needs no fuel beyond \<open>max_attempts\<close>.
\<close>

definition retry_delay :: "retry_settings \<Rightarrow> nat \<Rightarrow> real" where
  "retry_delay s k = min (real (initial_delay_ms s) * backoff_factor s ^ k) (real (max_delay_ms s))"

definition attempt_budget :: "retry_settings \<Rightarrow> nat" where
  "attempt_budget s = max 1 (max_attempts s)"

text \<open>Attempt \<open>attempt\<close> with \<open>left\<close> further attempts allowed: the outcome and the waits
  slept before each retry.\<close>

fun retry_loop :: "retry_settings \<Rightarrow> nat \<Rightarrow> nat \<Rightarrow> (nat \<Rightarrow> 'e + 'a) \<Rightarrow> ('e + 'a) \<times> real list" where
  "retry_loop s attempt 0 op = (op attempt, [])"
| "retry_loop s attempt (Suc left) op =
     (case op attempt of
        Inr v \<Rightarrow> (Inr v, [])
      | Inl e \<Rightarrow> (let (r, waits) = retry_loop s (Suc attempt) left op in (r, retry_delay s attempt # waits)))"

definition with_retry :: "retry_settings \<Rightarrow> (nat \<Rightarrow> 'e + 'a) \<Rightarrow> ('e + 'a) \<times> real list" where
  "with_retry s op = retry_loop s 0 (attempt_budget s - 1) op"

text \<open>The contract of the wrapper: the outcome of the first attempt that succeeds among the
  budget, or the last attempt's error when none does.\<close>

definition first_outcome :: "nat \<Rightarrow> (nat \<Rightarrow> 'e + 'a) \<Rightarrow> 'e + 'a" where
  "first_outcome n op = (case find (\<lambda>r. \<not> isl r) (map op [0..<n]) of Some r \<Rightarrow> r | None \<Rightarrow> op (n - 1))"

subsection \<open>A retried transaction of the Stats Store\<close>

text \<open>
  \<open>record\<close> as one transaction per attempt: attempt \<open>i\<close> commits when the database is
  available then (\<open>db_available i\<close>), otherwise it fails with a lock error and changes
  nothing. After the retries the caller keeps the committed ledger, or the old one with
  the error (the status line is still rendered).
\<close>

definition record_attempt ::
  "(nat \<Rightarrow> bool) \<Rightarrow> stats_data \<Rightarrow> string \<Rightarrow> f64 \<Rightarrow> nat \<Rightarrow> nat \<Rightarrow> string \<Rightarrow> string \<Rightarrow> string \<Rightarrow>
   usize option \<Rightarrow> nat \<Rightarrow> statusline_error + stats_data" where
  "record_attempt db_available st sid c added removed now date month tokens i =
     (if db_available i then Inr (update_session st sid c added removed now date month tokens)
      else Inl (DatabaseError ''database is locked''))"

definition record_with_retry ::
  "retry_settings \<Rightarrow> (nat \<Rightarrow> bool) \<Rightarrow> stats_data \<Rightarrow> string \<Rightarrow> f64 \<Rightarrow> nat \<Rightarrow> nat \<Rightarrow> string \<Rightarrow>
   string \<Rightarrow> string \<Rightarrow> usize option \<Rightarrow> (statusline_error + unit) \<times> stats_data" where
  "record_with_retry s db_available st sid c added removed now date month tokens =
     (case fst (with_retry s (record_attempt db_available st sid c added removed now date month tokens)) of
        Inr st' \<Rightarrow> (Inr (), st')
      | Inl e \<Rightarrow> (Inl e, st))"

subsection \<open>The retry loop against its contract\<close>

lemma retry_loop_Suc_fst:
  "fst (retry_loop s a (Suc left) op) = (case op a of Inr v \<Rightarrow> Inr v | Inl e \<Rightarrow> fst (retry_loop s (Suc a) left op))"
  by (cases "op a") (simp_all add: case_prod_unfold Let_def)

lemma retry_loop_Suc_snd:
  "snd (retry_loop s a (Suc left) op) = (case op a of Inr v \<Rightarrow> [] | Inl e \<Rightarrow> retry_delay s a # snd (retry_loop s (Suc a) left op))"
  by (cases "op a") (simp_all add: case_prod_unfold Let_def)

lemma retry_loop_outcome:
  "fst (retry_loop s a left op) =
     (case find (\<lambda>r. \<not> isl r) (map op [a..<Suc (a + left)]) of Some r \<Rightarrow> r | None \<Rightarrow> op (a + left))"
proof (induction left arbitrary: a)
  case 0
  then show ?case by (cases "op a") auto
next
  case (Suc left)
  have u: "[a..<Suc (Suc (a + left))] = a # [Suc a..<Suc (Suc (a + left))]"
    by (simp add: upt_conv_Cons del: upt_Suc)
  show ?case
    using Suc.IH [of "Suc a"] by (cases "op a") (simp_all add: u retry_loop_Suc_fst del: upt_Suc retry_loop.simps split: option.split)
qed

lemma retry_loop_waits:
  "length (snd (retry_loop s a left op)) \<le> left \<and>
   (\<forall>w \<in> set (snd (retry_loop s a left op)). w \<le> real (max_delay_ms s))"
proof (induction left arbitrary: a)
  case 0
  then show ?case by simp
next
  case (Suc left)
  then show ?case
    by (cases "op a") (auto simp: retry_loop_Suc_snd retry_delay_def simp del: retry_loop.simps)
qed

text \<open>C32. The retry wrapper refines its contract: its outcome is that of the first attempt within
  the budget that succeeds, or the last attempt's error when all fail.\<close>

theorem with_retry_first_success:
  "fst (with_retry s op) = first_outcome (attempt_budget s) op"
proof -
  have "0 < attempt_budget s" by (simp add: attempt_budget_def)
  then have "Suc (attempt_budget s - 1) = attempt_budget s" by simp
  then show ?thesis
    by (simp add: with_retry_def retry_loop_outcome first_outcome_def del: upt_Suc split: option.split)
qed

text \<open>C33. The wrapper sleeps fewer times than it attempts, each wait is at most \<open>max_delay_ms\<close>,
  and the total wait is at most \<open>(attempts - 1) * max_delay_ms\<close>.\<close>

theorem with_retry_bounds:
  "length (snd (with_retry s op)) < attempt_budget s \<and>
   (\<forall>w \<in> set (snd (with_retry s op)). w \<le> real (max_delay_ms s)) \<and>
   sum_list (snd (with_retry s op)) \<le> real (attempt_budget s - 1) * real (max_delay_ms s)"
proof -
  let ?ws = "snd (with_retry s op)"
  have b: "0 < attempt_budget s" by (simp add: attempt_budget_def)
  have l: "length ?ws \<le> attempt_budget s - 1" and w: "\<forall>w \<in> set ?ws. w \<le> real (max_delay_ms s)"
    using retry_loop_waits [of s 0 "attempt_budget s - 1" op] by (simp_all add: with_retry_def)
  have "sum_list ?ws \<le> sum_list (map (\<lambda>_. real (max_delay_ms s)) ?ws)"
    using w sum_list_mono [of ?ws "\<lambda>w. w" "\<lambda>_. real (max_delay_ms s)"] by simp
  also have "\<dots> = real (length ?ws) * real (max_delay_ms s)"
    by (simp add: sum_list_triv)
  also have "\<dots> \<le> real (attempt_budget s - 1) * real (max_delay_ms s)"
    using l by (intro mult_right_mono) simp_all
  finally show ?thesis using l w b by linarith
qed

lemma find_record_attempt:
  "find (\<lambda>r. \<not> isl r) (map (record_attempt avail st sid c a r now d m t) [0..<n]) =
     (if \<exists>i<n. avail i then Some (Inr (update_session st sid c a r now d m t)) else None)"
proof (cases "\<exists>i<n. avail i")
  case True
  then obtain x where "find (\<lambda>r. \<not> isl r) (map (record_attempt avail st sid c a r now d m t) [0..<n]) = Some x"
    by (fastforce simp: find_None_iff record_attempt_def)
  moreover from this have "x = Inr (update_session st sid c a r now d m t)"
    by (auto simp: find_Some_iff record_attempt_def split: if_splits)
  ultimately show ?thesis using True by simp
next
  case False
  then show ?thesis by (auto simp: find_None_iff record_attempt_def)
qed

text \<open>A retried \<open>record\<close> commits exactly one update when some attempt within the budget
  finds the database available, and otherwise returns the lock error with the ledger
  unchanged; either way the ledger's invariant is kept.\<close>

theorem record_with_retry_atomic:
  assumes "stats_inv st"
  shows "record_with_retry s avail st sid c a r now d m t =
           (if \<exists>i<attempt_budget s. avail i then (Inr (), update_session st sid c a r now d m t)
            else (Inl (DatabaseError ''database is locked''), st)) \<and>
         stats_inv (snd (record_with_retry s avail st sid c a r now d m t))"
proof -
  have b: "0 < attempt_budget s" by (simp add: attempt_budget_def)
  have "record_with_retry s avail st sid c a r now d m t =
           (if \<exists>i<attempt_budget s. avail i then (Inr (), update_session st sid c a r now d m t)
            else (Inl (DatabaseError ''database is locked''), st))"
    using b by (auto simp: record_with_retry_def with_retry_def retry_loop_outcome
        find_record_attempt record_attempt_def)
  then show ?thesis using assms update_session_preserves_inv by simp
qed

theorem record_with_retry_atomic_witness:
  "record_with_retry default_retry_settings (\<lambda>i. i = 2) empty_stats ''s1'' 1 5 2 ''t'' ''d'' ''m'' None =
     (Inr (), update_session empty_stats ''s1'' 1 5 2 ''t'' ''d'' ''m'' None) \<and>
   record_with_retry default_retry_settings (\<lambda>i. i = 3) empty_stats ''s1'' 1 5 2 ''t'' ''d'' ''m'' None =
     (Inl (DatabaseError ''database is locked''), empty_stats)"
  using record_with_retry_atomic [OF stats_inv_empty, of default_retry_settings "\<lambda>i. i = 2"]
    record_with_retry_atomic [OF stats_inv_empty, of default_retry_settings "\<lambda>i. i = 3"]
  by (simp add: attempt_budget_def default_retry_settings_def)

lemma with_retry_default_run:
  "fst (with_retry default_retry_settings (\<lambda>i. if i < 2 then Inl ''busy'' else Inr i)) = (Inr 2 :: string + nat) \<and>
   snd (with_retry default_retry_settings (\<lambda>i. if i < 2 then Inl ''busy'' else Inr i)) = [100, 200]"
  by (simp add: with_retry_def attempt_budget_def default_retry_settings_def retry_delay_def numeral_eq_Suc)

theorem with_retry_bounds_witness:
  "length (snd (with_retry default_retry_settings (\<lambda>i. Inl i :: nat + unit))) < 3 \<and>
   sum_list (snd (with_retry default_retry_settings (\<lambda>i. Inl i :: nat + unit))) \<le> 10000"
  using with_retry_bounds [of default_retry_settings "\<lambda>i. Inl i :: nat + unit"]
  by (simp add: attempt_budget_def default_retry_settings_def)

end
