(* ===== verification/UnixPath.thy ===== *)
theory UnixPath
  imports Prelude
begin

text \<open>
  \<open>Path::parent\<close> on Unix, from the standard library's documentation: the parent of a
  path is its prefix before the last component; trailing separators are ignored, the
  root and the empty path have none, and a relative path of one component has the
  empty parent. Each parent is shorter than its path, which bounds the walks up the
  directory tree of \<open>ConfigSave\<close>.
\<close>

definition strip_trailing_slashes :: "string \<Rightarrow> string" where
  "strip_trailing_slashes p = rev (dropWhile (\<lambda>c. c = CHR ''/'') (rev p))"

definition path_parent :: "string \<Rightarrow> string option" where
  "path_parent p =
     (let q = strip_trailing_slashes p in
      if q = [] then None
      else if CHR ''/'' \<notin> set q then Some []
      else (let pre = strip_trailing_slashes (rev (dropWhile (\<lambda>c. c \<noteq> CHR ''/'') (rev q)))
            in if pre = [] then Some ''/'' else Some pre))"

lemma strip_trailing_slashes_length: "length (strip_trailing_slashes p) \<le> length p"
  by (metis strip_trailing_slashes_def length_dropWhile_le length_rev)

lemma strip_trailing_slashes_last:
  "strip_trailing_slashes p \<noteq> [] \<Longrightarrow> last (strip_trailing_slashes p) \<noteq> CHR ''/''"
  unfolding strip_trailing_slashes_def
  using hd_dropWhile [of "\<lambda>c. c = CHR ''/''" "rev p"] by (simp add: last_rev)

lemma path_parent_shorter:
  assumes "path_parent p = Some q" and "q \<noteq> []"
  shows "length q < length p"
proof -
  let ?q = "strip_trailing_slashes p"
  have ne: "?q \<noteq> []"
  proof
    assume "?q = []"
    then have "path_parent p = None" by (simp add: path_parent_def)
    with assms show False by simp
  qed
  have sl: "CHR ''/'' \<in> set ?q"
  proof (rule ccontr)
    assume "CHR ''/'' \<notin> set ?q"
    then have "path_parent p = Some []" using ne by (simp add: path_parent_def)
    with assms show False by simp
  qed
  obtain c r where cr: "rev ?q = c # r"
    using ne by (cases "rev ?q") auto
  have c: "c \<noteq> CHR ''/''"
    using cr hd_rev [of ?q] strip_trailing_slashes_last [OF ne] by simp
  have q: "?q = rev r @ [c]"
    using cr by (metis rev.simps(2) rev_rev_ident)
  have "r \<noteq> []"
  proof
    assume "r = []"
    then have "set ?q = {c}" using q by simp
    then show False using sl c by simp
  qed
  then have two: "1 < length ?q" using q by (simp add: Suc_lessI)
  let ?pre = "rev (dropWhile (\<lambda>c. c \<noteq> CHR ''/'') (rev ?q))"
  have "length ?pre \<le> length r"
    using cr c by (simp add: length_dropWhile_le)
  then have short: "length ?pre < length ?q"
    using q by simp
  have l1: "length (strip_trailing_slashes ?pre) < length p"
    using short strip_trailing_slashes_length [of ?pre] strip_trailing_slashes_length [of p]
    by linarith
  have l2: "length ''/'' < length p"
    using two strip_trailing_slashes_length [of p] by simp
  have "q = strip_trailing_slashes ?pre \<or> q = ''/''"
    using assms ne sl unfolding path_parent_def Let_def by (simp split: if_splits)
  then show ?thesis
    using l1 l2 by (elim disjE) simp_all
qed

end
