(* ===== verification/ConfigSave.thy ===== *)
theory ConfigSave
  imports UnixPath Environment
begin

text \<open>
  \<open>Config::save\<close> (\<open>src/src/config.rs\<close>): serialise the configuration with
  \<open>toml::to_string_pretty\<close>, create the parent directory with \<open>fs::create_dir_all\<close>, write
  the file with \<open>fs::write\<close>, each failure a \<open>StatuslineError::Config\<close>. The file system
  is a \<open>store\<close> of regular files (path to contents) and directories; the TOML printer is
  library code and enters as an argument, like the parser of \<open>Environment\<close>.
  \<open>Path::parent\<close>, \<open>create_dir_all\<close> and \<open>fs::write\<close> follow the documented behaviour of
  the standard library on Unix: the parent of a path is its prefix before the last
  component (trailing and repeated separators ignored, the root has none, a relative
  single component has the empty parent), \<open>create_dir_all\<close> creates every missing
  ancestor and fails when one of them is a file, and \<open>fs::write\<close> is \<open>File::create\<close>
  (create or truncate a file in an existing directory) followed by \<open>write_all\<close>. The
  store counts its free bytes; \<open>write_all\<close> writes as much of the text as fits and then
  fails with \<open>ENOSPC\<close>, leaving the prefix it wrote in the truncated file, as the
  standard library does (no rollback). Permission errors are not modelled. A store is
  read back through a \<open>host\<close> whose \<open>read_to_string\<close> and \<open>path_exists\<close> are the
  store's.
\<close>

type_synonym toml_printer = "config \<Rightarrow> string option"

record store =
  st_files :: "string \<rightharpoonup> string"
  st_dirs :: "string list"
  st_free :: nat

definition is_dir :: "store \<Rightarrow> string \<Rightarrow> bool" where
  "is_dir s d \<longleftrightarrow> d = ''/'' \<or> d \<in> set (st_dirs s)"

text \<open>The directories \<open>create_dir_all\<close> walks through: the path and its ancestors, up to the
  root or the empty parent of a relative path.\<close>

function dir_chain :: "string \<Rightarrow> string list" where
  "dir_chain d =
     d # (case path_parent d of
            Some q \<Rightarrow> if q = [] then [] else dir_chain q
          | None \<Rightarrow> [])"
  by pat_completeness auto
termination
  by (relation "measure length") (auto dest: path_parent_shorter)

declare dir_chain.simps [simp del]

text \<open>\<open>fs::create_dir_all\<close>: nothing to do for the empty path; an ancestor that is a regular
  file makes it fail (\<open>NotADirectory\<close> or \<open>AlreadyExists\<close>); otherwise every missing
  ancestor becomes a directory.\<close>

definition create_dir_all :: "store \<Rightarrow> string \<Rightarrow> string + store" where
  "create_dir_all s d =
     (if d = [] then Inr s
      else if list_ex (\<lambda>x. st_files s x \<noteq> None) (dir_chain d) then Inl ''File exists''
      else Inr (s\<lparr>st_dirs := remdups (dir_chain d @ st_dirs s)\<rparr>))"

text \<open>\<open>fs::write\<close>: \<open>File::create\<close> fails on a directory, on a missing or non-directory
  parent and on a path without a file name; otherwise it truncates the file (its old
  bytes become free) and \<open>write_all\<close> writes the text, or as much of it as the free
  space allows before failing.\<close>

definition write_file :: "store \<Rightarrow> string \<Rightarrow> string \<Rightarrow> (string + unit) \<times> store" where
  "write_file s path file_contents =
     (if is_dir s path then (Inl ''Is a directory'', s)
      else (case path_parent path of
              None \<Rightarrow> (Inl ''No such file or directory'', s)
            | Some d \<Rightarrow>
                if d = [] \<or> is_dir s d
                then (let avail = st_free s + (case st_files s path of Some old \<Rightarrow> length old | None \<Rightarrow> 0)
                      in if length file_contents \<le> avail
                         then (Inr (), s\<lparr>st_files := (st_files s)(path \<mapsto> file_contents),
                                         st_free := avail - length file_contents\<rparr>)
                         else (Inl ''No space left on device'',
                               s\<lparr>st_files := (st_files s)(path \<mapsto> take avail file_contents), st_free := 0\<rparr>))
                else (Inl ''No such file or directory'', s)))"

definition save :: "toml_printer \<Rightarrow> config \<Rightarrow> string \<Rightarrow> store \<Rightarrow> (statusline_error + unit) \<times> store" where
  "save to_string_pretty config path s =
     (case to_string_pretty config of
        None \<Rightarrow> (Inl (ConfigError ''Failed to serialize config''), s)
      | Some toml_string \<Rightarrow>
          (case (case path_parent path of Some parent \<Rightarrow> create_dir_all s parent | None \<Rightarrow> Inr s) of
             Inl _ \<Rightarrow> (Inl (ConfigError ''Failed to create config directory''), s)
           | Inr s' \<Rightarrow>
               (case write_file s' path toml_string of
                  (r, s'') \<Rightarrow>
                    (case r of
                       Inl _ \<Rightarrow> (Inl (ConfigError ''Failed to write config file''), s'')
                     | Inr _ \<Rightarrow> (Inr (), s'')))))"

text \<open>The host that sees a store: \<open>Path::exists\<close> for its files and directories,
  \<open>fs::read_to_string\<close> for its files.\<close>

definition store_host :: "host \<Rightarrow> store \<Rightarrow> host" where
  "store_host h s =
     h\<lparr>path_exists := (\<lambda>p. is_dir s p \<or> st_files s p \<noteq> None), read_to_string := st_files s\<rparr>"

subsection \<open>Save and load\<close>

lemma dir_chain_set:
  "set (dir_chain d) =
     insert d (case path_parent d of Some q \<Rightarrow> if q = [] then {} else set (dir_chain q) | None \<Rightarrow> {})"
  by (cases "path_parent d") (simp_all add: dir_chain.simps [of d])

lemma dir_chain_head: "d \<in> set (dir_chain d)"
  by (simp add: dir_chain_set)

lemma dir_chain_shorter: "x \<in> set (dir_chain d) \<Longrightarrow> length x \<le> length d"
proof (induction d rule: dir_chain.induct)
  case (1 d)
  show ?case
  proof (cases "x = d")
    case False
    then obtain q where q: "path_parent d = Some q" "q \<noteq> []" "x \<in> set (dir_chain q)"
      using "1.prems" unfolding dir_chain_set [of d] by (auto split: option.splits if_splits)
    then show ?thesis
      using "1.IH" [OF q(1) q(2)] path_parent_shorter [OF q(1) q(2)] by fastforce
  qed simp
qed

lemma create_dir_all_effect:
  "create_dir_all s d = Inr s' \<Longrightarrow>
   st_files s' = st_files s \<and> set (st_dirs s') = set (st_dirs s) \<union> (if d = [] then {} else set (dir_chain d))"
  by (auto simp: create_dir_all_def split: if_splits)

lemma create_dir_all_free: "create_dir_all s d = Inr s' \<Longrightarrow> st_free s' = st_free s"
  by (auto simp: create_dir_all_def split: if_splits)

lemma write_file_effect:
  "write_file s path c = (r, s') \<Longrightarrow>
   st_dirs s' = st_dirs s \<and> (\<forall>q. q \<noteq> path \<longrightarrow> st_files s' q = st_files s q) \<and>
   (r = Inr () \<longrightarrow> st_files s' path = Some c)"
  by (auto simp: write_file_def Let_def split: if_splits option.splits)

lemma write_file_opened:
  assumes "\<not> is_dir s path" and "path_parent path = Some d" and "d = [] \<or> is_dir s d"
  shows "write_file s path c =
           (let avail = st_free s + (case st_files s path of Some old \<Rightarrow> length old | None \<Rightarrow> 0)
            in if length c \<le> avail
               then (Inr (), s\<lparr>st_files := (st_files s)(path \<mapsto> c), st_free := avail - length c\<rparr>)
               else (Inl ''No space left on device'',
                     s\<lparr>st_files := (st_files s)(path \<mapsto> take avail c), st_free := 0\<rparr>))"
  using assms by (auto simp: write_file_def)

text \<open>The preparation of a save that reaches \<open>fs::write\<close>: when no ancestor of the target is
  a file, \<open>create_dir_all\<close> succeeds, the target stays a non-directory, and its parent is
  a directory afterwards.\<close>

lemma save_reaches_write:
  assumes parent: "path_parent path = Some d" and not_dir: "\<not> is_dir s path"
    and no_file: "\<not> list_ex (\<lambda>x. st_files s x \<noteq> None) (dir_chain d)"
  obtains s' where "create_dir_all s d = Inr s'" "\<not> is_dir s' path" "d = [] \<or> is_dir s' d"
    "st_files s' = st_files s" "st_free s' = st_free s"
proof -
  obtain s' where c: "create_dir_all s d = Inr s'"
    using no_file by (cases "d = []") (simp_all add: create_dir_all_def)
  have "\<not> is_dir s' path"
  proof (cases "d = []")
    case False
    have "path \<notin> set (dir_chain d)"
      using dir_chain_shorter path_parent_shorter [OF parent False] by fastforce
    then show ?thesis
      using not_dir create_dir_all_effect [OF c] False by (simp add: is_dir_def)
  qed (use not_dir c in \<open>simp add: create_dir_all_def\<close>)
  moreover have "d = [] \<or> is_dir s' d"
    using create_dir_all_effect [OF c] dir_chain_head [of d] by (auto simp: is_dir_def)
  ultimately show ?thesis
    using that c create_dir_all_effect [OF c] create_dir_all_free [OF c] by blast
qed

text \<open>C35. Saving changes no file but the target and removes no directory; when it fails
  before writing (serialisation, directory creation) it changes nothing at all.\<close>

theorem save_frame:
  "(\<forall>q. q \<noteq> path \<longrightarrow> st_files (snd (save pr config path s)) q = st_files s q) \<and>
   set (st_dirs s) \<subseteq> set (st_dirs (snd (save pr config path s))) \<and>
   (fst (save pr config path s) = Inl (ConfigError ''Failed to serialize config'') \<or>
    fst (save pr config path s) = Inl (ConfigError ''Failed to create config directory'') \<longrightarrow>
      snd (save pr config path s) = s)"
  by (auto simp: save_def dest!: create_dir_all_effect write_file_effect
      split: option.splits sum.splits prod.splits)

text \<open>C36. A failed write destroys the old configuration: when the new text does not fit, \<open>save\<close>
  reports the write error and the config file holds only the prefix of the new text
  that was written, not its previous contents.\<close>

theorem save_write_failure_truncates:
  assumes pr: "pr config = Some text"
    and parent: "path_parent path = Some d" and not_dir: "\<not> is_dir s path"
    and no_file: "\<not> list_ex (\<lambda>x. st_files s x \<noteq> None) (dir_chain d)"
    and old: "st_files s path = Some old_text" and full: "st_free s + length old_text < length text"
  shows "fst (save pr config path s) = Inl (ConfigError ''Failed to write config file'') \<and>
         st_files (snd (save pr config path s)) path = Some (take (st_free s + length old_text) text)"
proof -
  obtain s' where c: "create_dir_all s d = Inr s'" and w: "\<not> is_dir s' path" "d = [] \<or> is_dir s' d"
    and f: "st_files s' = st_files s" "st_free s' = st_free s"
    using save_reaches_write [OF parent not_dir no_file] by blast
  show ?thesis
    using pr parent c write_file_opened [OF w(1) parent w(2)] f old full by (simp add: save_def)
qed

text \<open>C34. When the TOML printer and parser are inverse on the configuration, the target is not a
  directory, no ancestor of it is a regular file and the new text fits in the free space
  (counting the bytes of the file it replaces), \<open>save\<close> succeeds and \<open>load_from_file\<close>
  reads the same configuration back from the saved store.\<close>

theorem save_load_roundtrip:
  assumes pr: "pr config = Some text" and parse: "parse_toml text = Some config"
    and parent: "path_parent path = Some d" and not_dir: "\<not> is_dir s path"
    and no_file: "\<not> list_ex (\<lambda>x. st_files s x \<noteq> None) (dir_chain d)"
    and fits: "length text \<le> st_free s + (case st_files s path of Some old \<Rightarrow> length old | None \<Rightarrow> 0)"
  shows "fst (save pr config path s) = Inr () \<and>
         load_from_file (store_host h (snd (save pr config path s))) parse_toml path = Inr config"
proof -
  obtain s' where c: "create_dir_all s d = Inr s'" and w: "\<not> is_dir s' path" "d = [] \<or> is_dir s' d"
    and f: "st_files s' = st_files s" "st_free s' = st_free s"
    using save_reaches_write [OF parent not_dir no_file] by blast
  show ?thesis
    using pr parse parent c write_file_opened [OF w(1) parent w(2)] f fits
    by (simp add: save_def load_from_file_def store_host_def)
qed

text \<open>A first save into an empty store with room for the text: the directory chain of
  \<open>/c/config.toml\<close> is created and the file read back.\<close>

theorem save_load_roundtrip_witness:
  "fst (save (\<lambda>c. Some ''[display]'') default_config ''/c/config.toml''
      \<lparr>st_files = Map.empty, st_dirs = [], st_free = 100\<rparr>) = Inr () \<and>
   load_from_file (store_host example_host
       (snd (save (\<lambda>c. Some ''[display]'') default_config ''/c/config.toml''
          \<lparr>st_files = Map.empty, st_dirs = [], st_free = 100\<rparr>)))
     defaults_toml ''/c/config.toml'' = Inr default_config"
  using save_load_roundtrip [of "\<lambda>c. Some ''[display]''" default_config "''[display]''" defaults_toml
      "''/c/config.toml''" "''/c''" "\<lparr>st_files = Map.empty, st_dirs = [], st_free = 100\<rparr>" example_host]
  by (simp add: defaults_toml_def path_parent_def strip_trailing_slashes_def is_dir_def list_ex_iff)

theorem save_frame_witness:
  "st_files (snd (save (\<lambda>c. Some ''[display]'') default_config ''/c/config.toml''
      \<lparr>st_files = [''/c/old'' \<mapsto> ''x''], st_dirs = [''/c''], st_free = 100\<rparr>)) ''/c/old'' = Some ''x'' \<and>
   snd (save (\<lambda>c. None) default_config ''/c/config.toml''
      \<lparr>st_files = [''/c/old'' \<mapsto> ''x''], st_dirs = [''/c''], st_free = 100\<rparr>) =
      \<lparr>st_files = [''/c/old'' \<mapsto> ''x''], st_dirs = [''/c''], st_free = 100\<rparr>"
  using save_frame [of "''/c/config.toml''" "\<lambda>c. Some ''[display]''" default_config
      "\<lparr>st_files = [''/c/old'' \<mapsto> ''x''], st_dirs = [''/c''], st_free = 100\<rparr>"]
    save_frame [of "''/c/config.toml''" "\<lambda>c. None" default_config
      "\<lparr>st_files = [''/c/old'' \<mapsto> ''x''], st_dirs = [''/c''], st_free = 100\<rparr>"]
  by (simp add: save_def)

theorem save_write_failure_truncates_witness:
  "fst (save (\<lambda>c. Some ''[display]'') default_config ''/c/config.toml''
      \<lparr>st_files = [''/c/config.toml'' \<mapsto> ''ab''], st_dirs = [''/c''], st_free = 3\<rparr>) =
     Inl (ConfigError ''Failed to write config file'') \<and>
   st_files (snd (save (\<lambda>c. Some ''[display]'') default_config ''/c/config.toml''
      \<lparr>st_files = [''/c/config.toml'' \<mapsto> ''ab''], st_dirs = [''/c''], st_free = 3\<rparr>)) ''/c/config.toml'' =
     Some ''[disp''"
  using save_write_failure_truncates [of "\<lambda>c. Some ''[display]''" default_config "''[display]''"
      "''/c/config.toml''" "''/c''" "\<lparr>st_files = [''/c/config.toml'' \<mapsto> ''ab''], st_dirs = [''/c''], st_free = 3\<rparr>"
      "''ab''"]
  by (simp add: path_parent_def strip_trailing_slashes_def is_dir_def list_ex_iff dir_chain_set)

end
