(* ===== verification/Toml.thy ===== *)
theory Toml
  imports Environment
begin

text \<open>
  The configuration file's format. \<open>Config::example_toml\<close> (\<open>src/src/config.rs\<close>) is the
  example file the program documents, kept as its lines. The decoder
  \<open>toml::from_str::<Config>\<close> with serde's \<open>#[serde(default)]\<close> is library code; it is
  modelled here, from the TOML specification and serde's documented behaviour, for the
  subset of TOML that configuration files of this shape use, as an instance
  \<open>toml_from_str\<close> of the parameter \<open>toml_parser\<close> of \<open>Environment\<close>:
  \<^item> a line is blank, a comment, a table header \<open>[a.b]\<close>, or \<open>key = value\<close> with a bare or
    double-quoted key, each optionally followed by a comment;
  \<^item> values are booleans, decimal integers (sign, no leading zero, within \<open>i64\<close>),
    decimal floats \<open>d.d\<close>, and basic strings without escapes; other TOML (arrays,
    inline tables, dotted keys, exponents, escapes, multi-line strings) is outside the
    subset and yields \<open>None\<close>;
  \<^item> a table or key defined twice is an error, as in TOML;
  \<^item> serde: fields missing from a table take the \<open>Default\<close> of that table's struct, unknown
    keys and tables are ignored, an integer is accepted for an \<open>f64\<close> field but not a
    float for an integer field, and an integer out of the field's range is an error.
  \<open>backoff_factor\<close> is an \<open>f32\<close>; its value is kept as the decimal read (exact for the
  values of the defaults).
\<close>

definition example_toml_lines :: "string list" where
  \<open>example_toml_lines =
     [''# Claudia Statusline Configuration File'',
      ''#'',
      ''# This file configures various aspects of the statusline behavior.'',
      ''# All values shown are the defaults - you can override only what you need.'',
      '''',
      ''[display]'',
      ''# Width of the progress bar in characters'',
      ''progress_bar_width = 10'',
      '''',
      ''# Context usage thresholds (percentage)'',
      ''context_warning_threshold = 70.0     # Orange color above this'',
      ''context_critical_threshold = 90.0    # Red color above this'',
      ''context_caution_threshold = 50.0     # Yellow color above this'',
      '''',
      ''# Theme: "dark" or "light"'',
      ''theme = "dark"'',
      '''',
      ''# Component visibility toggles (all default to true except show_context_tokens)'',
      ''# show_directory = true'',
      ''# show_git = true'',
      ''# show_context = true'',
      ''# show_model = true'',
      ''# show_duration = true'',
      ''# show_lines_changed = true'',
      ''# show_cost = true'',
      '''',
      ''# Show token counts in context bar (e.g., "179k/1000k")'',
      ''# show_context_tokens = false'',
      '''',
      ''[context]'',
      ''# Default context window size in tokens (fallback for unknown models)'',
      ''# Auto-detection: Sonnet 4.5 (1M context) uses 1M, Sonnet 3.5+/4.5/Opus 3.5+ use 200k'',
      ''# This fallback is used when model-specific detection fails'',
      ''window_size = 200000'',
      '''',
      ''# Model-specific context windows (optional overrides)'',
      ''# The statusline intelligently detects context window size based on model family/version'',
      ''# and display name patterns (e.g., "(1M context)" suffix)'',
      ''# You can override detection here for specific models by display name'',
      ''# [context.model_windows]'',
      ''# "Claude 3.5 Sonnet" = 200000'',
      ''# "Claude Sonnet 4.5" = 200000'',
      ''# "Sonnet 4.5 (1M context)" = 1000000  # Auto-detected, override not needed'',
      ''# "Claude 3.5 Opus" = 200000'',
      ''# "Claude 3 Haiku" = 100000'',
      '''',
      ''# Adaptive Learning (Experimental) - DISABLED BY DEFAULT'',
      ''# When enabled, the statusline learns actual context window sizes from usage patterns'',
      ''# by detecting compaction events and token ceiling observations'',
      ''adaptive_learning = false'',
      '''',
      ''# Minimum confidence threshold (0.0-1.0) required to use learned values'',
      ''# Only applies when adaptive_learning = true'',
      ''# Confidence increases with more observations (0.7 = 70% confidence)'',
      ''learning_confidence_threshold = 0.7'',
      '''',
      ''[cost]'',
      ''# Cost thresholds for color coding'',
      ''low_threshold = 5.0      # Green below this'',
      ''medium_threshold = 20.0  # Yellow between low and medium, red above'',
      '''',
      ''[database]'',
      ''# Database connection settings'',
      ''max_connections = 5'',
      ''busy_timeout_ms = 10000'',
      ''path = "stats.db"  # Relative to data directory'',
      ''json_backup = true  # Maintain JSON backup alongside SQLite (set to false for SQLite-only mode)'',
      '''',
      ''# Data retention settings (for db-maintain command)'',
      ''retention_days_sessions = 90    # Keep session data for N days'',
      ''retention_days_daily = 365      # Keep daily aggregates for N days'',
      ''retention_days_monthly = 0      # Keep monthly aggregates for N days (0 = forever)'',
      '''',
      ''[transcript]'',
      ''# Number of transcript lines to keep in memory (circular buffer)'',
      ''# For large files, only the last N lines are read (tail-reading optimization)'',
      ''buffer_lines = 50'',
      '''',
      ''[retry.file_ops]'',
      ''# File operation retry settings'',
      ''max_attempts = 3'',
      ''initial_delay_ms = 100'',
      ''max_delay_ms = 5000'',
      ''backoff_factor = 2.0'',
      '''',
      ''[retry.db_ops]'',
      ''# Database operation retry settings'',
      ''max_attempts = 5'',
      ''initial_delay_ms = 50'',
      ''max_delay_ms = 2000'',
      ''backoff_factor = 1.5'',
      '''',
      ''[retry.git_ops]'',
      ''# Git operation retry settings'',
      ''max_attempts = 3'',
      ''initial_delay_ms = 100'',
      ''max_delay_ms = 3000'',
      ''backoff_factor = 2.0'',
      '''',
      ''[retry.network_ops]'',
      ''# Network operation retry settings'',
      ''max_attempts = 2'',
      ''initial_delay_ms = 200'',
      ''max_delay_ms = 1000'',
      ''backoff_factor = 2.0'',
      '''',
      ''[git]'',
      ''# Git operation settings'',
      ''timeout_ms = 200  # Timeout for git operations'',
      '''',
      ''# Optional cloud sync configuration'',
      ''# Requires building with --features turso-sync'',
      ''# [sync]'',
      ''# enabled = false'',
      ''# provider = "turso"'',
      ''# sync_interval_seconds = 60'',
      ''# soft_quota_fraction = 0.75  # Warn when usage exceeds 75% of quota'',
      ''#'',
      ''# [sync.turso]'',
      ''# database_url = "libsql://claude-stats.turso.io"'',
      ''# auth_token = "${TURSO_AUTH_TOKEN}"  # Or paste token directly'']\<close>

definition example_toml :: string where
  "example_toml = concat (map (\<lambda>l. l @ [CHR 0x0A]) example_toml_lines)"

datatype toml_value = TInt int | TFloat real | TStr string | TBool bool

datatype toml_line = Blank | Header string | KeyVal string toml_value

subsection \<open>Lines\<close>

definition toml_ws :: "char \<Rightarrow> bool" where
  "toml_ws c \<longleftrightarrow> c = CHR '' '' \<or> c = CHR 0x09 \<or> c = CHR 0x0D"

definition toml_trim :: "string \<Rightarrow> string" where
  "toml_trim s = dropWhile toml_ws (rev (dropWhile toml_ws (rev s)))"

definition comment_or_blank :: "string \<Rightarrow> bool" where
  "comment_or_blank r \<longleftrightarrow> (let r' = dropWhile toml_ws r in r' = [] \<or> hd r' = CHR ''#'')"

definition bare_key_char :: "char \<Rightarrow> bool" where
  "bare_key_char c \<longleftrightarrow>
     is_digit c \<or> ((65::nat) \<le> of_char c \<and> of_char c \<le> (90::nat)) \<or>
     ((97::nat) \<le> of_char c \<and> of_char c \<le> (122::nat)) \<or>
     c = CHR ''_'' \<or> c = CHR ''-''"

text \<open>A basic string after its opening quote: the text up to the closing quote and what
  follows it; no escapes.\<close>

definition basic_string :: "string \<Rightarrow> (string \<times> string) option" where
  "basic_string s =
     (let str = takeWhile (\<lambda>c. c \<noteq> CHR 0x22) s
      in if length str < length s \<and> CHR 0x5C \<notin> set str then Some (str, drop (Suc (length str)) s)
         else None)"

definition parse_key :: "string \<Rightarrow> (string \<times> string) option" where
  "parse_key s =
     (if s \<noteq> [] \<and> hd s = CHR 0x22 then basic_string (tl s)
      else (let k = takeWhile bare_key_char s in
            if k = [] then None else Some (k, drop (length k) s)))"

text \<open>Decimal digits without a leading zero (the digit \<open>0\<close> alone is allowed).\<close>

definition dec_digits :: "string \<Rightarrow> bool" where
  "dec_digits ds \<longleftrightarrow> ds \<noteq> [] \<and> list_all is_digit ds \<and> (hd ds = CHR ''0'' \<longrightarrow> ds = ''0'')"

definition parse_number :: "string \<Rightarrow> toml_value option" where
  "parse_number tok =
     (let neg = (tok \<noteq> [] \<and> hd tok = CHR ''-'');
          body = (if tok \<noteq> [] \<and> (hd tok = CHR ''-'' \<or> hd tok = CHR ''+'') then tl tok else tok);
          sgn = (if neg then -1 else 1 :: int);
          ip = takeWhile is_digit body; rest = drop (length ip) body
      in if \<not> dec_digits ip then None
         else if rest = [] then
           (let i = sgn * int (digits_value ip)
            in if - (2 ^ 63) \<le> i \<and> i < 2 ^ 63 then Some (TInt i) else None)
         else if hd rest = CHR ''.'' \<and> tl rest \<noteq> [] \<and> list_all is_digit (tl rest) then
           Some (TFloat (of_int sgn * real (digits_value (ip @ tl rest)) / 10 ^ length (tl rest)))
         else None)"

definition parse_value :: "string \<Rightarrow> toml_value option" where
  "parse_value s =
     (if s \<noteq> [] \<and> hd s = CHR 0x22 then
        (case basic_string (tl s) of
           Some (str, rest) \<Rightarrow> if comment_or_blank rest then Some (TStr str) else None
         | None \<Rightarrow> None)
      else (let tok = takeWhile (\<lambda>c. \<not> toml_ws c \<and> c \<noteq> CHR ''#'') s
            in if \<not> comment_or_blank (drop (length tok) s) then None
               else if tok = ''true'' then Some (TBool True)
               else if tok = ''false'' then Some (TBool False)
               else parse_number tok))"

definition parse_line :: "string \<Rightarrow> toml_line option" where
  "parse_line l =
     (let s = toml_trim l in
      if s = [] \<or> hd s = CHR ''#'' then Some Blank
      else if hd s = CHR ''['' then
        (let name = takeWhile (\<lambda>c. c \<noteq> CHR '']'') (tl s)
         in if length name < length (tl s) \<and> comment_or_blank (drop (Suc (length name)) (tl s))
               \<and> CHR ''['' \<notin> set name \<and> toml_trim name \<noteq> []
            then Some (Header (toml_trim name)) else None)
      else (case parse_key s of
              None \<Rightarrow> None
            | Some (k, rest) \<Rightarrow>
                (let r = dropWhile toml_ws rest in
                 if r \<noteq> [] \<and> hd r = CHR ''='' then
                   map_option (KeyVal k) (parse_value (dropWhile toml_ws (tl r)))
                 else None)))"

text \<open>A document is read line by line; one line outside the subset makes it \<open>None\<close>.\<close>

definition toml_lines :: "string \<Rightarrow> toml_line list option" where
  "toml_lines s =
     (let pls = map parse_line (split_on (CHR 0x0A) s)
      in if list_all (\<lambda>x. x \<noteq> None) pls then Some (map the pls) else None)"

text \<open>The entries of a document: each key with the table it belongs to.\<close>

fun toml_entries :: "string \<Rightarrow> toml_line list \<Rightarrow> (string \<times> string \<times> toml_value) list" where
  "toml_entries sec [] = []"
| "toml_entries sec (Blank # ls) = toml_entries sec ls"
| "toml_entries sec (Header h # ls) = toml_entries h ls"
| "toml_entries sec (KeyVal k v # ls) = (sec, k, v) # toml_entries sec ls"

definition toml_headers :: "toml_line list \<Rightarrow> string list" where
  "toml_headers ls = [h. Header h \<leftarrow> ls]"

subsection \<open>Decoding into the configuration\<close>

text \<open>serde's conversions of a TOML value into a field of each Rust type.\<close>

definition toml_uint :: "nat \<Rightarrow> toml_value \<Rightarrow> nat option" where
  "toml_uint bound v = (case v of TInt i \<Rightarrow> if 0 \<le> i \<and> i < int bound then Some (nat i) else None | _ \<Rightarrow> None)"

definition toml_f64 :: "toml_value \<Rightarrow> f64 option" where
  "toml_f64 v = (case v of TInt i \<Rightarrow> Some (of_int i) | TFloat r \<Rightarrow> Some r | _ \<Rightarrow> None)"

definition toml_bool :: "toml_value \<Rightarrow> bool option" where
  "toml_bool v = (case v of TBool b \<Rightarrow> Some b | _ \<Rightarrow> None)"

definition toml_string :: "toml_value \<Rightarrow> string option" where
  "toml_string v = (case v of TStr s \<Rightarrow> Some s | _ \<Rightarrow> None)"

abbreviation u32_bound :: nat where "u32_bound \<equiv> 2 ^ 32"
abbreviation u64_bound :: nat where "u64_bound \<equiv> 2 ^ 64"
abbreviation usize_bound :: nat where "usize_bound \<equiv> 2 ^ 64"

type_synonym 'r fields = "(string \<times> (toml_value \<Rightarrow> 'r \<Rightarrow> 'r option)) list"

text \<open>A key of a table: its field's setter, or nothing for a key the struct does not have.\<close>

definition set_field :: "'r fields \<Rightarrow> string \<Rightarrow> toml_value \<Rightarrow> 'r \<Rightarrow> 'r option" where
  "set_field fs k v r = (case map_of fs k of None \<Rightarrow> Some r | Some f \<Rightarrow> f v r)"

definition display_fields :: "display_config fields" where
  "display_fields =
     [(''progress_bar_width'', \<lambda>v d. map_option (\<lambda>x. d\<lparr>progress_bar_width := x\<rparr>) (toml_uint usize_bound v)),
      (''context_warning_threshold'', \<lambda>v d. map_option (\<lambda>x. d\<lparr>context_warning_threshold := x\<rparr>) (toml_f64 v)),
      (''context_critical_threshold'', \<lambda>v d. map_option (\<lambda>x. d\<lparr>context_critical_threshold := x\<rparr>) (toml_f64 v)),
      (''context_caution_threshold'', \<lambda>v d. map_option (\<lambda>x. d\<lparr>context_caution_threshold := x\<rparr>) (toml_f64 v)),
      (''theme'', \<lambda>v d. map_option (\<lambda>x. d\<lparr>theme := x\<rparr>) (toml_string v)),
      (''show_directory'', \<lambda>v d. map_option (\<lambda>x. d\<lparr>show_directory := x\<rparr>) (toml_bool v)),
      (''show_git'', \<lambda>v d. map_option (\<lambda>x. d\<lparr>show_git := x\<rparr>) (toml_bool v)),
      (''show_context'', \<lambda>v d. map_option (\<lambda>x. d\<lparr>show_context := x\<rparr>) (toml_bool v)),
      (''show_model'', \<lambda>v d. map_option (\<lambda>x. d\<lparr>show_model := x\<rparr>) (toml_bool v)),
      (''show_duration'', \<lambda>v d. map_option (\<lambda>x. d\<lparr>show_duration := x\<rparr>) (toml_bool v)),
      (''show_lines_changed'', \<lambda>v d. map_option (\<lambda>x. d\<lparr>show_lines_changed := x\<rparr>) (toml_bool v)),
      (''show_cost'', \<lambda>v d. map_option (\<lambda>x. d\<lparr>show_cost := x\<rparr>) (toml_bool v)),
      (''show_context_tokens'', \<lambda>v d. map_option (\<lambda>x. d\<lparr>show_context_tokens := x\<rparr>) (toml_bool v))]"

definition context_fields :: "context_config fields" where
  "context_fields =
     [(''window_size'', \<lambda>v c. map_option (\<lambda>x. c\<lparr>window_size := x\<rparr>) (toml_uint usize_bound v)),
      (''model_windows'', \<lambda>v c. None),
      (''adaptive_learning'', \<lambda>v c. map_option (\<lambda>x. c\<lparr>adaptive_learning := x\<rparr>) (toml_bool v)),
      (''learning_confidence_threshold'', \<lambda>v c. map_option (\<lambda>x. c\<lparr>learning_confidence_threshold := x\<rparr>) (toml_f64 v)),
      (''buffer_size'', \<lambda>v c. map_option (\<lambda>x. c\<lparr>buffer_size := x\<rparr>) (toml_uint usize_bound v)),
      (''auto_compact_threshold'', \<lambda>v c. map_option (\<lambda>x. c\<lparr>auto_compact_threshold := x\<rparr>) (toml_f64 v)),
      (''percentage_mode'', \<lambda>v c. map_option (\<lambda>x. c\<lparr>percentage_mode := x\<rparr>) (toml_string v))]"

definition cost_fields :: "cost_config fields" where
  "cost_fields =
     [(''low_threshold'', \<lambda>v c. map_option (\<lambda>x. c\<lparr>low_threshold := x\<rparr>) (toml_f64 v)),
      (''medium_threshold'', \<lambda>v c. map_option (\<lambda>x. c\<lparr>medium_threshold := x\<rparr>) (toml_f64 v))]"

definition database_fields :: "database_config fields" where
  "database_fields =
     [(''max_connections'', \<lambda>v c. map_option (\<lambda>x. c\<lparr>max_connections := x\<rparr>) (toml_uint u32_bound v)),
      (''busy_timeout_ms'', \<lambda>v c. map_option (\<lambda>x. c\<lparr>busy_timeout_ms := x\<rparr>) (toml_uint u32_bound v)),
      (''path'', \<lambda>v c. map_option (\<lambda>x. c\<lparr>db_path := x\<rparr>) (toml_string v)),
      (''json_backup'', \<lambda>v c. map_option (\<lambda>x. c\<lparr>json_backup := x\<rparr>) (toml_bool v)),
      (''retention_days_sessions'', \<lambda>v c. map_option (\<lambda>x. c\<lparr>retention_days_sessions := Some x\<rparr>) (toml_uint u32_bound v)),
      (''retention_days_daily'', \<lambda>v c. map_option (\<lambda>x. c\<lparr>retention_days_daily := Some x\<rparr>) (toml_uint u32_bound v)),
      (''retention_days_monthly'', \<lambda>v c. map_option (\<lambda>x. c\<lparr>retention_days_monthly := Some x\<rparr>) (toml_uint u32_bound v))]"

definition retry_settings_fields :: "retry_settings fields" where
  "retry_settings_fields =
     [(''max_attempts'', \<lambda>v s. map_option (\<lambda>x. s\<lparr>max_attempts := x\<rparr>) (toml_uint u32_bound v)),
      (''initial_delay_ms'', \<lambda>v s. map_option (\<lambda>x. s\<lparr>initial_delay_ms := x\<rparr>) (toml_uint u64_bound v)),
      (''max_delay_ms'', \<lambda>v s. map_option (\<lambda>x. s\<lparr>max_delay_ms := x\<rparr>) (toml_uint u64_bound v)),
      (''backoff_factor'', \<lambda>v s. map_option (\<lambda>x. s\<lparr>backoff_factor := x\<rparr>) (toml_f64 v))]"

definition transcript_fields :: "transcript_config fields" where
  "transcript_fields =
     [(''buffer_lines'', \<lambda>v t. map_option (\<lambda>x. t\<lparr>buffer_lines := x\<rparr>) (toml_uint usize_bound v))]"

definition git_fields :: "git_config fields" where
  "git_fields =
     [(''timeout_ms'', \<lambda>v g. map_option (\<lambda>x. g\<lparr>timeout_ms := x\<rparr>) (toml_uint u32_bound v))]"

text \<open>The four tables of \<open>RetryConfig\<close>, each with its field's selector and updater.\<close>

definition retry_tables ::
  "(string \<times> (retry_config \<Rightarrow> retry_settings) \<times> (retry_settings \<Rightarrow> retry_config \<Rightarrow> retry_config)) list" where
  "retry_tables =
     [(''file_ops'', file_ops, \<lambda>s r. r\<lparr>file_ops := s\<rparr>), (''db_ops'', db_ops, \<lambda>s r. r\<lparr>db_ops := s\<rparr>),
      (''git_ops'', git_ops, \<lambda>s r. r\<lparr>git_ops := s\<rparr>), (''network_ops'', network_ops, \<lambda>s r. r\<lparr>network_ops := s\<rparr>)]"

definition config_tables :: "string list" where
  "config_tables = [''display'', ''context'', ''cost'', ''database'', ''retry'', ''transcript'', ''git'']"

definition known_tables :: "string list" where
  "known_tables = config_tables @ [''context.model_windows''] @ map (\<lambda>(n, _). ''retry.'' @ n) retry_tables"

text \<open>A table header is one of \<open>Config\<close>'s tables, or a table \<open>Config\<close> does not have (ignored,
  such as \<open>[sync]\<close> in a build without sync); a table nested in one of \<open>Config\<close>'s tables
  otherwise is outside the subset.\<close>

definition header_allowed :: "string \<Rightarrow> bool" where
  "header_allowed h \<longleftrightarrow> h \<in> set known_tables \<or> takeWhile (\<lambda>c. c \<noteq> CHR ''.'') h \<notin> set config_tables"

definition apply_entry :: "config \<Rightarrow> string \<times> string \<times> toml_value \<Rightarrow> config option" where
  "apply_entry c e =
     (case e of (sec, k, v) \<Rightarrow>
       if sec = [] then (if k \<in> set config_tables then None else Some c)
       else if sec = ''display'' then
         map_option (\<lambda>d. c\<lparr>display_cfg := d\<rparr>) (set_field display_fields k v (display_cfg c))
       else if sec = ''context'' then
         map_option (\<lambda>x. c\<lparr>context_cfg := x\<rparr>) (set_field context_fields k v (context_cfg c))
       else if sec = ''context.model_windows'' then
         map_option (\<lambda>n. c\<lparr>context_cfg := (context_cfg c)\<lparr>model_windows := (model_windows (context_cfg c))(k \<mapsto> n)\<rparr>\<rparr>)
           (toml_uint usize_bound v)
       else if sec = ''cost'' then
         map_option (\<lambda>x. c\<lparr>cost_cfg := x\<rparr>) (set_field cost_fields k v (cost_cfg c))
       else if sec = ''database'' then
         map_option (\<lambda>x. c\<lparr>database_cfg := x\<rparr>) (set_field database_fields k v (database_cfg c))
       else if sec = ''retry'' then
         (if k \<in> set (map fst retry_tables) then None else Some c)
       else if sec = ''transcript'' then
         map_option (\<lambda>x. c\<lparr>transcript_cfg := x\<rparr>) (set_field transcript_fields k v (transcript_cfg c))
       else if sec = ''git'' then
         map_option (\<lambda>x. c\<lparr>git_cfg := x\<rparr>) (set_field git_fields k v (git_cfg c))
       else
         (case find (\<lambda>(n, _). sec = ''retry.'' @ n) retry_tables of
            Some (_, get, put) \<Rightarrow>
              map_option (\<lambda>s. c\<lparr>retry_cfg := put s (retry_cfg c)\<rparr>)
                (set_field retry_settings_fields k v (get (retry_cfg c)))
          | None \<Rightarrow> Some c))"

fun apply_entries :: "config \<Rightarrow> (string \<times> string \<times> toml_value) list \<Rightarrow> config option" where
  "apply_entries c [] = Some c"
| "apply_entries c (e # es) = (case apply_entry c e of None \<Rightarrow> None | Some c' \<Rightarrow> apply_entries c' es)"

text \<open>serde's \<open>#[serde(default)]\<close>: a table present in the file starts from its struct's
  \<open>Default\<close>. For every table but those of \<open>RetryConfig\<close> this is the field of
  \<open>Config::default()\<close>; a \<open>[retry.X]\<close> table starts from \<open>RetrySettings::default()\<close>.\<close>

definition base_config :: "string list \<Rightarrow> config" where
  "base_config hs =
     default_config\<lparr>retry_cfg :=
       foldr (\<lambda>(n, _, put) r. if ''retry.'' @ n \<in> set hs then put default_retry_settings r else r)
         retry_tables default_retry_config\<rparr>"

definition toml_from_str :: toml_parser where
  "toml_from_str s =
     (case toml_lines s of
        None \<Rightarrow> None
      | Some ls \<Rightarrow>
          (let hs = toml_headers ls; es = toml_entries [] ls in
           if distinct hs \<and> list_all header_allowed hs \<and> distinct (map (\<lambda>(sec, k, _). (sec, k)) es)
           then apply_entries (base_config hs) es else None))"

lemmas toml_line_eval = parse_line_def toml_trim_def toml_ws_def
  comment_or_blank_def parse_key_def bare_key_char_def basic_string_def parse_value_def parse_number_def
  dec_digits_def is_digit_def digits_value_def digit_value_def

subsection \<open>Reading lines\<close>

lemma split_on_append: "d \<notin> set l \<Longrightarrow> split_on d (l @ d # rest) = l # split_on d rest"
  by (induction l) (auto simp: Let_def)

lemma digit_char_facts:
  assumes "is_digit c"
  shows "\<not> toml_ws c" "c \<noteq> CHR ''#''" "c \<noteq> CHR ''-''" "c \<noteq> CHR ''+''" "c \<noteq> CHR 0x22"
    "c \<noteq> CHR 0x0A" "c \<noteq> CHR ''t''" "c \<noteq> CHR ''f''"
  using assms by (auto simp: is_digit_def toml_ws_def)

lemma string_of_nat_hd_zero: "hd (string_of_nat n) = CHR ''0'' \<Longrightarrow> string_of_nat n = ''0''"
proof (induction n rule: string_of_nat.induct)
  case (1 n)
  show ?case
  proof (cases "n < 10")
    case True
    then have "of_char (digit_char n) = (48::nat)" using "1.prems" by simp
    then have "n = 0" using of_char_digit_char [OF True] by simp
    then show ?thesis by (simp add: digit_char_def)
  next
    case False
    then have "hd (string_of_nat (n div 10)) = CHR ''0''" using "1.prems" by simp
    then have "string_of_nat (n div 10) = ''0''" using "1.IH" False by simp
    then have "n div 10 = 0" using digits_value_string_of_nat [of "n div 10"] by (simp add: digits_value_def digit_value_def)
    then show ?thesis using False by simp
  qed
qed

lemma parse_number_string_of_nat:
  "n < 2 ^ 63 \<Longrightarrow> parse_number (string_of_nat n) = Some (TInt (int n))"
proof -
  assume n: "n < 2 ^ 63"
  let ?ds = "string_of_nat n"
  have d: "\<forall>c \<in> set ?ds. is_digit c" using string_of_nat_digits [of n] by (simp add: list_all_iff)
  have h: "is_digit (hd ?ds)" using d by simp
  have tw: "takeWhile is_digit ?ds = ?ds" using d by (simp add: takeWhile_eq_all_conv)
  have dd: "dec_digits ?ds"
    using d string_of_nat_hd_zero [of n] by (simp add: dec_digits_def list_all_iff)
  have ne: "?ds \<noteq> []" by simp
  show ?thesis
    unfolding parse_number_def Let_def
    using digit_char_facts [OF h] dd n ne by (simp add: tw)
qed

lemma digits_no_ws:
  assumes "list_all is_digit ds" "ds \<noteq> []"
  shows "dropWhile toml_ws (ds @ ys) = ds @ ys" "dropWhile toml_ws (rev ds @ ys) = rev ds @ ys"
    "takeWhile (\<lambda>c. \<not> toml_ws c \<and> c \<noteq> CHR ''#'') ds = ds"
proof -
  have d: "\<forall>c \<in> set ds. is_digit c" using assms(1) by (simp add: list_all_iff)
  obtain c cs where c: "ds = c # cs" using assms(2) by (cases ds) auto
  obtain c' cs' where c': "rev ds = c' # cs'" using assms(2) by (cases "rev ds") auto
  have "c' \<in> set ds" using c' by (metis list.set_intros(1) set_rev)
  then have "is_digit c" "is_digit c'" using d c by auto
  then show "dropWhile toml_ws (ds @ ys) = ds @ ys" "dropWhile toml_ws (rev ds @ ys) = rev ds @ ys"
    using c c' digit_char_facts by simp_all
  show "takeWhile (\<lambda>c. \<not> toml_ws c \<and> c \<noteq> CHR ''#'') ds = ds"
    using d digit_char_facts by (simp add: takeWhile_eq_all_conv)
qed

lemma parse_line_max_attempts:
  assumes n: "n < 2 ^ 63"
  shows "parse_line (''max_attempts = '' @ string_of_nat n) = Some (KeyVal ''max_attempts'' (TInt (int n)))"
proof -
  let ?ds = "string_of_nat n"
  have a: "list_all is_digit ?ds" "?ds \<noteq> []" by (simp_all add: string_of_nat_digits)
  have h: "is_digit (hd ?ds)" using a by (cases ?ds) auto
  have trim: "toml_trim (''max_attempts = '' @ ?ds) = ''max_attempts = '' @ ?ds"
    using digits_no_ws(2) [OF a, of "rev ''max_attempts = ''"]
    by (simp add: toml_trim_def toml_ws_def)
  have tf: "?ds \<noteq> ''true''" "?ds \<noteq> ''false''"
    using digit_char_facts(7,8) [OF h] by auto
  have v: "parse_value ?ds = Some (TInt (int n))"
    using digit_char_facts(5) [OF h] a(2) tf parse_number_string_of_nat [OF n]
    by (simp add: parse_value_def comment_or_blank_def digits_no_ws(3) [OF a])
  show ?thesis
    using trim v digits_no_ws(1) [OF a, of "[]"]
    by (simp add: parse_line_def parse_key_def bare_key_char_def is_digit_def toml_ws_def)
qed

lemma parse_line_header_db_ops: "parse_line ''[retry.db_ops]'' = Some (Header ''retry.db_ops'')"
  by (simp add: toml_line_eval)

lemma max_attempts_line_no_newline: "CHR 0x0A \<notin> set (''max_attempts = '' @ string_of_nat n)"
    using string_of_nat_digits [of n] digit_char_facts(6) by (auto simp: list_all_iff)

lemma split_db_ops_doc: "split_on (CHR 0x0A) (''[retry.db_ops]'' @ [CHR 0x0A] @ ''max_attempts = '' @ string_of_nat n) = [''[retry.db_ops]'', ''max_attempts = '' @ string_of_nat n]"
proof -
  have nl: "CHR 0x0A \<notin> set ''[retry.db_ops]''" by simp
  have a: "[CHR 0x0A] @ ''max_attempts = '' @ string_of_nat n = CHR 0x0A # (''max_attempts = '' @ string_of_nat n)"
    by (simp only: append_Cons append_Nil)
  show ?thesis
    by (simp only: a split_on_append [OF nl] concat_split_on_no_sep [OF max_attempts_line_no_newline])
qed

lemma toml_headers_db_ops: "toml_headers [Header ''retry.db_ops'', KeyVal ''max_attempts'' (TInt (int n))] = [''retry.db_ops'']"
  by (simp add: toml_headers_def)

lemma header_allowed_db_ops: "header_allowed ''retry.db_ops''"
  by (simp add: header_allowed_def known_tables_def config_tables_def retry_tables_def)

lemma base_config_db_ops: "base_config [''retry.db_ops''] = default_config\<lparr>retry_cfg := default_retry_config\<lparr>db_ops := default_retry_settings\<rparr>\<rparr>"
  by (simp add: base_config_def retry_tables_def default_config_def default_retry_config_def)

lemma apply_entry_db_ops_max_attempts: "n < 2 ^ 32 \<Longrightarrow> apply_entry c (''retry.db_ops'', ''max_attempts'', TInt (int n)) =
   Some (c\<lparr>retry_cfg := (retry_cfg c)\<lparr>db_ops := (db_ops (retry_cfg c))\<lparr>max_attempts := n\<rparr>\<rparr>\<rparr>)"
  by (simp add: apply_entry_def retry_tables_def set_field_def retry_settings_fields_def toml_uint_def)

text \<open>C38. A \<open>[retry.db_ops]\<close> table that sets only \<open>max_attempts\<close> takes its other fields from
  \<open>RetrySettings::default()\<close> (100 ms, 5000 ms, factor 2), not from the database
  settings of \<open>RetryConfig::default()\<close> (50 ms, 2000 ms, factor 1.5).\<close>

theorem retry_partial_table_defaults:
  assumes n: "n < 2 ^ 32"
  shows "toml_from_str (''[retry.db_ops]'' @ [CHR 0x0A] @ ''max_attempts = '' @ string_of_nat n) =
     Some (default_config\<lparr>retry_cfg := default_retry_config\<lparr>db_ops := default_retry_settings\<lparr>max_attempts := n\<rparr>\<rparr>\<rparr>)"
proof -
  have n63: "n < 2 ^ 63" using n by simp
  have "toml_lines (''[retry.db_ops]'' @ [CHR 0x0A] @ ''max_attempts = '' @ string_of_nat n) =
      Some [Header ''retry.db_ops'', KeyVal ''max_attempts'' (TInt (int n))]"
    unfolding toml_lines_def Let_def split_db_ops_doc
    by (simp only: list.map parse_line_max_attempts [OF n63] parse_line_header_db_ops) simp
  then show ?thesis
    unfolding toml_from_str_def
    using n by (simp add: toml_headers_db_ops header_allowed_db_ops base_config_db_ops apply_entry_db_ops_max_attempts)
qed

theorem retry_partial_table_defaults_witness:
  "toml_from_str (''[retry.db_ops]'' @ [CHR 0x0A] @ ''max_attempts = '' @ string_of_nat 10) =
     Some (default_config\<lparr>retry_cfg := default_retry_config\<lparr>db_ops := default_retry_settings\<lparr>max_attempts := 10\<rparr>\<rparr>\<rparr>)"
  by (rule retry_partial_table_defaults) simp

subsection \<open>The example file\<close>

lemma split_on_lines:
  "list_all (\<lambda>l. d \<notin> set l) ls \<Longrightarrow> split_on d (concat (map (\<lambda>l. l @ [d]) ls)) = ls @ [[]]"
  by (induction ls) (simp_all add: split_on_append)

lemma parse_example_lines:
  "map parse_line (example_toml_lines @ [[]]) =
     map Some [Blank,
       Blank,
       Blank,
       Blank,
       Blank,
       Header ''display'',
       Blank,
       KeyVal ''progress_bar_width'' (TInt 10),
       Blank,
       Blank,
       KeyVal ''context_warning_threshold'' (TFloat 70),
       KeyVal ''context_critical_threshold'' (TFloat 90),
       KeyVal ''context_caution_threshold'' (TFloat 50),
       Blank,
       Blank,
       KeyVal ''theme'' (TStr ''dark''),
       Blank,
       Blank,
       Blank,
       Blank,
       Blank,
       Blank,
       Blank,
       Blank,
       Blank,
       Blank,
       Blank,
       Blank,
       Blank,
       Header ''context'',
       Blank,
       Blank,
       Blank,
       KeyVal ''window_size'' (TInt 200000),
       Blank,
       Blank,
       Blank,
       Blank,
       Blank,
       Blank,
       Blank,
       Blank,
       Blank,
       Blank,
       Blank,
       Blank,
       Blank,
       Blank,
       Blank,
       KeyVal ''adaptive_learning'' (TBool False),
       Blank,
       Blank,
       Blank,
       Blank,
       KeyVal ''learning_confidence_threshold'' (TFloat (7 / 10)),
       Blank,
       Header ''cost'',
       Blank,
       KeyVal ''low_threshold'' (TFloat 5),
       KeyVal ''medium_threshold'' (TFloat 20),
       Blank,
       Header ''database'',
       Blank,
       KeyVal ''max_connections'' (TInt 5),
       KeyVal ''busy_timeout_ms'' (TInt 10000),
       KeyVal ''path'' (TStr ''stats.db''),
       KeyVal ''json_backup'' (TBool True),
       Blank,
       Blank,
       KeyVal ''retention_days_sessions'' (TInt 90),
       KeyVal ''retention_days_daily'' (TInt 365),
       KeyVal ''retention_days_monthly'' (TInt 0),
       Blank,
       Header ''transcript'',
       Blank,
       Blank,
       KeyVal ''buffer_lines'' (TInt 50),
       Blank,
       Header ''retry.file_ops'',
       Blank,
       KeyVal ''max_attempts'' (TInt 3),
       KeyVal ''initial_delay_ms'' (TInt 100),
       KeyVal ''max_delay_ms'' (TInt 5000),
       KeyVal ''backoff_factor'' (TFloat 2),
       Blank,
       Header ''retry.db_ops'',
       Blank,
       KeyVal ''max_attempts'' (TInt 5),
       KeyVal ''initial_delay_ms'' (TInt 50),
       KeyVal ''max_delay_ms'' (TInt 2000),
       KeyVal ''backoff_factor'' (TFloat (3 / 2)),
       Blank,
       Header ''retry.git_ops'',
       Blank,
       KeyVal ''max_attempts'' (TInt 3),
       KeyVal ''initial_delay_ms'' (TInt 100),
       KeyVal ''max_delay_ms'' (TInt 3000),
       KeyVal ''backoff_factor'' (TFloat 2),
       Blank,
       Header ''retry.network_ops'',
       Blank,
       KeyVal ''max_attempts'' (TInt 2),
       KeyVal ''initial_delay_ms'' (TInt 200),
       KeyVal ''max_delay_ms'' (TInt 1000),
       KeyVal ''backoff_factor'' (TFloat 2),
       Blank,
       Header ''git'',
       Blank,
       KeyVal ''timeout_ms'' (TInt 200),
       Blank,
       Blank,
       Blank,
       Blank,
       Blank,
       Blank,
       Blank,
       Blank,
       Blank,
       Blank,
       Blank,
       Blank,
       Blank]"
  unfolding example_toml_lines_def append.simps list.map list.inject
  by (intro conjI; simp add: toml_line_eval)


lemma example_toml_lines_no_newline: "list_all (\<lambda>l. CHR 0x0A \<notin> set l) example_toml_lines"
  by code_simp

lemma toml_lines_example:
  "toml_lines example_toml = Some [Blank,
       Blank,
       Blank,
       Blank,
       Blank,
       Header ''display'',
       Blank,
       KeyVal ''progress_bar_width'' (TInt 10),
       Blank,
       Blank,
       KeyVal ''context_warning_threshold'' (TFloat 70),
       KeyVal ''context_critical_threshold'' (TFloat 90),
       KeyVal ''context_caution_threshold'' (TFloat 50),
       Blank,
       Blank,
       KeyVal ''theme'' (TStr ''dark''),
       Blank,
       Blank,
       Blank,
       Blank,
       Blank,
       Blank,
       Blank,
       Blank,
       Blank,
       Blank,
       Blank,
       Blank,
       Blank,
       Header ''context'',
       Blank,
       Blank,
       Blank,
       KeyVal ''window_size'' (TInt 200000),
       Blank,
       Blank,
       Blank,
       Blank,
       Blank,
       Blank,
       Blank,
       Blank,
       Blank,
       Blank,
       Blank,
       Blank,
       Blank,
       Blank,
       Blank,
       KeyVal ''adaptive_learning'' (TBool False),
       Blank,
       Blank,
       Blank,
       Blank,
       KeyVal ''learning_confidence_threshold'' (TFloat (7 / 10)),
       Blank,
       Header ''cost'',
       Blank,
       KeyVal ''low_threshold'' (TFloat 5),
       KeyVal ''medium_threshold'' (TFloat 20),
       Blank,
       Header ''database'',
       Blank,
       KeyVal ''max_connections'' (TInt 5),
       KeyVal ''busy_timeout_ms'' (TInt 10000),
       KeyVal ''path'' (TStr ''stats.db''),
       KeyVal ''json_backup'' (TBool True),
       Blank,
       Blank,
       KeyVal ''retention_days_sessions'' (TInt 90),
       KeyVal ''retention_days_daily'' (TInt 365),
       KeyVal ''retention_days_monthly'' (TInt 0),
       Blank,
       Header ''transcript'',
       Blank,
       Blank,
       KeyVal ''buffer_lines'' (TInt 50),
       Blank,
       Header ''retry.file_ops'',
       Blank,
       KeyVal ''max_attempts'' (TInt 3),
       KeyVal ''initial_delay_ms'' (TInt 100),
       KeyVal ''max_delay_ms'' (TInt 5000),
       KeyVal ''backoff_factor'' (TFloat 2),
       Blank,
       Header ''retry.db_ops'',
       Blank,
       KeyVal ''max_attempts'' (TInt 5),
       KeyVal ''initial_delay_ms'' (TInt 50),
       KeyVal ''max_delay_ms'' (TInt 2000),
       KeyVal ''backoff_factor'' (TFloat (3 / 2)),
       Blank,
       Header ''retry.git_ops'',
       Blank,
       KeyVal ''max_attempts'' (TInt 3),
       KeyVal ''initial_delay_ms'' (TInt 100),
       KeyVal ''max_delay_ms'' (TInt 3000),
       KeyVal ''backoff_factor'' (TFloat 2),
       Blank,
       Header ''retry.network_ops'',
       Blank,
       KeyVal ''max_attempts'' (TInt 2),
       KeyVal ''initial_delay_ms'' (TInt 200),
       KeyVal ''max_delay_ms'' (TInt 1000),
       KeyVal ''backoff_factor'' (TFloat 2),
       Blank,
       Header ''git'',
       Blank,
       KeyVal ''timeout_ms'' (TInt 200),
       Blank,
       Blank,
       Blank,
       Blank,
       Blank,
       Blank,
       Blank,
       Blank,
       Blank,
       Blank,
       Blank,
       Blank,
       Blank]"
proof -
  have "split_on (CHR 0x0A) example_toml = example_toml_lines @ [[]]"
    unfolding example_toml_def by (rule split_on_lines [OF example_toml_lines_no_newline])
  then show ?thesis
    unfolding toml_lines_def Let_def using parse_example_lines by (simp add: list_all_iff)
qed

text \<open>C37. The example file that \<open>Config::example_toml\<close> documents as showing the defaults
  decodes to \<open>Config::default()\<close> except for the three retention horizons, which it sets
  to 90, 365 and 0 days where the defaults leave them unset (\<open>None\<close>).\<close>

theorem example_toml_decodes: "toml_from_str example_toml =
  Some (default_config\<lparr>database_cfg := default_database_config\<lparr>retention_days_sessions := Some 90,
     retention_days_daily := Some 365, retention_days_monthly := Some 0\<rparr>\<rparr>)"
  unfolding toml_from_str_def toml_lines_example
  by (simp add: toml_headers_def header_allowed_def known_tables_def config_tables_def retry_tables_def
    base_config_def apply_entry_def set_field_def display_fields_def context_fields_def cost_fields_def
    database_fields_def retry_settings_fields_def transcript_fields_def git_fields_def toml_uint_def
    toml_f64_def toml_bool_def toml_string_def default_defs)

end
