(* ===== verification/Spec2Isabelle.thy ===== *)
theory Spec2Isabelle
  imports Environment Timestamps Retry ConfigSave Toml
begin

text \<open>
  \<^bold>\<open>A verification library for claudia-statusline.\<close>
  The program prints one status line for Claude Code: it reads the session transcript
  (a JSONL file), estimates how full the context window is, detects compactions, and
  shows directory, git, context bar, model, duration, lines changed and cost. The
  theories model its four source files under \<open>src/src/\<close> as HOL functions, with the
  parts not under \<open>src/\<close> that they call (models, stats, database, git, theme) as
  arguments or, for the Stats Store, from the specification.

  \<^bold>\<open>Theories and what they model.\<close>
  \<^item> \<open>Prelude\<close>: shared types (\<open>u32\<close> as \<open>32 word\<close>, \<open>usize\<close> as \<open>nat\<close>, \<open>f64\<close> as \<open>real\<close>),
    decimal printing and \<open>str::parse::<u32>\<close>, \<open>str::split\<close>, ASCII case folding,
    \<open>[T]::join\<close>, \<open>last_n\<close>; the \<open>model_defs\<close> collection of unfolding rules.
  \<^item> \<open>Config\<close> (\<open>config.rs\<close>): one record per settings struct (the feature-gated
    \<open>SyncConfig\<close> as an extension of \<open>config\<close>), the \<open>Default\<close> values, and
    \<open>ContextConfig::get_effective_threshold\<close>.
  \<^item> \<open>Paths\<close> (\<open>common.rs\<close> \<open>validate_path_security\<close>, \<open>utils.rs\<close>
    \<open>validate_transcript_file\<close>): over a \<open>filesystem\<close> record giving \<open>fs::canonicalize\<close>
    and \<open>fs::metadata\<close>; errors are values of \<open>statusline_error + string\<close>.
  \<^item> \<open>Compaction\<close> (\<open>detect_compaction_state\<close>): hook state, stats high-water mark and
    transcript age as an environment record; the three-rule classification.
  \<^item> \<open>Tokens\<close> (\<open>get_token_breakdown_from_transcript\<close>): the byte-level line reader
    (\<open>BufRead::lines\<close> with UTF-8 validation and \<open>map_while\<close>), the small-file ring buffer
    and the large-file tail read, and the peak selection as a fold in \<open>u32\<close>.
  \<^item> \<open>Window\<close> (\<open>get_context_window_for_model\<close>): override, learned value, family rules.
  \<^item> \<open>Usage\<close> (\<open>calculate_context_usage\<close>): composition of extractor, detector and
    resolver; the \<open>f64\<close> quotient by a zero window is \<open>PosInf\<close> or \<open>NaN\<close>, modelled.
  \<^item> \<open>Display\<close> (\<open>format_token_count\<close>, \<open>format_duration\<close>, the bar's fill).
  \<^item> \<open>Terminal\<close> (\<open>sanitize_for_terminal\<close>, \<open>shorten_path\<close>) over code-point strings.
  \<^item> \<open>Duration\<close> (\<open>parse_duration\<close>), a fold over the transcript lines.
  \<^item> \<open>ContextBar\<close> (\<open>Colors\<close> thresholds, \<open>format_context_bar\<close>) and \<open>Statusline\<close>
    (\<open>format_statusline_string\<close> and its seven parts).
  \<^item> \<open>Timestamps\<close> (\<open>parse_iso8601_to_unix\<close>; \<open>common.rs\<close> \<open>current_timestamp\<close>,
    \<open>current_date\<close>, \<open>current_month\<close>): chrono's RFC 3339 and naive parsers, its formatter
    and the proleptic Gregorian calendar from their documented rules, and the
    \<open>i64 as u64\<close> cast through a 64-bit word.
  \<^item> \<open>Environment\<close> (\<open>get_data_dir\<close>, \<open>get_config_dir\<close>, \<open>get_device_id\<close>;
    \<open>Config::load\<close>, \<open>find_config_file\<close>, \<open>get_config\<close>, \<open>get_theme\<close>; \<open>Colors::enabled\<close>,
    \<open>get_current_theme\<close>, \<open>format_output\<close>): over a \<open>host\<close> record of environment
    variables, the \<open>dirs\<close> directories, \<open>Path::exists\<close>, file contents and the host name;
    the \<open>OnceLock\<close> of the global configuration as an explicit cell.
  \<^item> \<open>UnixPath\<close> and \<open>ConfigSave\<close> (\<open>Config::save\<close>): \<open>Path::parent\<close> and a file
    \<open>store\<close> of regular files, directories and free bytes, with \<open>fs::create_dir_all\<close> and
    \<open>fs::write\<close> (truncate, then write what fits)
    from the standard library's documented behaviour; the TOML printer is an argument;
    a store is read back through \<open>store_host\<close>.
  \<^item> \<open>Toml\<close> (\<open>Config::example_toml\<close>; \<open>toml::from_str::<Config>\<close>): the example file as its
    lines, and a decoder \<open>toml_from_str\<close> for the line-oriented subset of TOML that
    configuration files use, with serde's defaults per table; it instantiates the
    parameter \<open>toml_parser\<close> of \<open>Environment\<close>.
  \<^item> \<open>Stats\<close>: the ledger of the Stats Store (\<open>stats.rs\<close>/\<open>database.rs\<close> are not under
    \<open>src/\<close>), from the specification: sessions, daily and monthly buckets, totals.
  \<^item> \<open>Retry\<close>: the retry wrapper of the Stats Store (\<open>retry.rs\<close> is not under \<open>src/\<close>)
    from the specification, under the \<open>RetrySettings\<close> of \<open>config.rs\<close>: exponential
    backoff capped at \<open>max_delay_ms\<close>, at least one attempt; a retried \<open>record\<close> as one
    transaction per attempt.
  \<^item> This theory: successive record calls for one session (\<open>record_run\<close>) and the
    detector reading the store's high-water mark (\<open>detector_env\<close>).

  \<^bold>\<open>How the parts interact.\<close> \<open>format_statusline_string\<close> calls
  \<open>calculate_context_usage\<close>, which validates the transcript path, extracts the token
  peak, classifies the compaction state from the Stats Store's high-water mark, and
  resolves the window; the bar, the duration and the cost part format the results.
  External services are arguments: \<open>entry_parser\<close> (serde_json), the palette,
  \<open>git_info\<close>, \<open>model_abbreviation\<close>, and the learned-windows and stats databases as
  optional maps (\<open>None\<close>: cannot be opened). The duration's \<open>timestamp_parser\<close> is
  instantiated with \<open>parse_iso8601_to_unix\<close> in \<open>Timestamps\<close>; the palette is built from
  the host by \<open>palette_of\<close> (\<open>NO_COLOR\<close> and the theme named by \<open>get_theme\<close>), and
  \<open>format_output\<close> runs the status line under \<open>get_config\<close>, whose display section is
  also the one \<open>format_context_bar\<close> reads.

  \<^bold>\<open>What the lemmas show.\<close> Bounds of the percentage (0 to 100, also for a zero
  window); the detector's rules, including that its third rule is unreachable and that
  \<open>RecentlyCompleted\<close> lasts as long as the tokens stay below half the high-water mark;
  that the extractor keeps the first peak and that a seek into a multi-byte character
  loses the whole window; the ring buffer keeps the last \<open>n\<close> lines, an invariant each push
  preserves; the resolver's
  priorities; the validation's guarantees and that it checks the extension of the
  resolved target, whatever the given path is called; that the model's integer rounding
  of \<open>tokens / 1000\<close> is the code's \<open>f64\<close> rounding for every correctly rounded quotient;
  the sanitiser's safety (no control character but tab, line feed and carriage
  return), idempotence and subsequence property, and that it removes colour sequences
  whole but leaves the text of any other control sequence; the home-shortening round
  trip and its string-prefix test, for every \<open>HOME\<close>; the equivalence
  of the duration loop with a reference definition; monotone colours; and that with
  \<open>NO_COLOR\<close> untrusted text cannot put an escape character on the terminal. For
  timestamps: what \<open>current_timestamp\<close> writes is read back as the same instant; within
  the fixed-width model of chrono's parsers every parsed value is the timestamp of a
  valid date and time; the calendar's closed form equals the year-by-year count; the third parser is
  never decisive; pre-1970 stamps wrap to at least \<open>2^63\<close>, which removes the duration of
  a transcript spanning 1970; \<open>current_date\<close> has ten characters only for four-digit
  years. For the environment: \<open>find_config_file\<close> returns the first existing candidate;
  an unreadable config file silently yields the defaults; the theme comes from the
  environment before the file; empty XDG variables give relative directories; the device
  id decodes back to the digest's first eight bytes and its input is unambiguous for host
  names without a bar. For the retry wrapper: its outcome is that of the first attempt
  that succeeds within the budget, else the last attempt's error; it sleeps fewer times
  than it attempts, each wait at most \<open>max_delay_ms\<close>; a retried \<open>record\<close> keeps the
  ledger's invariant. For \<open>Config::save\<close>: with an inverse TOML printer and parser, a save
  into a path whose ancestors are not files and with room for the text succeeds and
  \<open>load_from_file\<close> reads the same configuration back; a save changes no other file, and
  nothing when it fails before writing; but a write that runs out of space leaves the
  config file truncated to part of the new text, the old configuration lost.
  For the configuration file: the example file decodes to the defaults except for the
  retention horizons, and a partial \<open>[retry.db_ops]\<close> table takes its missing fields from
  the file-operation defaults.

  \<^bold>\<open>Bounds and fuel.\<close> No loop needs fuel: every loop of the code is a fold over a
  finite list of lines or characters (structural recursion), and the ANSI scan
  \<open>strip_ansi\<close> is a \<open>function\<close> whose termination is proved with the measure
  \<open>length\<close>; the walk up the directory tree \<open>dir_chain\<close> terminates because each
  parent is shorter than its path. The retry loop recurses on the attempts left, bounded by \<open>max_attempts\<close>
  (at least 1), so it needs no fuel either. Machine integers: token counts are \<open>u32\<close> words (their sum wraps as in a
  release build), sizes \<open>usize\<close> are naturals with \<open>saturating_sub\<close> as truncated
  subtraction, \<open>f64\<close> values are reals; rounding is modelled where the code rounds
  (\<open>round()\<close>, \<open>{:.2}\<close>); for \<open>(tokens as f64 / 1000.0).round()\<close> the agreement of the
  integer model with every correctly rounded quotient is proved in \<open>Display\<close>
  (\<open>format_token_count_f64\<close>), for counts below \<open>2^40\<close>.

  \<^bold>\<open>Not modelled.\<close> The TOML printer, TOML beyond the line-oriented subset of \<open>Toml\<close>
  (arrays, inline tables, dotted keys, escapes, exponents), permission errors of the
  file system, the rounding of
  \<open>backoff_factor\<close> to \<open>f32\<close>, SHA-256, the theme files and
  \<open>Theme::resolve_color\<close> (library code or code outside \<open>src/\<close>, taken as arguments); the
  clock (\<open>Local::now()\<close> is an argument); chrono's looser numeric fields (fewer digits,
  signed years, leading blanks), which the fixed-width model of its parsers leaves out;
  git queries (external commands); logging; the sync itself (network calls); SQLite, migrations, retention and the JSON
  mirror of the Stats Store; the retry wrapper's classification of errors as
  transient (every failed attempt is retried) and its real sleeping. Code-point
  strings are not checked against the byte strings of the reader beyond
  \<open>utf8_encode\<close>, which maps a model name to the bytes the resolver reads.
\<close>

subsection \<open>Successive invocations for one session\<close>

text \<open>
  Each invocation of the status line for a session records the session's cost, line
  counts and current token total in the Stats Store (\<open>update_session\<close>); the next
  invocation's Compaction Detector reads the high-water mark back through
  \<open>session_max_tokens\<close>. A \<open>stats_update\<close> holds the arguments of one such record call.
\<close>

record stats_update =
  upd_cost :: f64
  upd_added :: nat
  upd_removed :: nat
  upd_now :: string
  upd_date :: string
  upd_month :: string
  upd_tokens :: "usize option"

primrec record_run :: "stats_data \<Rightarrow> string \<Rightarrow> stats_update list \<Rightarrow> stats_data" where
  "record_run st sid [] = st"
| "record_run st sid (upd # us) =
     record_run (update_session st sid (upd_cost upd) (upd_added upd) (upd_removed upd) (upd_now upd)
                   (upd_date upd) (upd_month upd) (upd_tokens upd)) sid us"

definition detector_env :: "'a compaction_env_scheme \<Rightarrow> stats_data \<Rightarrow> 'a compaction_env_scheme" where
  "detector_env env st = env\<lparr>stats_db := Some (session_max_tokens st)\<rparr>"

definition high_water :: "usize \<Rightarrow> stats_update list \<Rightarrow> usize" where
  "high_water m us = fold (\<lambda>upd acc. max acc (unwrap_or 0 (upd_tokens upd))) us m"

definition example_update :: "usize \<Rightarrow> stats_update" where
  "example_update t = \<lparr>upd_cost = 1, upd_added = 0, upd_removed = 0, upd_now = ''T'',
     upd_date = ''D'', upd_month = ''M'', upd_tokens = Some t\<rparr>"

subsection \<open>Lemmas on runs\<close>

lemma record_run_max_tokens:
  "sessions st sid = Some s \<Longrightarrow>
   \<exists>s'. sessions (record_run st sid us) sid = Some s' \<and>
        max_tokens_seen s' = high_water (max_tokens_seen s) us"
proof (induction us arbitrary: st s)
  case Nil
  then show ?case by (simp add: high_water_def)
next
  case (Cons upd us)
  let ?st = "update_session st sid (upd_cost upd) (upd_added upd) (upd_removed upd) (upd_now upd)
               (upd_date upd) (upd_month upd) (upd_tokens upd)"
  obtain s1 where s1: "sessions ?st sid = Some s1"
    and m1: "max_tokens_seen s1 = max (max_tokens_seen s) (unwrap_or 0 (upd_tokens upd))"
    using Cons.prems by (simp add: update_session_session)
  from Cons.IH [OF s1] m1 show ?case by (simp add: high_water_def)
qed

lemma record_run_inv: "stats_inv st \<Longrightarrow> stats_inv (record_run st sid us)"
  by (induction us arbitrary: st) (simp_all add: update_session_preserves_inv)

lemma hook_reports_detector_env [simp]:
  "hook_reports_compacting (detector_env env st) sid = hook_reports_compacting env sid"
  by (simp add: detector_env_def hook_reports_compacting_def split: option.split)

lemma transcript_fs_detector_env [simp]:
  "transcript_fs (detector_env env st) = transcript_fs env"
  by (simp add: detector_env_def)

lemma last_known_detector_env [simp]:
  "last_known_tokens (detector_env env st) (Some sid) = session_max_tokens st sid"
  by (simp add: detector_env_def last_known_tokens_def)

subsection \<open>Properties spanning the Stats Store and the Compaction Detector\<close>

text \<open>
  C15. Once a session is in the Stats Store, whatever updates follow, the detector (with
  no hook reporting compaction and a transcript not modified in the last ten seconds)
  reports \<open>RecentlyCompleted\<close> exactly while the current token count is below half the
  session's high-water mark, the largest token count ever recorded for it. Nothing
  in the code resets the high-water mark after a compaction, so the state persists for
  as long as the conversation stays below half of its pre-compaction size, however
  long ago the compaction was.
\<close>

theorem recently_completed_persists:
  assumes "sessions st sid = Some s"
    and "\<not> hook_reports_compacting env (Some sid)"
    and "\<not> recently_modified (transcript_fs env) path"
  shows "detect_compaction_state (detector_env env (record_run st sid us)) path c (Some sid) = RecentlyCompleted
         \<longleftrightarrow> 2 * c < high_water (max_tokens_seen s) us"
proof -
  from record_run_max_tokens [OF assms(1)] obtain s' where
    "sessions (record_run st sid us) sid = Some s'" "max_tokens_seen s' = high_water (max_tokens_seen s) us"
    by blast
  then have "session_max_tokens (record_run st sid us) sid = Some (high_water (max_tokens_seen s) us)"
    by (simp add: session_max_tokens_def)
  with assms(2,3) show ?thesis
    by (simp add: detect_compaction_state_def classify_compaction_Some)
qed

theorem recently_completed_persists_witness:
  "sessions (record_run empty_stats ''S'' [example_update 180000]) ''S'' =
     Some \<lparr>start_time = ''T'', last_updated = ''T'', cost = 1, lines_added = 0, lines_removed = 0,
           max_tokens_seen = 180000\<rparr> \<and>
   \<not> hook_reports_compacting (example_env 3600) (Some ''S'') \<and>
   \<not> recently_modified (transcript_fs (example_env 3600)) ''/t/s.jsonl'' \<and>
   detect_compaction_state
     (detector_env (example_env 3600)
        (record_run (record_run empty_stats ''S'' [example_update 180000]) ''S''
           [example_update 40000, example_update 50000, example_update 60000]))
     ''/t/s.jsonl'' 70000 (Some ''S'') = RecentlyCompleted"
proof -
  let ?st = "record_run empty_stats ''S'' [example_update 180000]"
  let ?s = "\<lparr>start_time = ''T'', last_updated = ''T'', cost = 1::real, lines_added = 0::nat,
           lines_removed = 0::nat, max_tokens_seen = 180000::nat\<rparr>"
  have h1: "sessions ?st ''S'' = Some ?s"
    by (simp add: example_update_def update_session_session empty_stats_def)
  have h2: "\<not> hook_reports_compacting (example_env 3600) (Some ''S'')"
    by (simp add: hook_reports_compacting_def example_env_def)
  have h3: "\<not> recently_modified (transcript_fs (example_env 3600)) ''/t/s.jsonl''"
    by (simp add: recently_modified_def example_env_def example_fs_def path_defs
        eq_ignore_ascii_case_def ascii_lower_code_def)
  have hw: "2 * 70000 < high_water 180000
      [example_update 40000, example_update 50000, example_update 60000]"
    by (simp add: high_water_def example_update_def)
  from recently_completed_persists [OF h1 h2 h3, of "[example_update 40000, example_update 50000, example_update 60000]" 70000] hw
  have "detect_compaction_state
     (detector_env (example_env 3600)
        (record_run ?st ''S'' [example_update 40000, example_update 50000, example_update 60000]))
     ''/t/s.jsonl'' 70000 (Some ''S'') = RecentlyCompleted" by simp
  with h1 h2 h3 show ?thesis by simp
qed

text \<open>
  The ledger's invariant (all-time totals equal the sums over the sessions, the
  session count their number, and the daily and monthly buckets add up to the same
  totals) holds after any sequence of record calls from the empty store.
\<close>

theorem record_run_preserves_ledger:
  "stats_inv (record_run empty_stats sid us)"
  by (rule record_run_inv [OF stats_inv_empty])

end
